theory Spec2Isabelle
  imports Main "HOL-Library.Word"
begin

unbundle bit_operations_syntax

section \<open>Constants of the kernel and of the user API\<close>

text \<open>
  The netlink front end of the tunnel device (\<^verbatim>\<open>src/netlink.c\<close>) uses error numbers,
  address families and structure sizes of the Linux headers, and flag bits of
  \<^verbatim>\<open>uapi/wireguard.h\<close>. They are fixed here with their values on x86-64 Linux.
\<close>

type_synonym bytes = "8 word list"

definition EBADR :: int where "EBADR = 53"
definition ENODEV :: int where "ENODEV = 19"
definition EOPNOTSUPP :: int where "EOPNOTSUPP = 95"
definition EINVAL :: int where "EINVAL = 22"
definition ENOMEM :: int where "ENOMEM = 12"
definition EMSGSIZE :: int where "EMSGSIZE = 90"

definition AF_INET :: "16 word" where "AF_INET = 2"
definition AF_INET6 :: "16 word" where "AF_INET6 = 10"

definition NOISE_PUBLIC_KEY_LEN :: nat where "NOISE_PUBLIC_KEY_LEN = 32"
definition NOISE_SYMMETRIC_KEY_LEN :: nat where "NOISE_SYMMETRIC_KEY_LEN = 32"

definition sizeof_in_addr :: nat where "sizeof_in_addr = 4"
definition sizeof_in6_addr :: nat where "sizeof_in6_addr = 16"
definition sizeof_sockaddr_in :: nat where "sizeof_sockaddr_in = 16"
definition sizeof_sockaddr_in6 :: nat where "sizeof_sockaddr_in6 = 28"
definition sizeof_timeval :: nat where "sizeof_timeval = 16"

definition WGDEVICE_F_REPLACE_PEERS :: "32 word" where "WGDEVICE_F_REPLACE_PEERS = 1"
definition WGPEER_F_REMOVE_ME :: "32 word" where "WGPEER_F_REMOVE_ME = 1"
definition WGPEER_F_REPLACE_ALLOWEDIPS :: "32 word" where "WGPEER_F_REPLACE_ALLOWEDIPS = 2"

definition KBUILD_MODNAME :: string where "KBUILD_MODNAME = ''wireguard''"

text \<open>Values of C type \<^verbatim>\<open>unsigned int\<close> and \<^verbatim>\<open>u16\<close> kept as naturals, the wrap-around written out.\<close>

definition u32 :: "nat \<Rightarrow> nat" where "u32 n = n mod 4294967296"
definition u16 :: "nat \<Rightarrow> nat" where "u16 n = n mod 65536"

text \<open>\<^verbatim>\<open>memcmp(a, b, n) == 0\<close> and \<^verbatim>\<open>memzero_explicit(buf, len)\<close> with \<^verbatim>\<open>len\<close> the whole buffer.\<close>

definition memcmp_eq :: "bytes \<Rightarrow> bytes \<Rightarrow> nat \<Rightarrow> bool" where
  "memcmp_eq a b n = (take n a = take n b)"

definition memzero_explicit :: "bytes \<Rightarrow> bytes" where
  "memzero_explicit buf = replicate (length buf) 0"

section \<open>Device, peers and routing table\<close>

record sockaddr =
  sa_family :: "16 word"
  sa_data :: bytes

text \<open>\<^verbatim>\<open>nla_len\<close> of an attribute holding a socket address: the family field and the rest.\<close>

definition sockaddr_len :: "sockaddr \<Rightarrow> nat" where
  "sockaddr_len a = 2 + length (sa_data a)"

record endpoint =
  ep_addr :: sockaddr
  ep_src :: bytes

definition endpoint_zero :: endpoint where
  "endpoint_zero = \<lparr>ep_addr = \<lparr>sa_family = 0, sa_data = []\<rparr>, ep_src = []\<rparr>"

text \<open>
  A peer. \<open>peer_id\<close> stands for the address of the C object: the dump cursor and the
  routing table refer to a peer by it, and it is never reused.
\<close>

record wireguard_peer =
  peer_id :: nat
  remote_static :: bytes
  preshared_key :: bytes
  peer_endpoint :: endpoint
  persistent_keepalive_interval :: nat
  walltime_last_handshake :: bytes
  rx_bytes :: "64 word"
  tx_bytes :: "64 word"

record allowedip =
  ip_family :: "16 word"
  ip_addr :: bytes
  ip_cidr :: "8 word"

datatype tx_event = Keepalive nat | Staged_packets nat

text \<open>
  The network device together with its private area (\<^verbatim>\<open>netdev_priv(dev)\<close>): the fields of
  \<^verbatim>\<open>struct net_device\<close> that the code reads come first, then those of
  \<^verbatim>\<open>struct wireguard_device\<close>. The routing table is the list of its entries with the
  owning peer, in the table's enumeration order; \<open>tx_log\<close> records the calls into the
  packet path.
\<close>

record wireguard_device =
  dev_ifindex :: "32 word"
  dev_name :: string
  dev_rtnl_kind :: "string option"
  dev_running :: bool
  incoming_port :: "16 word"
  fwmark :: "32 word"
  device_update_gen :: "32 word"
  has_identity :: bool
  static_private :: bytes
  static_public :: bytes
  peer_list :: "wireguard_peer list"
  peer_id_next :: nat
  peer_routing_table :: "(allowedip \<times> nat) list"
  sock_open :: bool
  tx_log :: "tx_event list"

text \<open>
  What the collaborators outside this file decide: the tick rate, whether the transport
  can be bound again, Curve25519, the static-static precomputation, and whether memory
  for a peer or a routing-table node is available.
\<close>

record env =
  env_HZ :: nat
  env_socket_init :: "16 word \<Rightarrow> int"
  env_curve25519_generate_public :: "bytes \<Rightarrow> bool \<times> bytes"
  env_noise_precompute_static_static :: "bytes \<Rightarrow> bytes \<Rightarrow> bool"
  env_peer_create_fails :: "bytes \<Rightarrow> bool"
  env_routing_table_insert_fails :: "allowedip \<Rightarrow> bool"

section \<open>Collaborators\<close>

text \<open>Modelled from the spec: the peer hashtable is missing from the sources; a lookup finds
  the peer of the device whose public key has the same 32 bytes.\<close>

definition pubkey_hashtable_lookup :: "wireguard_device \<Rightarrow> bytes \<Rightarrow> wireguard_peer option" where
  "pubkey_hashtable_lookup wg pubkey =
     find (\<lambda>p. memcmp_eq (remote_static p) pubkey NOISE_PUBLIC_KEY_LEN) (peer_list wg)"

text \<open>Applying a change to the peer object at a given address.\<close>

definition peer_update :: "nat \<Rightarrow> (wireguard_peer \<Rightarrow> wireguard_peer) \<Rightarrow> wireguard_device \<Rightarrow> wireguard_device" where
  "peer_update pid f wg =
     wg\<lparr>peer_list := map (\<lambda>p. if peer_id p = pid then f p else p) (peer_list wg)\<rparr>"

definition peer_get :: "wireguard_device \<Rightarrow> nat \<Rightarrow> wireguard_peer option" where
  "peer_get wg pid = find (\<lambda>p. peer_id p = pid) (peer_list wg)"

text \<open>Modelled from the spec: \<^verbatim>\<open>socket_clear_peer_endpoint_src\<close> is missing from the sources;
  it forgets the cached source address of the peer's endpoint.\<close>

definition socket_clear_peer_endpoint_src :: "wireguard_peer \<Rightarrow> wireguard_peer" where
  "socket_clear_peer_endpoint_src p = p\<lparr>peer_endpoint := (peer_endpoint p)\<lparr>ep_src := []\<rparr>\<rparr>"

text \<open>Modelled from the spec: \<^verbatim>\<open>socket_set_peer_endpoint\<close> is missing from the sources;
  it installs the given endpoint.\<close>

definition socket_set_peer_endpoint :: "endpoint \<Rightarrow> wireguard_peer \<Rightarrow> wireguard_peer" where
  "socket_set_peer_endpoint e p = p\<lparr>peer_endpoint := e\<rparr>"

text \<open>Modelled from the spec: \<^verbatim>\<open>routing_table_remove_by_peer\<close> is missing from the sources;
  it releases every routing-table entry of the peer.\<close>

definition routing_table_remove_by_peer :: "nat \<Rightarrow> wireguard_device \<Rightarrow> wireguard_device" where
  "routing_table_remove_by_peer pid wg =
     wg\<lparr>peer_routing_table := filter (\<lambda>(e, owner). owner \<noteq> pid) (peer_routing_table wg)\<rparr>"

text \<open>Modelled from the spec: \<^verbatim>\<open>routing_table_insert_v4\<close> and \<^verbatim>\<open>routing_table_insert_v6\<close> are
  missing from the sources; an insertion either fails for lack of memory and leaves the
  table as it was, or makes the peer the owner of the prefix.\<close>

definition routing_table_insert :: "env \<Rightarrow> allowedip \<Rightarrow> nat \<Rightarrow> wireguard_device \<Rightarrow> int \<times> wireguard_device" where
  "routing_table_insert env e pid wg =
     (if env_routing_table_insert_fails env e then (- ENOMEM, wg)
      else (0, wg\<lparr>peer_routing_table :=
                    filter (\<lambda>(e', owner). e' \<noteq> e) (peer_routing_table wg) @ [(e, pid)]\<rparr>))"

text \<open>Modelled from the spec: \<^verbatim>\<open>peer_remove\<close> and \<^verbatim>\<open>peer_remove_all\<close> are missing from the
  sources; a removed peer leaves the peer list and loses its routing-table entries.\<close>

definition peer_remove :: "nat \<Rightarrow> wireguard_device \<Rightarrow> wireguard_device" where
  "peer_remove pid wg =
     (routing_table_remove_by_peer pid wg)\<lparr>peer_list := filter (\<lambda>p. peer_id p \<noteq> pid) (peer_list wg)\<rparr>"

definition peer_remove_all :: "wireguard_device \<Rightarrow> wireguard_device" where
  "peer_remove_all wg = wg\<lparr>peer_list := [], peer_routing_table := []\<rparr>"

text \<open>Modelled from the spec: \<^verbatim>\<open>peer_create\<close> is missing from the sources; it returns no peer
  when the allocation or the handshake initialisation fails, and otherwise appends a new
  peer with the given public key, the given pre-shared key if there is one, and every
  other field zero.\<close>

definition peer_create :: "env \<Rightarrow> wireguard_device \<Rightarrow> bytes \<Rightarrow> bytes option \<Rightarrow> (nat \<times> wireguard_device) option" where
  "peer_create env wg public_key psk =
     (if env_peer_create_fails env public_key then None
      else Some (peer_id_next wg,
        wg\<lparr>peer_list := peer_list wg @
              [\<lparr>peer_id = peer_id_next wg,
                remote_static = take NOISE_PUBLIC_KEY_LEN public_key,
                preshared_key = (case psk of None \<Rightarrow> replicate NOISE_SYMMETRIC_KEY_LEN 0
                                 | Some k \<Rightarrow> take NOISE_SYMMETRIC_KEY_LEN k),
                peer_endpoint = endpoint_zero,
                persistent_keepalive_interval = 0,
                walltime_last_handshake = replicate sizeof_timeval 0,
                rx_bytes = 0, tx_bytes = 0\<rparr>],
           peer_id_next := Suc (peer_id_next wg)\<rparr>))"

text \<open>Modelled from the spec: \<^verbatim>\<open>noise_set_static_identity_private_key\<close> is missing from the
  sources; it stores the private key and the public key derived from it, and the device
  has an identity when the derivation succeeds.\<close>

definition noise_set_static_identity_private_key :: "env \<Rightarrow> bytes \<Rightarrow> wireguard_device \<Rightarrow> wireguard_device" where
  "noise_set_static_identity_private_key env private_key wg =
     wg\<lparr>static_private := take NOISE_PUBLIC_KEY_LEN private_key,
        has_identity := fst (env_curve25519_generate_public env private_key),
        static_public := snd (env_curve25519_generate_public env private_key)\<rparr>"

text \<open>Modelled from the spec: \<^verbatim>\<open>packet_send_keepalive\<close> and \<^verbatim>\<open>packet_send_staged_packets\<close>
  are missing from the sources; the calls are recorded.\<close>

definition packet_send_keepalive :: "nat \<Rightarrow> wireguard_device \<Rightarrow> wireguard_device" where
  "packet_send_keepalive pid wg = wg\<lparr>tx_log := tx_log wg @ [Keepalive pid]\<rparr>"

definition packet_send_staged_packets :: "nat \<Rightarrow> wireguard_device \<Rightarrow> wireguard_device" where
  "packet_send_staged_packets pid wg = wg\<lparr>tx_log := tx_log wg @ [Staged_packets pid]\<rparr>"

section \<open>Attributes of a request\<close>

text \<open>
  The attribute tables that \<^verbatim>\<open>nla_parse_nested\<close> and the generic netlink core fill in:
  one optional entry per attribute type, holding the payload. A nested list keeps, for
  each element, the return value of \<^verbatim>\<open>nla_parse_nested\<close> on it and the table it filled.
\<close>

record allowedip_attrs =
  wgallowedip_a_family :: "16 word option"
  wgallowedip_a_ipaddr :: "bytes option"
  wgallowedip_a_cidr_mask :: "8 word option"

record peer_attrs =
  wgpeer_a_public_key :: "bytes option"
  wgpeer_a_preshared_key :: "bytes option"
  wgpeer_a_flags :: "32 word option"
  wgpeer_a_endpoint :: "sockaddr option"
  wgpeer_a_persistent_keepalive_interval :: "16 word option"
  wgpeer_a_allowedips :: "(int \<times> allowedip_attrs) list option"

record device_attrs =
  wgdevice_a_ifindex :: "32 word option"
  wgdevice_a_ifname :: "string option"
  wgdevice_a_private_key :: "bytes option"
  wgdevice_a_flags :: "32 word option"
  wgdevice_a_listen_port :: "16 word option"
  wgdevice_a_fwmark :: "32 word option"
  wgdevice_a_peers :: "(int \<times> peer_attrs) list option"

section \<open>Looking the device up\<close>

fun dev_get_by :: "(wireguard_device \<Rightarrow> bool) \<Rightarrow> wireguard_device list \<Rightarrow> nat option" where
  "dev_get_by P [] = None"
| "dev_get_by P (d # ds) = (if P d then Some 0 else map_option Suc (dev_get_by P ds))"

definition lookup_interface :: "wireguard_device list \<Rightarrow> device_attrs \<Rightarrow> int + nat" where
  "lookup_interface net attrs =
     (if (wgdevice_a_ifindex attrs = None) = (wgdevice_a_ifname attrs = None) then Inl (- EBADR)
      else
        (case (case wgdevice_a_ifindex attrs of
                 Some i \<Rightarrow> dev_get_by (\<lambda>d. dev_ifindex d = i) net
               | None \<Rightarrow> (case wgdevice_a_ifname attrs of
                            Some n \<Rightarrow> dev_get_by (\<lambda>d. dev_name d = n) net
                          | None \<Rightarrow> None)) of
           None \<Rightarrow> Inl (- ENODEV)
         | Some k \<Rightarrow>
             if dev_rtnl_kind (net ! k) \<noteq> Some KBUILD_MODNAME then Inl (- EOPNOTSUPP)
             else Inr k))"

section \<open>Applying a configuration\<close>

definition set_device_port :: "env \<Rightarrow> wireguard_device \<Rightarrow> 16 word \<Rightarrow> int \<times> wireguard_device" where
  "set_device_port env wg port =
     (if incoming_port wg = port then (0, wg)
      else
        let wg = wg\<lparr>sock_open := False\<rparr>;
            wg = wg\<lparr>incoming_port := port\<rparr>;
            wg = wg\<lparr>peer_list := map socket_clear_peer_endpoint_src (peer_list wg)\<rparr>
        in if \<not> dev_running wg then (0, wg)
           else (env_socket_init env port, wg\<lparr>sock_open := (env_socket_init env port = 0)\<rparr>))"

definition set_allowedip :: "env \<Rightarrow> wireguard_device \<Rightarrow> nat \<Rightarrow> allowedip_attrs \<Rightarrow> int \<times> wireguard_device" where
  "set_allowedip env wg peer attrs =
     (case (wgallowedip_a_family attrs, wgallowedip_a_ipaddr attrs, wgallowedip_a_cidr_mask attrs) of
        (Some family, Some ipaddr, Some cidr) \<Rightarrow>
          if family = AF_INET \<and> cidr \<le> 32 \<and> length ipaddr = sizeof_in_addr then
            routing_table_insert env \<lparr>ip_family = AF_INET, ip_addr = ipaddr, ip_cidr = cidr\<rparr> peer wg
          else if family = AF_INET6 \<and> cidr \<le> 128 \<and> length ipaddr = sizeof_in6_addr then
            routing_table_insert env \<lparr>ip_family = AF_INET6, ip_addr = ipaddr, ip_cidr = cidr\<rparr> peer wg
          else (- EINVAL, wg)
      | _ \<Rightarrow> (- EINVAL, wg))"

text \<open>The loop over the nested allowed-IP attributes in \<^verbatim>\<open>set_peer\<close>; \<open>ret\<close> is the value the
  variable of that name holds when the loop is left.\<close>

fun set_peer_allowedips :: "env \<Rightarrow> wireguard_device \<Rightarrow> nat \<Rightarrow> int \<Rightarrow> (int \<times> allowedip_attrs) list \<Rightarrow> int \<times> wireguard_device" where
  "set_peer_allowedips env wg peer ret [] = (ret, wg)"
| "set_peer_allowedips env wg peer ret ((parsed, allowedip) # rest) =
     (if parsed < 0 then (parsed, wg)
      else case set_allowedip env wg peer allowedip of
             (ret', wg') \<Rightarrow> if ret' < 0 then (ret', wg') else set_peer_allowedips env wg' peer ret' rest)"

text \<open>The label \<^verbatim>\<open>out\<close> of \<^verbatim>\<open>set_peer\<close>: the buffer of the pre-shared key attribute is zeroed.\<close>

definition set_peer_out :: "peer_attrs \<Rightarrow> peer_attrs" where
  "set_peer_out attrs = attrs\<lparr>wgpeer_a_preshared_key := map_option memzero_explicit (wgpeer_a_preshared_key attrs)\<rparr>"

text \<open>The attributes read at the head of \<^verbatim>\<open>set_peer\<close>: the public key must be there with its
  exact length, the pre-shared key counts only with its exact length, the flags are zero
  when absent.\<close>

definition set_peer_public_key :: "peer_attrs \<Rightarrow> bytes option" where
  "set_peer_public_key attrs =
     (case wgpeer_a_public_key attrs of
        Some k \<Rightarrow> if length k = NOISE_PUBLIC_KEY_LEN then Some k else None
      | None \<Rightarrow> None)"

definition set_peer_preshared_key :: "peer_attrs \<Rightarrow> bytes option" where
  "set_peer_preshared_key attrs =
     (case wgpeer_a_preshared_key attrs of
        Some k \<Rightarrow> if length k = NOISE_SYMMETRIC_KEY_LEN then Some k else None
      | None \<Rightarrow> None)"

definition set_peer_flags :: "peer_attrs \<Rightarrow> 32 word" where
  "set_peer_flags attrs = (case wgpeer_a_flags attrs of Some f \<Rightarrow> f | None \<Rightarrow> 0)"

text \<open>Finding the peer or adding a new one: \<open>Inl\<close> is the value returned through
  \<^verbatim>\<open>goto out\<close>, \<open>Inr\<close> the peer to work on.\<close>

definition set_peer_lookup :: "env \<Rightarrow> wireguard_device \<Rightarrow> peer_attrs \<Rightarrow> bytes \<Rightarrow> int + nat \<times> wireguard_device" where
  "set_peer_lookup env wg attrs public_key =
     (case pubkey_hashtable_lookup wg public_key of
        Some p \<Rightarrow> Inr (peer_id p, wg)
      | None \<Rightarrow>
          if set_peer_flags attrs AND WGPEER_F_REMOVE_ME \<noteq> 0 then Inl (- ENODEV)
          else if has_identity wg \<and> memcmp_eq public_key (static_public wg) NOISE_PUBLIC_KEY_LEN
            then Inl 0
          else (case peer_create env wg public_key (set_peer_preshared_key attrs) of
                  None \<Rightarrow> Inl (- ENOMEM)
                | Some created \<Rightarrow> Inr created))"

text \<open>The pre-shared key, the endpoint and the flag that replaces the allowed IPs.\<close>

definition set_peer_keys_and_endpoint :: "peer_attrs \<Rightarrow> nat \<Rightarrow> wireguard_device \<Rightarrow> wireguard_device" where
  "set_peer_keys_and_endpoint attrs peer wg =
     (let wg = (case set_peer_preshared_key attrs of
                  Some k \<Rightarrow> peer_update peer (\<lambda>p. p\<lparr>preshared_key := take NOISE_SYMMETRIC_KEY_LEN k\<rparr>) wg
                | None \<Rightarrow> wg);
          wg = (case wgpeer_a_endpoint attrs of
                  Some addr \<Rightarrow>
                    if (sockaddr_len addr = sizeof_sockaddr_in \<and> sa_family addr = AF_INET)
                       \<or> (sockaddr_len addr = sizeof_sockaddr_in6 \<and> sa_family addr = AF_INET6)
                    then peer_update peer (socket_set_peer_endpoint (endpoint_zero\<lparr>ep_addr := addr\<rparr>)) wg
                    else wg
                | None \<Rightarrow> wg)
      in if set_peer_flags attrs AND WGPEER_F_REPLACE_ALLOWEDIPS \<noteq> 0
         then routing_table_remove_by_peer peer wg else wg)"

text \<open>The keepalive interval and the flush of the staged packets.\<close>

definition set_peer_keepalive_and_flush :: "env \<Rightarrow> peer_attrs \<Rightarrow> nat \<Rightarrow> wireguard_device \<Rightarrow> wireguard_device" where
  "set_peer_keepalive_and_flush env attrs peer wg =
     (let wg = (case wgpeer_a_persistent_keepalive_interval attrs of
                  Some interval \<Rightarrow>
                    let send_keepalive =
                          (case peer_get wg peer of
                             Some p \<Rightarrow> persistent_keepalive_interval p = 0
                           | None \<Rightarrow> False)
                          \<and> interval \<noteq> 0 \<and> dev_running wg;
                        wg = peer_update peer
                               (\<lambda>p. p\<lparr>persistent_keepalive_interval := unat interval * env_HZ env\<rparr>) wg
                    in if send_keepalive then packet_send_keepalive peer wg else wg
                | None \<Rightarrow> wg)
      in if dev_running wg then packet_send_staged_packets peer wg else wg)"

text \<open>Everything \<^verbatim>\<open>set_peer\<close> does to a peer that stays: keys and endpoint, the allowed
  IPs (a negative value leaves through \<^verbatim>\<open>goto out\<close>), keepalive and flush.\<close>

definition set_peer_configure :: "env \<Rightarrow> peer_attrs \<Rightarrow> nat \<Rightarrow> wireguard_device \<Rightarrow> int \<times> wireguard_device" where
  "set_peer_configure env attrs peer wg =
     (case (case wgpeer_a_allowedips attrs of
              Some l \<Rightarrow> set_peer_allowedips env (set_peer_keys_and_endpoint attrs peer wg) peer 0 l
            | None \<Rightarrow> (0, set_peer_keys_and_endpoint attrs peer wg)) of
        (ret, wg') \<Rightarrow>
          if ret < 0 then (ret, wg') else (ret, set_peer_keepalive_and_flush env attrs peer wg'))"

definition set_peer :: "env \<Rightarrow> wireguard_device \<Rightarrow> peer_attrs \<Rightarrow> int \<times> wireguard_device \<times> peer_attrs" where
  "set_peer env wg attrs =
     (case set_peer_public_key attrs of
        None \<Rightarrow> (- EINVAL, wg, set_peer_out attrs)
      | Some public_key \<Rightarrow>
          (case set_peer_lookup env wg attrs public_key of
             Inl ret \<Rightarrow> (ret, wg, set_peer_out attrs)
           | Inr (peer, wg1) \<Rightarrow>
               if set_peer_flags attrs AND WGPEER_F_REMOVE_ME \<noteq> 0
               then (0, peer_remove peer wg1, set_peer_out attrs)
               else (case set_peer_configure env attrs peer wg1 of
                       (ret, wg2) \<Rightarrow> (ret, wg2, set_peer_out attrs))))"

text \<open>The loop over the nested peer attributes in \<^verbatim>\<open>set\<close>. It gives back the list with the
  buffers as the calls of \<^verbatim>\<open>set_peer\<close> left them.\<close>

fun set_peers :: "env \<Rightarrow> wireguard_device \<Rightarrow> (int \<times> peer_attrs) list \<Rightarrow> int \<times> wireguard_device \<times> (int \<times> peer_attrs) list" where
  "set_peers env wg [] = (0, wg, [])"
| "set_peers env wg ((parsed, peer) # rest) =
     (if parsed < 0 then (parsed, wg, (parsed, peer) # rest)
      else case set_peer env wg peer of
             (ret, wg', peer') \<Rightarrow>
               if ret < 0 then (ret, wg', (parsed, peer') # rest)
               else (case set_peers env wg' rest of
                       (ret', wg'', rest') \<Rightarrow> (ret', wg'', (parsed, peer') # rest')))"

text \<open>The label \<^verbatim>\<open>out_nodev\<close> of \<^verbatim>\<open>set\<close>: the buffer of the private key attribute is zeroed.\<close>

definition set_out_nodev :: "device_attrs \<Rightarrow> device_attrs" where
  "set_out_nodev attrs = attrs\<lparr>wgdevice_a_private_key := map_option memzero_explicit (wgdevice_a_private_key attrs)\<rparr>"

text \<open>The body of \<^verbatim>\<open>set\<close> between taking and releasing the device update lock.\<close>

definition set_locked :: "env \<Rightarrow> wireguard_device \<Rightarrow> device_attrs \<Rightarrow> int \<times> wireguard_device \<times> device_attrs" where
  "set_locked env wg attrs =
     (let wg = wg\<lparr>device_update_gen := device_update_gen wg + 1\<rparr>;
          wg = (case wgdevice_a_fwmark attrs of
                  Some m \<Rightarrow> wg\<lparr>fwmark := m, peer_list := map socket_clear_peer_endpoint_src (peer_list wg)\<rparr>
                | None \<Rightarrow> wg)
      in
      (case (case wgdevice_a_listen_port attrs of
               Some port \<Rightarrow> set_device_port env wg port
             | None \<Rightarrow> (0, wg)) of
         (ret, wg) \<Rightarrow>
           if ret \<noteq> 0 then (ret, wg, attrs)
           else
             let wg = (case wgdevice_a_flags attrs of
                         Some f \<Rightarrow> if f AND WGDEVICE_F_REPLACE_PEERS \<noteq> 0 then peer_remove_all wg else wg
                       | None \<Rightarrow> wg);
                 wg = (case wgdevice_a_private_key attrs of
                         Some private_key \<Rightarrow>
                           if length private_key = NOISE_PUBLIC_KEY_LEN then
                             let public_key = snd (env_curve25519_generate_public env private_key);
                                 wg = (case pubkey_hashtable_lookup wg public_key of
                                         Some p \<Rightarrow> peer_remove (peer_id p) wg
                                       | None \<Rightarrow> wg);
                                 wg = noise_set_static_identity_private_key env private_key wg
                             in fold (\<lambda>p wg. if \<not> env_noise_precompute_static_static env (static_private wg) (remote_static p)
                                             then peer_remove (peer_id p) wg else wg)
                                     (peer_list wg) wg
                           else wg
                       | None \<Rightarrow> wg)
             in
             (case wgdevice_a_peers attrs of
                Some l \<Rightarrow> (case set_peers env wg l of
                             (ret, wg, l') \<Rightarrow> (ret, wg, attrs\<lparr>wgdevice_a_peers := Some l'\<rparr>))
              | None \<Rightarrow> (0, wg, attrs))))"

definition set_dev :: "env \<Rightarrow> wireguard_device list \<Rightarrow> device_attrs \<Rightarrow> int \<times> wireguard_device list \<times> device_attrs" where
  "set_dev env net attrs =
     (case lookup_interface net attrs of
        Inl err \<Rightarrow> (err, net, set_out_nodev attrs)
      | Inr k \<Rightarrow>
          (case set_locked env (net ! k) attrs of
             (ret, wg, attrs') \<Rightarrow> (ret, net[k := wg], set_out_nodev attrs')))"

section \<open>Netlink messages\<close>

text \<open>
  A message under construction is the sequence of the items put into it. Attribute types
  are the enumerations of \<^verbatim>\<open>uapi/wireguard.h\<close>; the nests of the peer list and of an
  allowed-IP list are numbered, the number stored in the 16-bit type field. An attribute
  records the payload length it was put with, which decides the room it takes.
\<close>

datatype wgdevice_a = WGDEVICE_A_IFINDEX | WGDEVICE_A_IFNAME | WGDEVICE_A_PRIVATE_KEY
  | WGDEVICE_A_PUBLIC_KEY | WGDEVICE_A_FLAGS | WGDEVICE_A_LISTEN_PORT | WGDEVICE_A_FWMARK
  | WGDEVICE_A_PEERS

datatype wgpeer_a = WGPEER_A_PUBLIC_KEY | WGPEER_A_PRESHARED_KEY | WGPEER_A_FLAGS
  | WGPEER_A_ENDPOINT | WGPEER_A_PERSISTENT_KEEPALIVE_INTERVAL | WGPEER_A_LAST_HANDSHAKE_TIME
  | WGPEER_A_RX_BYTES | WGPEER_A_TX_BYTES | WGPEER_A_ALLOWEDIPS

datatype wgallowedip_a = WGALLOWEDIP_A_FAMILY | WGALLOWEDIP_A_IPADDR | WGALLOWEDIP_A_CIDR_MASK

datatype attrtype = Device wgdevice_a | Peer wgpeer_a | Allowedip wgallowedip_a | Index nat

datatype payload = U8 "8 word" | U16 "16 word" | U32 "32 word" | U64 "64 word"
  | Data bytes | Str string | Addr sockaddr

datatype nlitem = Genl_header bool | Attr attrtype nat payload | Nest_start attrtype | Nest_end

definition NLA_HDRLEN :: nat where "NLA_HDRLEN = 4"

definition nla_total_size :: "nat \<Rightarrow> nat" where
  "nla_total_size payload = ((NLA_HDRLEN + payload + 3) div 4) * 4"

text \<open>The netlink header and the generic netlink header; the family has no header of its own.\<close>

definition genlmsg_total_size :: nat where "genlmsg_total_size = 20"

fun item_size :: "nlitem \<Rightarrow> nat" where
  "item_size (Genl_header intr) = genlmsg_total_size"
| "item_size (Attr t attrlen d) = nla_total_size attrlen"
| "item_size (Nest_start t) = nla_total_size 0"
| "item_size Nest_end = 0"

record sk_buff =
  skb_end :: nat
  skb_len :: nat
  skb_data :: "nlitem list"

definition skb_tailroom :: "sk_buff \<Rightarrow> nat" where
  "skb_tailroom skb = skb_end skb - skb_len skb"

definition skb_put :: "sk_buff \<Rightarrow> nlitem \<Rightarrow> sk_buff" where
  "skb_put skb item = skb\<lparr>skb_len := skb_len skb + item_size item, skb_data := skb_data skb @ [item]\<rparr>"

text \<open>A pointer into the message: the byte offset and the number of items before it.\<close>

type_synonym nlptr = "nat \<times> nat"

definition skb_tail_pointer :: "sk_buff \<Rightarrow> nlptr" where
  "skb_tail_pointer skb = (skb_len skb, length (skb_data skb))"

definition nlmsg_trim :: "sk_buff \<Rightarrow> nlptr \<Rightarrow> sk_buff" where
  "nlmsg_trim skb mark = skb\<lparr>skb_len := fst mark, skb_data := take (snd mark) (skb_data skb)\<rparr>"

definition nla_put :: "sk_buff \<Rightarrow> attrtype \<Rightarrow> nat \<Rightarrow> payload \<Rightarrow> int \<times> sk_buff" where
  "nla_put skb t attrlen d =
     (if skb_tailroom skb < nla_total_size attrlen then (- EMSGSIZE, skb)
      else (0, skb_put skb (Attr t attrlen d)))"

text \<open>A chain \<^verbatim>\<open>nla_put(...) || nla_put(...) || ...\<close>: true when a put failed, the puts after
  it not attempted.\<close>

fun nla_put_any :: "sk_buff \<Rightarrow> (attrtype \<times> nat \<times> payload) list \<Rightarrow> bool \<times> sk_buff" where
  "nla_put_any skb [] = (False, skb)"
| "nla_put_any skb ((t, attrlen, d) # rest) =
     (case nla_put skb t attrlen d of
        (ret, skb') \<Rightarrow> if ret \<noteq> 0 then (True, skb') else nla_put_any skb' rest)"

definition nla_nest_start :: "sk_buff \<Rightarrow> attrtype \<Rightarrow> (nlptr \<times> sk_buff) option" where
  "nla_nest_start skb t =
     (if skb_tailroom skb < nla_total_size 0 then None
      else Some (skb_tail_pointer skb, skb_put skb (Nest_start t)))"

definition nla_nest_end :: "sk_buff \<Rightarrow> nlptr \<Rightarrow> sk_buff" where
  "nla_nest_end skb start = skb_put skb Nest_end"

definition nla_nest_cancel :: "sk_buff \<Rightarrow> nlptr \<Rightarrow> sk_buff" where
  "nla_nest_cancel skb start = nlmsg_trim skb start"

definition genlmsg_put :: "sk_buff \<Rightarrow> bool \<Rightarrow> (nlptr \<times> sk_buff) option" where
  "genlmsg_put skb intr =
     (if skb_tailroom skb < genlmsg_total_size then None
      else Some (skb_tail_pointer skb, skb_put skb (Genl_header intr)))"

definition genlmsg_cancel :: "sk_buff \<Rightarrow> nlptr option \<Rightarrow> sk_buff" where
  "genlmsg_cancel skb hdr = (case hdr of None \<Rightarrow> skb | Some mark \<Rightarrow> nlmsg_trim skb mark)"

section \<open>Dumping a configuration\<close>

record allowedips_ctx =
  ctx_skb :: sk_buff
  idx_cursor :: nat
  idx :: nat

text \<open>The length of the address put for an allowed IP:
  \<^verbatim>\<open>family == AF_INET6 ? sizeof(struct in6_addr) : sizeof(struct in_addr)\<close>.\<close>

definition allowedip_len :: "allowedip \<Rightarrow> nat" where
  "allowedip_len e = (if ip_family e = AF_INET6 then sizeof_in6_addr else sizeof_in_addr)"

definition get_allowedips :: "allowedips_ctx \<Rightarrow> allowedip \<Rightarrow> int \<times> allowedips_ctx" where
  "get_allowedips actx e =
     (let actx = actx\<lparr>idx := u32 (idx actx + 1)\<rparr> in
      if idx actx < idx_cursor actx then (0, actx)
      else
        (case nla_nest_start (ctx_skb actx) (Index (u16 (u32 (idx actx + 4294967295)))) of
           None \<Rightarrow> (- EMSGSIZE, actx)
         | Some (allowedip_nest, skb) \<Rightarrow>
             (case nla_put_any skb
                     [(Allowedip WGALLOWEDIP_A_CIDR_MASK, 1, U8 (ip_cidr e)),
                      (Allowedip WGALLOWEDIP_A_FAMILY, 2, U16 (ip_family e)),
                      (Allowedip WGALLOWEDIP_A_IPADDR, allowedip_len e,
                         Data (take (allowedip_len e) (ip_addr e)))] of
                (True, skb) \<Rightarrow> (- EMSGSIZE, actx\<lparr>ctx_skb := nla_nest_cancel skb allowedip_nest\<rparr>)
              | (False, skb) \<Rightarrow> (0, actx\<lparr>ctx_skb := nla_nest_end skb allowedip_nest\<rparr>))))"

text \<open>Modelled from the spec: \<^verbatim>\<open>routing_table_walk_ips_by_peer_sleepable\<close> is missing from the
  sources; it visits the entries of the peer in the table's enumeration order and stops
  at the first visit that does not return zero, returning that value.\<close>

fun routing_table_walk_ips_by_peer :: "(allowedip \<times> nat) list \<Rightarrow> 'c \<Rightarrow> nat \<Rightarrow> ('c \<Rightarrow> allowedip \<Rightarrow> int \<times> 'c) \<Rightarrow> int \<times> 'c" where
  "routing_table_walk_ips_by_peer [] ctx peer func = (0, ctx)"
| "routing_table_walk_ips_by_peer ((e, owner) # rest) ctx peer func =
     (if owner = peer then
        (case func ctx e of
           (ret, ctx') \<Rightarrow> if ret \<noteq> 0 then (ret, ctx') else routing_table_walk_ips_by_peer rest ctx' peer func)
      else routing_table_walk_ips_by_peer rest ctx peer func)"

text \<open>The attributes of a peer that are put only in the first message that carries it.\<close>

definition get_peer_fields :: "nat \<Rightarrow> wireguard_peer \<Rightarrow> sk_buff \<Rightarrow> bool \<times> sk_buff" where
  "get_peer_fields HZ peer skb =
     (case nla_put skb (Peer WGPEER_A_PRESHARED_KEY) NOISE_SYMMETRIC_KEY_LEN (Data (preshared_key peer)) of
        (fail, skb) \<Rightarrow>
          if fail \<noteq> 0 then (True, skb)
          else
            (case nla_put_any skb
                    [(Peer WGPEER_A_LAST_HANDSHAKE_TIME, sizeof_timeval, Data (walltime_last_handshake peer)),
                     (Peer WGPEER_A_PERSISTENT_KEEPALIVE_INTERVAL, 2,
                        U16 (of_nat (persistent_keepalive_interval peer div HZ))),
                     (Peer WGPEER_A_TX_BYTES, 8, U64 (tx_bytes peer)),
                     (Peer WGPEER_A_RX_BYTES, 8, U64 (rx_bytes peer))] of
               (True, skb) \<Rightarrow> (True, skb)
             | (False, skb) \<Rightarrow>
                 if sa_family (ep_addr (peer_endpoint peer)) = AF_INET then
                   (case nla_put skb (Peer WGPEER_A_ENDPOINT) sizeof_sockaddr_in (Addr (ep_addr (peer_endpoint peer))) of
                      (fail, skb) \<Rightarrow> (fail \<noteq> 0, skb))
                 else if sa_family (ep_addr (peer_endpoint peer)) = AF_INET6 then
                   (case nla_put skb (Peer WGPEER_A_ENDPOINT) sizeof_sockaddr_in6 (Addr (ep_addr (peer_endpoint peer))) of
                      (fail, skb) \<Rightarrow> (fail \<noteq> 0, skb))
                 else (False, skb)))"

definition get_peer :: "nat \<Rightarrow> wireguard_device \<Rightarrow> wireguard_peer \<Rightarrow> nat \<Rightarrow> nat \<Rightarrow> sk_buff \<Rightarrow> int \<times> nat \<times> sk_buff" where
  "get_peer HZ wg peer index allowedips_idx_cursor skb =
     (case nla_nest_start skb (Index (u16 index)) of
        None \<Rightarrow> (- EMSGSIZE, allowedips_idx_cursor, skb)
      | Some (peer_nest, skb) \<Rightarrow>
          (case nla_put skb (Peer WGPEER_A_PUBLIC_KEY) NOISE_PUBLIC_KEY_LEN (Data (remote_static peer)) of
             (fail, skb) \<Rightarrow>
               if fail \<noteq> 0 then (- EMSGSIZE, allowedips_idx_cursor, nla_nest_cancel skb peer_nest)
               else
                 (case (if allowedips_idx_cursor = 0 then get_peer_fields HZ peer skb else (False, skb)) of
                    (True, skb) \<Rightarrow> (- EMSGSIZE, allowedips_idx_cursor, nla_nest_cancel skb peer_nest)
                  | (False, skb) \<Rightarrow>
                      (case nla_nest_start skb (Peer WGPEER_A_ALLOWEDIPS) of
                         None \<Rightarrow> (- EMSGSIZE, allowedips_idx_cursor, nla_nest_cancel skb peer_nest)
                       | Some (allowedips_nest, skb) \<Rightarrow>
                           (case routing_table_walk_ips_by_peer (peer_routing_table wg)
                                   \<lparr>ctx_skb = skb, idx_cursor = allowedips_idx_cursor, idx = 0\<rparr>
                                   (peer_id peer) get_allowedips of
                              (ret, ctx) \<Rightarrow>
                                if ret \<noteq> 0 then
                                  (- EMSGSIZE, idx ctx,
                                   nla_nest_end (nla_nest_end (ctx_skb ctx) allowedips_nest) peer_nest)
                                else
                                  (0, 0,
                                   nla_nest_end (nla_nest_end (ctx_skb ctx) allowedips_nest) peer_nest))))))"

record netlink_callback =
  cb_nlh :: "int \<times> device_attrs"
  cb_args0 :: "nat option"
  cb_args1 :: "nat option"
  cb_args2 :: nat
  cb_seq :: "32 word"
  cb_prev_seq :: "32 word"

definition get_start :: "wireguard_device list \<Rightarrow> netlink_callback \<Rightarrow> int \<times> netlink_callback" where
  "get_start net cb =
     (case cb_nlh cb of
        (ret, attrs) \<Rightarrow>
          if ret < 0 then (ret, cb)
          else (case lookup_interface net attrs of
                  Inl err \<Rightarrow> (err, cb)
                | Inr k \<Rightarrow> (0, cb\<lparr>cb_args0 := Some k\<rparr>)))"

text \<open>\<^verbatim>\<open>list_prepare_entry\<close> and \<^verbatim>\<open>list_for_each_entry_continue\<close>: the peers after the cursor,
  all of them when there is no cursor.\<close>

definition peers_after :: "nat option \<Rightarrow> wireguard_peer list \<Rightarrow> wireguard_peer list" where
  "peers_after last_peer_cursor peers =
     (case last_peer_cursor of
        None \<Rightarrow> peers
      | Some l \<Rightarrow> tl (dropWhile (\<lambda>p. peer_id p \<noteq> l) peers))"

text \<open>The loop of \<^verbatim>\<open>get\<close> over the peers; it returns \<open>done\<close>, \<open>next_peer_cursor\<close>, the
  allowed-IP cursor and the message.\<close>

fun get_peers :: "nat \<Rightarrow> wireguard_device \<Rightarrow> wireguard_peer list \<Rightarrow> nat \<Rightarrow> nat \<Rightarrow> nat option \<Rightarrow> sk_buff \<Rightarrow> bool \<times> nat option \<times> nat \<times> sk_buff" where
  "get_peers HZ wg [] peer_idx allowedips_idx_cursor next_peer_cursor skb =
     (True, next_peer_cursor, allowedips_idx_cursor, skb)"
| "get_peers HZ wg (peer # rest) peer_idx allowedips_idx_cursor next_peer_cursor skb =
     (case get_peer HZ wg peer peer_idx allowedips_idx_cursor skb of
        (ret, cursor', skb') \<Rightarrow>
          if ret \<noteq> 0 then (False, next_peer_cursor, cursor', skb')
          else get_peers HZ wg rest (u32 (peer_idx + 1)) cursor' (Some (peer_id peer)) skb')"

text \<open>The attributes of the device, put only in the first message of a dump.\<close>

definition get_device_fields :: "wireguard_device \<Rightarrow> sk_buff \<Rightarrow> bool \<times> sk_buff" where
  "get_device_fields wg skb =
     (case nla_put_any skb
             [(Device WGDEVICE_A_LISTEN_PORT, 2, U16 (incoming_port wg)),
              (Device WGDEVICE_A_FWMARK, 4, U32 (fwmark wg)),
              (Device WGDEVICE_A_IFINDEX, 4, U32 (dev_ifindex wg)),
              (Device WGDEVICE_A_IFNAME, length (dev_name wg) + 1, Str (dev_name wg))] of
        (True, skb) \<Rightarrow> (True, skb)
      | (False, skb) \<Rightarrow>
          if has_identity wg then
            nla_put_any skb
              [(Device WGDEVICE_A_PRIVATE_KEY, NOISE_PUBLIC_KEY_LEN, Data (static_private wg)),
               (Device WGDEVICE_A_PUBLIC_KEY, NOISE_PUBLIC_KEY_LEN, Data (static_public wg))]
          else (False, skb))"

text \<open>The part of \<^verbatim>\<open>get\<close> that starts with taking the locks, for the device that
  \<^verbatim>\<open>cb->args[0]\<close> points to.\<close>

definition get_device :: "nat \<Rightarrow> wireguard_device \<Rightarrow> sk_buff \<Rightarrow> netlink_callback \<Rightarrow> int \<times> sk_buff \<times> netlink_callback" where
  "get_device HZ wg skb cb =
     (let last_peer_cursor = cb_args1 cb;
          allowedips_idx_cursor = u32 (cb_args2 cb);
          cb = cb\<lparr>cb_seq := device_update_gen wg\<rparr>
      in
      (case genlmsg_put skb (cb_prev_seq cb \<noteq> 0 \<and> cb_seq cb \<noteq> cb_prev_seq cb) of
         None \<Rightarrow> (- EMSGSIZE, genlmsg_cancel skb None, cb)
       | Some (hdr, skb) \<Rightarrow>
           let cb = cb\<lparr>cb_prev_seq := cb_seq cb\<rparr> in
           (case (if last_peer_cursor = None then get_device_fields wg skb else (False, skb)) of
              (True, skb) \<Rightarrow> (- EMSGSIZE, genlmsg_cancel skb (Some hdr), cb)
            | (False, skb) \<Rightarrow>
                (case nla_nest_start skb (Device WGDEVICE_A_PEERS) of
                   None \<Rightarrow> (- EMSGSIZE, genlmsg_cancel skb (Some hdr), cb)
                 | Some (peers_nest, skb) \<Rightarrow>
                     if peer_list wg = []
                        \<or> (case last_peer_cursor of
                             Some l \<Rightarrow> l \<notin> peer_id ` set (peer_list wg)
                           | None \<Rightarrow> False)
                     then (0, nla_nest_cancel skb peers_nest, cb\<lparr>cb_args1 := None, cb_args2 := 0\<rparr>)
                     else
                       (case get_peers HZ wg (peers_after last_peer_cursor (peer_list wg)) 0
                               allowedips_idx_cursor None skb of
                          (done, next_peer_cursor, allowedips_idx_cursor, skb) \<Rightarrow>
                            let skb = nla_nest_end skb peers_nest in
                            if done then (0, skb, cb\<lparr>cb_args1 := None, cb_args2 := 0\<rparr>)
                            else (int (skb_len skb), skb,
                                  cb\<lparr>cb_args1 := next_peer_cursor, cb_args2 := allowedips_idx_cursor\<rparr>))))))"

definition get :: "nat \<Rightarrow> wireguard_device list \<Rightarrow> sk_buff \<Rightarrow> netlink_callback \<Rightarrow> int \<times> sk_buff \<times> netlink_callback" where
  "get HZ net skb cb =
     (case cb_args0 cb of
        None \<Rightarrow>
          (case get_start net cb of
             (ret, cb') \<Rightarrow>
               if ret \<noteq> 0 then (ret, skb, cb')
               else (case cb_args0 cb' of
                       None \<Rightarrow> (ret, skb, cb')
                     | Some k \<Rightarrow> get_device HZ (net ! k) skb cb'))
      | Some k \<Rightarrow> get_device HZ (net ! k) skb cb)"

text \<open>Modelled from the spec: the caller that repeats \<^verbatim>\<open>get\<close> until it is done (the kernel's
  \<^verbatim>\<open>netlink_dump\<close>) is not part of the sources. Each call fills a new message of the given
  size; a positive return value asks for another call. The result is the last return
  value and the messages in order, or \<open>None\<close> when the given number of calls did not
  finish the dump.\<close>

definition alloc_skb :: "nat \<Rightarrow> sk_buff" where
  "alloc_skb sz = \<lparr>skb_end = sz, skb_len = 0, skb_data = []\<rparr>"

fun netlink_dump :: "nat \<Rightarrow> nat \<Rightarrow> wireguard_device list \<Rightarrow> nat \<Rightarrow> netlink_callback \<Rightarrow> (int \<times> nlitem list list) option" where
  "netlink_dump 0 HZ net sz cb = None"
| "netlink_dump (Suc calls) HZ net sz cb =
     (case get HZ net (alloc_skb sz) cb of
        (ret, skb, cb') \<Rightarrow>
          if 0 < ret then
            (case netlink_dump calls HZ net sz cb' of
               None \<Rightarrow> None
             | Some (ret', chunks) \<Rightarrow> Some (ret', skb_data skb # chunks))
          else Some (ret, [skb_data skb]))"

definition update_fwmark :: "device_attrs \<Rightarrow> wireguard_device \<Rightarrow> wireguard_device" where
  "update_fwmark attrs wg =
     (case wgdevice_a_fwmark attrs of
        None \<Rightarrow> wg
      | Some m \<Rightarrow> wg\<lparr>fwmark := m, peer_list := map socket_clear_peer_endpoint_src (peer_list wg)\<rparr>)"

definition update_listen_port :: "env \<Rightarrow> device_attrs \<Rightarrow> wireguard_device \<Rightarrow> int \<times> wireguard_device" where
  "update_listen_port env attrs wg =
     (case wgdevice_a_listen_port attrs of
        None \<Rightarrow> (0, wg)
      | Some port \<Rightarrow> set_device_port env wg port)"

definition update_replace_peers :: "device_attrs \<Rightarrow> wireguard_device \<Rightarrow> wireguard_device" where
  "update_replace_peers attrs wg =
     (case wgdevice_a_flags attrs of
        None \<Rightarrow> wg
      | Some f \<Rightarrow> if f AND WGDEVICE_F_REPLACE_PEERS \<noteq> 0 then peer_remove_all wg else wg)"

definition remove_unusable_peers :: "env \<Rightarrow> wireguard_device \<Rightarrow> wireguard_device" where
  "remove_unusable_peers env wg =
     fold (\<lambda>p wg. if \<not> env_noise_precompute_static_static env (static_private wg) (remote_static p)
                   then peer_remove (peer_id p) wg else wg)
          (peer_list wg) wg"

definition update_private_key :: "env \<Rightarrow> device_attrs \<Rightarrow> wireguard_device \<Rightarrow> wireguard_device" where
  "update_private_key env attrs wg =
     (case wgdevice_a_private_key attrs of
        None \<Rightarrow> wg
      | Some private_key \<Rightarrow>
          if length private_key \<noteq> NOISE_PUBLIC_KEY_LEN then wg
          else
            remove_unusable_peers env
              (noise_set_static_identity_private_key env private_key
                 (case pubkey_hashtable_lookup wg (snd (env_curve25519_generate_public env private_key)) of
                    None \<Rightarrow> wg
                  | Some p \<Rightarrow> peer_remove (peer_id p) wg)))"

definition update_peers :: "env \<Rightarrow> device_attrs \<Rightarrow> wireguard_device \<Rightarrow> int \<times> wireguard_device \<times> device_attrs" where
  "update_peers env attrs wg =
     (case wgdevice_a_peers attrs of
        None \<Rightarrow> (0, wg, attrs)
      | Some l \<Rightarrow> (case set_peers env wg l of (ret, wg', l') \<Rightarrow> (ret, wg', attrs\<lparr>wgdevice_a_peers := Some l'\<rparr>)))"

definition device_fields_applied :: "env \<Rightarrow> device_attrs \<Rightarrow> wireguard_device \<Rightarrow> wireguard_device" where
  "device_fields_applied env attrs wg =
     update_private_key env attrs (update_replace_peers attrs
       (snd (update_listen_port env attrs
          (update_fwmark attrs (wg\<lparr>device_update_gen := device_update_gen wg + 1\<rparr>)))))"

datatype sub_update = Firewall_mark | Listening_port | Replace_all_peers | Private_key | Peer_list

fun apply_sub_update :: "env \<Rightarrow> sub_update \<Rightarrow> wireguard_device \<Rightarrow> device_attrs \<Rightarrow> int \<times> wireguard_device \<times> device_attrs" where
  "apply_sub_update env Firewall_mark wg attrs = (0, update_fwmark attrs wg, attrs)"
| "apply_sub_update env Listening_port wg attrs =
     (case update_listen_port env attrs wg of (ret, wg') \<Rightarrow> (ret, wg', attrs))"
| "apply_sub_update env Replace_all_peers wg attrs = (0, update_replace_peers attrs wg, attrs)"
| "apply_sub_update env Private_key wg attrs = (0, update_private_key env attrs wg, attrs)"
| "apply_sub_update env Peer_list wg attrs = update_peers env attrs wg"

fun apply_in_order :: "env \<Rightarrow> sub_update list \<Rightarrow> wireguard_device \<Rightarrow> device_attrs \<Rightarrow> int \<times> wireguard_device \<times> device_attrs" where
  "apply_in_order env [] wg attrs = (0, wg, attrs)"
| "apply_in_order env (u # us) wg attrs =
     (case apply_sub_update env u wg attrs of
        (ret, wg', attrs') \<Rightarrow>
          if ret \<noteq> 0 then (ret, wg', attrs') else apply_in_order env us wg' attrs')"

definition sub_update_order :: "sub_update list" where
  "sub_update_order = [Firewall_mark, Listening_port, Replace_all_peers, Private_key, Peer_list]"

text \<open>What a request asks of the device itself: the firewall mark, the listening port and
  the identity it names, or the ones the device has when it names none. A private key
  counts with its exact length only.\<close>

definition requested_fwmark :: "device_attrs \<Rightarrow> wireguard_device \<Rightarrow> 32 word" where
  "requested_fwmark attrs wg = (case wgdevice_a_fwmark attrs of Some m \<Rightarrow> m | None \<Rightarrow> fwmark wg)"

definition requested_port :: "device_attrs \<Rightarrow> wireguard_device \<Rightarrow> 16 word" where
  "requested_port attrs wg =
     (case wgdevice_a_listen_port attrs of Some port \<Rightarrow> port | None \<Rightarrow> incoming_port wg)"

definition device_identity :: "wireguard_device \<Rightarrow> bool \<times> bytes \<times> bytes" where
  "device_identity wg = (has_identity wg, static_private wg, static_public wg)"

definition requested_identity :: "env \<Rightarrow> device_attrs \<Rightarrow> wireguard_device \<Rightarrow> bool \<times> bytes \<times> bytes" where
  "requested_identity env attrs wg =
     (case wgdevice_a_private_key attrs of
        None \<Rightarrow> device_identity wg
      | Some private_key \<Rightarrow>
          if length private_key \<noteq> NOISE_PUBLIC_KEY_LEN then device_identity wg
          else (fst (env_curve25519_generate_public env private_key),
                take NOISE_PUBLIC_KEY_LEN private_key,
                snd (env_curve25519_generate_public env private_key)))"

definition device_settings :: "wireguard_device \<Rightarrow> 32 word \<times> 16 word \<times> bool \<times> bytes \<times> bytes" where
  "device_settings wg = (fwmark wg, incoming_port wg, device_identity wg)"

text \<open>The listening port sub-update fails when the request names a port other than the
  current one, the device is up, and the socket cannot be opened on that port.\<close>

definition port_fails :: "env \<Rightarrow> device_attrs \<Rightarrow> wireguard_device \<Rightarrow> bool" where
  "port_fails env attrs wg \<longleftrightarrow>
     (case wgdevice_a_listen_port attrs of
        None \<Rightarrow> False
      | Some port \<Rightarrow> incoming_port wg \<noteq> port \<and> dev_running wg \<and> env_socket_init env port \<noteq> 0)"

definition get_done :: "netlink_callback \<Rightarrow> int" where
  "get_done cb = 0"

datatype genl_request = Doit device_attrs | Start netlink_callback
  | Dumpit sk_buff netlink_callback | Done netlink_callback

datatype genl_reply = Doit_reply int device_attrs | Start_reply int netlink_callback
  | Dumpit_reply int sk_buff netlink_callback | Done_reply int

definition genl_ops :: "env \<Rightarrow> wireguard_device list \<Rightarrow> genl_request \<Rightarrow> wireguard_device list \<times> genl_reply" where
  "genl_ops env net req =
     (case req of
        Doit attrs \<Rightarrow> (case set_dev env net attrs of (ret, net', attrs') \<Rightarrow> (net', Doit_reply ret attrs'))
      | Start cb \<Rightarrow> (case get_start net cb of (ret, cb') \<Rightarrow> (net, Start_reply ret cb'))
      | Dumpit skb cb \<Rightarrow> (case get (env_HZ env) net skb cb of (ret, skb', cb') \<Rightarrow> (net, Dumpit_reply ret skb' cb'))
      | Done cb \<Rightarrow> (net, Done_reply (get_done cb)))"

definition ex_key :: "8 word \<Rightarrow> bytes" where
  "ex_key b = replicate 32 b"

definition ex_env :: env where
  "ex_env = \<lparr>env_HZ = 250, env_socket_init = (\<lambda>port. 0),
     env_curve25519_generate_public = (\<lambda>k. (True, map (\<lambda>b. b + 1) k)),
     env_noise_precompute_static_static = (\<lambda>private public. True),
     env_peer_create_fails = (\<lambda>k. False),
     env_routing_table_insert_fails = (\<lambda>e. False)\<rparr>"

definition ex_dev :: wireguard_device where
  "ex_dev = \<lparr>dev_ifindex = 3, dev_name = ''wg0'', dev_rtnl_kind = Some ''wireguard'',
     dev_running = True, incoming_port = 0, fwmark = 0, device_update_gen = 0,
     has_identity = True, static_private = ex_key 8, static_public = ex_key 9,
     peer_list = [], peer_id_next = 0, peer_routing_table = [], sock_open = True, tx_log = []\<rparr>"

definition ex_peer_attrs :: peer_attrs where
  "ex_peer_attrs = \<lparr>wgpeer_a_public_key = None, wgpeer_a_preshared_key = None,
     wgpeer_a_flags = None, wgpeer_a_endpoint = None,
     wgpeer_a_persistent_keepalive_interval = None, wgpeer_a_allowedips = None\<rparr>"

definition ex_device_attrs :: device_attrs where
  "ex_device_attrs = \<lparr>wgdevice_a_ifindex = None, wgdevice_a_ifname = Some ''wg0'',
     wgdevice_a_private_key = None, wgdevice_a_flags = None, wgdevice_a_listen_port = None,
     wgdevice_a_fwmark = None, wgdevice_a_peers = None\<rparr>"

definition ex_self_remove :: peer_attrs where
  "ex_self_remove = ex_peer_attrs\<lparr>wgpeer_a_public_key := Some (ex_key 9),
     wgpeer_a_flags := Some WGPEER_F_REMOVE_ME\<rparr>"

definition ex_self :: peer_attrs where
  "ex_self = ex_peer_attrs\<lparr>wgpeer_a_public_key := Some (ex_key 9),
     wgpeer_a_preshared_key := Some (ex_key 7)\<rparr>"

definition ex_remove :: peer_attrs where
  "ex_remove = ex_peer_attrs\<lparr>wgpeer_a_public_key := Some (ex_key 1),
     wgpeer_a_flags := Some WGPEER_F_REMOVE_ME\<rparr>"




definition listen_port_ret :: "env \<Rightarrow> device_attrs \<Rightarrow> wireguard_device \<Rightarrow> int" where
  "listen_port_ret env attrs wg =
     fst (update_listen_port env attrs
            (update_fwmark attrs (wg\<lparr>device_update_gen := device_update_gen wg + 1\<rparr>)))"

definition prefix_too_long :: "allowedip_attrs \<Rightarrow> bool" where
  "prefix_too_long a \<longleftrightarrow>
     (wgallowedip_a_family a = Some AF_INET \<and> (\<exists>cidr. wgallowedip_a_cidr_mask a = Some cidr \<and> 32 < cidr))
     \<or> (wgallowedip_a_family a = Some AF_INET6 \<and> (\<exists>cidr. wgallowedip_a_cidr_mask a = Some cidr \<and> 128 < cidr))"

definition ex_ip :: "8 word \<Rightarrow> 8 word \<Rightarrow> allowedip_attrs" where
  "ex_ip b cidr = \<lparr>wgallowedip_a_family = Some AF_INET, wgallowedip_a_ipaddr = Some [10, 0, b, 0],
     wgallowedip_a_cidr_mask = Some cidr\<rparr>"

definition ex_long_prefix :: peer_attrs where
  "ex_long_prefix = ex_peer_attrs\<lparr>wgpeer_a_public_key := Some (ex_key 1),
     wgpeer_a_allowedips := Some [(0, ex_ip 1 24), (0, ex_ip 2 33), (0, ex_ip 3 24)]\<rparr>"

definition ex_long_prefix_keepalive :: peer_attrs where
  "ex_long_prefix_keepalive = ex_long_prefix\<lparr>wgpeer_a_persistent_keepalive_interval := Some 25\<rparr>"

definition ex_long_prefix_batch :: device_attrs where
  "ex_long_prefix_batch = ex_device_attrs\<lparr>wgdevice_a_peers :=
     Some [(0, ex_long_prefix_keepalive),
           (0, ex_peer_attrs\<lparr>wgpeer_a_public_key := Some (ex_key 2),
                               wgpeer_a_preshared_key := Some (ex_key 7)\<rparr>)]\<rparr>"

definition peer_key :: "wireguard_peer \<Rightarrow> bytes" where
  "peer_key p = take NOISE_PUBLIC_KEY_LEN (remote_static p)"

definition peer_keys_unique :: "wireguard_device \<Rightarrow> bool" where
  "peer_keys_unique wg \<longleftrightarrow> distinct (map peer_key (peer_list wg))"

definition no_self_peer :: "wireguard_device \<Rightarrow> bool" where
  "no_self_peer wg \<longleftrightarrow>
     (has_identity wg \<longrightarrow>
        (\<forall>p \<in> set (peer_list wg). \<not> memcmp_eq (remote_static p) (static_public wg) NOISE_PUBLIC_KEY_LEN))"

definition ex_new_identity :: device_attrs where
  "ex_new_identity = ex_device_attrs\<lparr>wgdevice_a_private_key := Some (ex_key 0),
     wgdevice_a_peers := Some [(0, ex_peer_attrs\<lparr>wgpeer_a_public_key := Some (ex_key 1)\<rparr>),
                               (0, ex_peer_attrs\<lparr>wgpeer_a_public_key := Some (ex_key 2)\<rparr>)]\<rparr>"

definition ex_peer :: "nat \<Rightarrow> 8 word \<Rightarrow> wireguard_peer" where
  "ex_peer n b = \<lparr>peer_id = n, remote_static = ex_key b, preshared_key = replicate 32 0,
     peer_endpoint = endpoint_zero, persistent_keepalive_interval = 0,
     walltime_last_handshake = replicate 16 0, rx_bytes = 0, tx_bytes = 0\<rparr>"

definition ex_env_busy :: env where
  "ex_env_busy = ex_env\<lparr>env_socket_init := (\<lambda>port. - 98)\<rparr>"

definition ex_reconfigure :: device_attrs where
  "ex_reconfigure = ex_device_attrs\<lparr>wgdevice_a_fwmark := Some 7, wgdevice_a_listen_port := Some 51820,
     wgdevice_a_flags := Some WGDEVICE_F_REPLACE_PEERS, wgdevice_a_private_key := Some (ex_key 0),
     wgdevice_a_peers := Some [(0, ex_peer_attrs\<lparr>wgpeer_a_public_key := Some (ex_key 2)\<rparr>)]\<rparr>"

definition ex_abort :: device_attrs where
  "ex_abort = ex_device_attrs\<lparr>wgdevice_a_private_key := Some (ex_key 5),
     wgdevice_a_peers := Some [(0, ex_remove), (0, ex_self)]\<rparr>"

definition ex_remove_long_prefix :: peer_attrs where
  "ex_remove_long_prefix = ex_peer_attrs\<lparr>wgpeer_a_public_key := Some (ex_key 1),
     wgpeer_a_flags := Some WGPEER_F_REMOVE_ME,
     wgpeer_a_allowedips := Some [(0, ex_ip 2 33)]\<rparr>"

definition ex_reconfigure_peers :: device_attrs where
  "ex_reconfigure_peers = ex_reconfigure\<lparr>wgdevice_a_peers :=
     Some [(0, ex_peer_attrs\<lparr>wgpeer_a_public_key := Some (ex_key 2)\<rparr>),
           (0, ex_remove),
           (0, ex_peer_attrs\<lparr>wgpeer_a_public_key := Some (ex_key 3),
                               wgpeer_a_preshared_key := Some (ex_key 7)\<rparr>)]\<rparr>"

section \<open>What a dump is expected to hold\<close>

text \<open>Appending items to a message.\<close>

definition skb_add :: "sk_buff \<Rightarrow> nlitem list \<Rightarrow> sk_buff" where
  "skb_add skb items =
     skb\<lparr>skb_len := skb_len skb + sum_list (map item_size items), skb_data := skb_data skb @ items\<rparr>"

text \<open>The allowed IPs of a peer, in the order the routing table enumerates them.\<close>

definition peer_allowedips :: "wireguard_device \<Rightarrow> nat \<Rightarrow> allowedip list" where
  "peer_allowedips wg pid = map fst (filter (\<lambda>(e, owner). owner = pid) (peer_routing_table wg))"

text \<open>The items of the allowed IP that is the \<open>j\<close>-th of its peer, counting from one, and
  the room they take.\<close>

definition allowedip_items :: "nat \<Rightarrow> allowedip \<Rightarrow> nlitem list" where
  "allowedip_items j e =
     [Nest_start (Index (u16 (u32 (j + 4294967295)))),
      Attr (Allowedip WGALLOWEDIP_A_CIDR_MASK) 1 (U8 (ip_cidr e)),
      Attr (Allowedip WGALLOWEDIP_A_FAMILY) 2 (U16 (ip_family e)),
      Attr (Allowedip WGALLOWEDIP_A_IPADDR) (allowedip_len e) (Data (take (allowedip_len e) (ip_addr e))),
      Nest_end]"

definition allowedip_size :: "allowedip \<Rightarrow> nat" where
  "allowedip_size e = nla_total_size 0 + nla_total_size 1 + nla_total_size 2 + nla_total_size (allowedip_len e)"

text \<open>The items of the allowed IPs \<open>es\<close>, the first of them being number \<open>j\<close>.\<close>

fun allowedips_items :: "nat \<Rightarrow> allowedip list \<Rightarrow> nlitem list" where
  "allowedips_items j [] = []"
| "allowedips_items j (e # es) = allowedip_items j e @ allowedips_items (Suc j) es"

text \<open>The items of a list of attributes, and the room they take.\<close>

definition attr_items :: "(attrtype \<times> nat \<times> payload) list \<Rightarrow> nlitem list" where
  "attr_items l = map (\<lambda>(t, n, d). Attr t n d) l"

definition attrs_size :: "(attrtype \<times> nat \<times> payload) list \<Rightarrow> nat" where
  "attrs_size l = sum_list (map (\<lambda>(t, n, d). nla_total_size n) l)"

text \<open>The attributes of the device and those of a peer that are not its identity.\<close>

definition device_field_attrs :: "wireguard_device \<Rightarrow> (attrtype \<times> nat \<times> payload) list" where
  "device_field_attrs wg =
     [(Device WGDEVICE_A_LISTEN_PORT, 2, U16 (incoming_port wg)),
      (Device WGDEVICE_A_FWMARK, 4, U32 (fwmark wg)),
      (Device WGDEVICE_A_IFINDEX, 4, U32 (dev_ifindex wg)),
      (Device WGDEVICE_A_IFNAME, length (dev_name wg) + 1, Str (dev_name wg))]
     @ (if has_identity wg
        then [(Device WGDEVICE_A_PRIVATE_KEY, NOISE_PUBLIC_KEY_LEN, Data (static_private wg)),
              (Device WGDEVICE_A_PUBLIC_KEY, NOISE_PUBLIC_KEY_LEN, Data (static_public wg))]
        else [])"

definition peer_field_attrs :: "nat \<Rightarrow> wireguard_peer \<Rightarrow> (attrtype \<times> nat \<times> payload) list" where
  "peer_field_attrs HZ p =
     [(Peer WGPEER_A_PRESHARED_KEY, NOISE_SYMMETRIC_KEY_LEN, Data (preshared_key p)),
      (Peer WGPEER_A_LAST_HANDSHAKE_TIME, sizeof_timeval, Data (walltime_last_handshake p)),
      (Peer WGPEER_A_PERSISTENT_KEEPALIVE_INTERVAL, 2, U16 (of_nat (persistent_keepalive_interval p div HZ))),
      (Peer WGPEER_A_TX_BYTES, 8, U64 (tx_bytes p)),
      (Peer WGPEER_A_RX_BYTES, 8, U64 (rx_bytes p))]
     @ (if sa_family (ep_addr (peer_endpoint p)) = AF_INET
        then [(Peer WGPEER_A_ENDPOINT, sizeof_sockaddr_in, Addr (ep_addr (peer_endpoint p)))]
        else if sa_family (ep_addr (peer_endpoint p)) = AF_INET6
        then [(Peer WGPEER_A_ENDPOINT, sizeof_sockaddr_in6, Addr (ep_addr (peer_endpoint p)))]
        else [])"




text \<open>The items of a peer nest: its head (with the other attributes when the allowed-IP
  cursor \<open>c\<close> is zero), \<open>m\<close> allowed IPs from the cursor on, and the two nest ends.\<close>

definition peer_head_items :: "nat \<Rightarrow> wireguard_peer \<Rightarrow> nat \<Rightarrow> nat \<Rightarrow> nlitem list" where
  "peer_head_items HZ p index c =
     [Nest_start (Index (u16 index)),
      Attr (Peer WGPEER_A_PUBLIC_KEY) NOISE_PUBLIC_KEY_LEN (Data (remote_static p))]
     @ (if c = 0 then attr_items (peer_field_attrs HZ p) else [])
     @ [Nest_start (Peer WGPEER_A_ALLOWEDIPS)]"


definition peer_items :: "nat \<Rightarrow> wireguard_device \<Rightarrow> wireguard_peer \<Rightarrow> nat \<Rightarrow> nat \<Rightarrow> nat \<Rightarrow> nlitem list" where
  "peer_items HZ wg p index c m =
     peer_head_items HZ p index c
     @ allowedips_items (c - 1 + 1) (take m (drop (c - 1) (peer_allowedips wg (peer_id p))))
     @ [Nest_end, Nest_end]"


text \<open>
  Reading a message: its attributes in order, each with the public key of the peer nest
  it stands in (the empty key before the first peer). A public key attribute opens a
  peer and is not listed itself; \<open>keys_in\<close> lists the public key attributes.
\<close>

fun attributed :: "bytes \<Rightarrow> nlitem list \<Rightarrow> (bytes \<times> attrtype \<times> payload) list" where
  "attributed k [] = []"
| "attributed k (Attr t n d # r) =
     (if t = Peer WGPEER_A_PUBLIC_KEY then attributed (case d of Data k' \<Rightarrow> k' | _ \<Rightarrow> k) r
      else (k, t, d) # attributed k r)"
| "attributed k (Genl_header intr # r) = attributed k r"
| "attributed k (Nest_start t # r) = attributed k r"
| "attributed k (Nest_end # r) = attributed k r"

fun key_after :: "bytes \<Rightarrow> nlitem list \<Rightarrow> bytes" where
  "key_after k [] = k"
| "key_after k (Attr t n d # r) =
     (if t = Peer WGPEER_A_PUBLIC_KEY then key_after (case d of Data k' \<Rightarrow> k' | _ \<Rightarrow> k) r
      else key_after k r)"
| "key_after k (Genl_header intr # r) = key_after k r"
| "key_after k (Nest_start t # r) = key_after k r"
| "key_after k (Nest_end # r) = key_after k r"

fun keys_in :: "nlitem list \<Rightarrow> bytes list" where
  "keys_in [] = []"
| "keys_in (Attr t n d # r) =
     (if t = Peer WGPEER_A_PUBLIC_KEY then (case d of Data k \<Rightarrow> [k] | _ \<Rightarrow> []) @ keys_in r
      else keys_in r)"
| "keys_in (Genl_header intr # r) = keys_in r"
| "keys_in (Nest_start t # r) = keys_in r"
| "keys_in (Nest_end # r) = keys_in r"

text \<open>The configuration as such a list: the device attributes, then for each peer of the
  peer list its attributes and its allowed IPs in the order of the routing table.\<close>

definition stream_of :: "bytes \<Rightarrow> (attrtype \<times> nat \<times> payload) list \<Rightarrow> (bytes \<times> attrtype \<times> payload) list" where
  "stream_of k l = map (\<lambda>(t, n, d). (k, t, d)) l"

definition allowedip_stream :: "bytes \<Rightarrow> allowedip \<Rightarrow> (bytes \<times> attrtype \<times> payload) list" where
  "allowedip_stream k e =
     [(k, Allowedip WGALLOWEDIP_A_CIDR_MASK, U8 (ip_cidr e)),
      (k, Allowedip WGALLOWEDIP_A_FAMILY, U16 (ip_family e)),
      (k, Allowedip WGALLOWEDIP_A_IPADDR, Data (take (allowedip_len e) (ip_addr e)))]"

definition peer_stream :: "nat \<Rightarrow> wireguard_device \<Rightarrow> wireguard_peer \<Rightarrow> (bytes \<times> attrtype \<times> payload) list" where
  "peer_stream HZ wg p =
     stream_of (remote_static p) (peer_field_attrs HZ p)
     @ concat (map (allowedip_stream (remote_static p)) (peer_allowedips wg (peer_id p)))"


text \<open>The allowed IPs of a message, each with the public key of its peer.\<close>

definition allowedips_of :: "nlitem list \<Rightarrow> (bytes \<times> payload) list" where
  "allowedips_of items =
     map (\<lambda>(k, t, d). (k, d))
       (filter (\<lambda>(k, t, d). t = Allowedip WGALLOWEDIP_A_IPADDR) (attributed [] items))"

text \<open>The device attributes of a message.\<close>

definition device_attrs_of :: "nlitem list \<Rightarrow> wgdevice_a list" where
  "device_attrs_of items =
     concat (map (\<lambda>(k, t, d). case t of Device a \<Rightarrow> [a] | _ \<Rightarrow> []) (attributed [] items))"

text \<open>A device with two peers, the second with two allowed IPs, and a dump request for it.\<close>

definition ex_table :: "(allowedip \<times> nat) list" where
  "ex_table = [(\<lparr>ip_family = AF_INET, ip_addr = [10, 0, 1, 0], ip_cidr = 24\<rparr>, 1),
               (\<lparr>ip_family = AF_INET, ip_addr = [10, 0, 2, 0], ip_cidr = 24\<rparr>, 1)]"

definition ex_dump_dev :: wireguard_device where
  "ex_dump_dev = ex_dev\<lparr>has_identity := False, peer_list := [ex_peer 0 1, ex_peer 1 2],
     peer_id_next := 2, peer_routing_table := ex_table\<rparr>"

definition ex_cb :: netlink_callback where
  "ex_cb = \<lparr>cb_nlh = (0, ex_device_attrs), cb_args0 = Some 0, cb_args1 = None, cb_args2 = 0,
     cb_seq = 0, cb_prev_seq = 0\<rparr>"

text \<open>What is left to dump of a list of peers when the first of them is at the allowed-IP
  cursor \<open>c\<close>.\<close>

definition rest_stream :: "nat \<Rightarrow> wireguard_device \<Rightarrow> nat \<Rightarrow> wireguard_peer list \<Rightarrow> (bytes \<times> attrtype \<times> payload) list" where
  "rest_stream HZ wg c ps =
     (case ps of
        [] \<Rightarrow> []
      | q # r \<Rightarrow>
          (if c = 0 then stream_of (remote_static q) (peer_field_attrs HZ q) else [])
          @ concat (map (allowedip_stream (remote_static q)) (drop (c - 1) (peer_allowedips wg (peer_id q))))
          @ concat (map (peer_stream HZ wg) r))"


lemma set_locked_steps:
  "set_locked env wg attrs =
     (case update_listen_port env attrs (update_fwmark attrs (wg\<lparr>device_update_gen := device_update_gen wg + 1\<rparr>)) of
        (ret, wg2) \<Rightarrow>
          if ret \<noteq> 0 then (ret, wg2, attrs)
          else update_peers env attrs (update_private_key env attrs (update_replace_peers attrs wg2)))"
  by (simp add: set_locked_def update_fwmark_def update_listen_port_def update_replace_peers_def
        update_private_key_def update_peers_def remove_unusable_peers_def  Let_def
      split: option.splits prod.splits)

lemma dev_get_by_less: "dev_get_by P net = Some k \<Longrightarrow> k < length net"
  by (induction net arbitrary: k) (auto split: if_splits)

lemma lookup_interface_less: "lookup_interface net attrs = Inr k \<Longrightarrow> k < length net"
  by (auto simp: lookup_interface_def dev_get_by_less split: if_splits option.splits)

lemma set_locked_in_order:
  "set_locked env wg attrs =
     apply_in_order env sub_update_order (wg\<lparr>device_update_gen := device_update_gen wg + 1\<rparr>) attrs"
  by (simp add: set_locked_steps sub_update_order_def split: prod.splits)

lemma apply_in_order_failure:
  "apply_in_order env us wg attrs = (ret, wg', attrs') \<Longrightarrow> ret \<noteq> 0 \<Longrightarrow>
     \<exists>us1 u us2 wg1 attrs1. us = us1 @ u # us2
        \<and> apply_in_order env us1 wg attrs = (0, wg1, attrs1)
        \<and> apply_sub_update env u wg1 attrs1 = (ret, wg', attrs')"
proof (induction us arbitrary: wg attrs)
  case Nil
  then show ?case by simp
next
  case (Cons u us)
  obtain r w a where step: "apply_sub_update env u wg attrs = (r, w, a)"
    by (cases "apply_sub_update env u wg attrs") auto
  show ?case
  proof (cases "r = 0")
    case False
    with Cons.prems step have "(r, w, a) = (ret, wg', attrs')" by simp
    with step have "u # us = [] @ u # us \<and> apply_in_order env [] wg attrs = (0, wg, attrs)
        \<and> apply_sub_update env u wg attrs = (ret, wg', attrs')" by simp
    then show ?thesis by blast
  next
    case True
    with Cons.prems step have rest: "apply_in_order env us w a = (ret, wg', attrs')" by simp
    from Cons.IH [OF rest Cons.prems(2)]
    obtain us1 v us2 wg1 attrs1 where
      "us = us1 @ v # us2" "apply_in_order env us1 w a = (0, wg1, attrs1)"
      "apply_sub_update env v wg1 attrs1 = (ret, wg', attrs')" by blast
    with step True have "u # us = (u # us1) @ v # us2
        \<and> apply_in_order env (u # us1) wg attrs = (0, wg1, attrs1)
        \<and> apply_sub_update env v wg1 attrs1 = (ret, wg', attrs')" by simp
    then show ?thesis by blast
  qed
qed

lemma ex_key_simps [simp]: "length (ex_key b) = 32" "take 32 (ex_key b) = ex_key b"
  "(ex_key a = ex_key b) = (a = b)"
  by (simp_all add: ex_key_def)

lemma ex_lookup [simp]: "lookup_interface (ex_dev\<lparr>peer_list := ps\<rparr> # net) ex_device_attrs = Inr 0"
  "lookup_interface (ex_dev # net) ex_device_attrs = Inr 0"
  by (simp_all add: lookup_interface_def ex_dev_def ex_device_attrs_def KBUILD_MODNAME_def)

lemma gen_simps [simp]:
  "device_update_gen (peer_update pid f wg) = device_update_gen wg"
  "device_update_gen (routing_table_remove_by_peer pid wg) = device_update_gen wg"
  "device_update_gen (peer_remove pid wg) = device_update_gen wg"
  "device_update_gen (peer_remove_all wg) = device_update_gen wg"
  "device_update_gen (noise_set_static_identity_private_key env k wg) = device_update_gen wg"
  "device_update_gen (packet_send_keepalive pid wg) = device_update_gen wg"
  "device_update_gen (packet_send_staged_packets pid wg) = device_update_gen wg"
  "device_update_gen (snd (routing_table_insert env e pid wg)) = device_update_gen wg"
  "device_update_gen (snd (set_device_port env wg port)) = device_update_gen wg"
  by (simp_all add: peer_update_def routing_table_remove_by_peer_def peer_remove_def
        peer_remove_all_def noise_set_static_identity_private_key_def packet_send_keepalive_def
        packet_send_staged_packets_def routing_table_insert_def set_device_port_def Let_def)

lemma gen_set_allowedip [simp]:
  "device_update_gen (snd (set_allowedip env wg pid a)) = device_update_gen wg"
  by (simp add: set_allowedip_def split: option.splits)

lemma gen_set_peer_allowedips [simp]:
  "device_update_gen (snd (set_peer_allowedips env wg pid ret l)) = device_update_gen wg"
proof (induction l arbitrary: wg ret)
  case Nil
  then show ?case by simp
next
  case (Cons x l)
  obtain parsed a where x: "x = (parsed, a)" by (cases x)
  obtain r w where step: "set_allowedip env wg pid a = (r, w)" by (cases "set_allowedip env wg pid a")
  have "device_update_gen w = device_update_gen wg"
    using gen_set_allowedip [of env wg pid a] step by simp
  then show ?case using Cons.IH [of w r] x step by simp
qed

lemma gen_peer_create:
  "peer_create env wg k psk = Some (pid, wg') \<Longrightarrow> device_update_gen wg' = device_update_gen wg"
  by (auto simp: peer_create_def split: if_splits)

lemma gen_peer_create':
  "peer_create env wg k psk = Some c \<Longrightarrow> device_update_gen (snd c) = device_update_gen wg"
  by (auto simp: peer_create_def split: if_splits)

lemma gen_set_peer_lookup:
  "set_peer_lookup env wg attrs k = Inr (pid, wg') \<Longrightarrow> device_update_gen wg' = device_update_gen wg"
  by (auto simp: set_peer_lookup_def split: option.splits if_splits dest: gen_peer_create')

lemma gen_set_peer_configure [simp]:
  "device_update_gen (snd (set_peer_configure env attrs pid wg)) = device_update_gen wg"
proof -
  have a: "device_update_gen (set_peer_keys_and_endpoint attrs pid wg) = device_update_gen wg" for wg
    by (simp add: set_peer_keys_and_endpoint_def Let_def split: option.splits)
  have b: "device_update_gen (set_peer_keepalive_and_flush env attrs pid wg) = device_update_gen wg" for wg
    by (simp add: set_peer_keepalive_and_flush_def Let_def split: option.splits)
  show ?thesis
  proof (cases "wgpeer_a_allowedips attrs")
    case None
    then show ?thesis by (simp add: set_peer_configure_def a b)
  next
    case (Some l)
    have "device_update_gen (snd (set_peer_allowedips env (set_peer_keys_and_endpoint attrs pid wg) pid 0 l))
          = device_update_gen wg" by (simp add: a)
    then show ?thesis using Some by (simp add: set_peer_configure_def b case_prod_beta)
  qed
qed

lemma gen_set_peer [simp]:
  "device_update_gen (fst (snd (set_peer env wg attrs))) = device_update_gen wg"
proof (cases "set_peer_public_key attrs")
  case None
  then show ?thesis by (simp add: set_peer_def)
next
  case (Some k)
  show ?thesis
  proof (cases "set_peer_lookup env wg attrs k")
    case (Inl r)
    with Some show ?thesis by (simp add: set_peer_def)
  next
    case (Inr c)
    obtain pid wg1 where c: "c = (pid, wg1)" by (cases c)
    have g1: "device_update_gen wg1 = device_update_gen wg"
      using Inr c gen_set_peer_lookup by blast
    have "device_update_gen (snd (set_peer_configure env attrs pid wg1)) = device_update_gen wg"
      using g1 by simp
    then show ?thesis using Some Inr c g1 by (simp add: set_peer_def case_prod_beta)
  qed
qed

lemma gen_set_peers [simp]:
  "device_update_gen (fst (snd (set_peers env wg l))) = device_update_gen wg"
proof (induction l arbitrary: wg)
  case Nil
  then show ?case by simp
next
  case (Cons x l)
  obtain parsed a where x: "x = (parsed, a)" by (cases x)
  obtain r w a' where step: "set_peer env wg a = (r, w, a')" by (cases "set_peer env wg a")
  have w: "device_update_gen w = device_update_gen wg"
    using gen_set_peer [of env wg a] step by simp
  show ?case using Cons.IH [of w] x step w by (simp add: case_prod_beta)
qed

lemma gen_remove_unusable_peers [simp]:
  "device_update_gen (remove_unusable_peers env wg) = device_update_gen wg"
proof -
  have "device_update_gen (fold (\<lambda>p wg. if \<not> env_noise_precompute_static_static env (static_private wg) (remote_static p)
                   then peer_remove (peer_id p) wg else wg) ps wg) = device_update_gen wg" for ps
    by (induction ps arbitrary: wg) simp_all
  then show ?thesis by (simp add: remove_unusable_peers_def)
qed

lemma gen_set_locked:
  "device_update_gen (fst (snd (set_locked env wg attrs))) = device_update_gen wg + 1"
proof -
  let ?wg1 = "update_fwmark attrs (wg\<lparr>device_update_gen := device_update_gen wg + 1\<rparr>)"
  have 1: "device_update_gen ?wg1 = device_update_gen wg + 1"
    by (simp add: update_fwmark_def split: option.splits)
  obtain r wg2 where port: "update_listen_port env attrs ?wg1 = (r, wg2)"
    by (cases "update_listen_port env attrs ?wg1")
  have 2: "device_update_gen wg2 = device_update_gen wg + 1"
  proof (cases "wgdevice_a_listen_port attrs")
    case None
    with port 1 show ?thesis by (simp add: update_listen_port_def)
  next
    case (Some p)
    with port have "wg2 = snd (set_device_port env ?wg1 p)" by (simp add: update_listen_port_def)
    with 1 show ?thesis by simp
  qed
  have 3: "device_update_gen (update_replace_peers attrs w) = device_update_gen w" for w
    by (simp add: update_replace_peers_def split: option.splits)
  have 4: "device_update_gen (update_private_key env attrs w) = device_update_gen w" for w
    by (simp add: update_private_key_def split: option.splits)
  have 5: "device_update_gen (fst (snd (update_peers env attrs w))) = device_update_gen w" for w
  proof (cases "wgdevice_a_peers attrs")
    case None
    then show ?thesis by (simp add: update_peers_def)
  next
    case (Some l)
    then show ?thesis using gen_set_peers [of env w l] by (simp add: update_peers_def case_prod_beta)
  qed
  show ?thesis using port 2 3 4 5 by (simp add: set_locked_steps case_prod_beta)
qed

section \<open>The generation counter\<close>

text \<open>
  Claim C5. A request that finds its device adds exactly one to the device's generation
  counter, whatever the request returns afterwards (\<^verbatim>\<open>++wg->device_update_gen\<close> comes
  right after the locks are taken; the counter is an \<^verbatim>\<open>unsigned int\<close>, so the sum is taken
  in 32 bits, and it is the next natural number unless the counter was at its maximum).
  A request whose device lookup fails leaves every device as it was, and so do the three
  handlers of a dump.
\<close>

theorem generation_counter:
  "(\<forall>k. lookup_interface net attrs = Inr k \<longrightarrow>
        device_update_gen (fst (genl_ops env net (Doit attrs)) ! k) = device_update_gen (net ! k) + 1
      \<and> (device_update_gen (net ! k) \<noteq> - 1 \<longrightarrow>
           unat (device_update_gen (fst (genl_ops env net (Doit attrs)) ! k)) = unat (device_update_gen (net ! k)) + 1))
   \<and> (\<forall>err. lookup_interface net attrs = Inl err \<longrightarrow> fst (genl_ops env net (Doit attrs)) = net)
   \<and> fst (genl_ops env net (Start cb)) = net
   \<and> fst (genl_ops env net (Dumpit skb cb)) = net
   \<and> fst (genl_ops env net (Done cb)) = net"
proof -
  have doit: "fst (genl_ops env net (Doit attrs)) = fst (snd (set_dev env net attrs))"
    by (simp add: genl_ops_def case_prod_beta)
  have ok: "device_update_gen (fst (snd (set_dev env net attrs)) ! k) = device_update_gen (net ! k) + 1"
    if "lookup_interface net attrs = Inr k" for k
    using that lookup_interface_less [OF that] gen_set_locked [of env "net ! k" attrs]
    by (simp add: set_dev_def case_prod_beta)
  have unat_ok: "unat (w + 1) = unat w + 1" if "w \<noteq> - 1" for w :: "32 word"
  proof -
    from that have "1 + w \<noteq> 0"
      by (metis add.commute add_eq_0_iff)
    from unatSuc [OF this] show ?thesis by (simp add: add.commute)
  qed
  have fail: "fst (snd (set_dev env net attrs)) = net" if "lookup_interface net attrs = Inl err" for err
    using that by (simp add: set_dev_def)
  show ?thesis
    using ok unat_ok fail by (simp add: doit) (simp add: genl_ops_def case_prod_beta)
qed

theorem generation_counter_witness:
  "lookup_interface [ex_dev] ex_device_attrs = Inr 0
   \<and> device_update_gen ex_dev \<noteq> - 1
   \<and> device_update_gen (fst (genl_ops ex_env [ex_dev] (Doit ex_device_attrs)) ! 0) = 1
   \<and> unat (device_update_gen (fst (genl_ops ex_env [ex_dev] (Doit ex_device_attrs)) ! 0)) = 1
   \<and> lookup_interface [ex_dev] (ex_device_attrs\<lparr>wgdevice_a_ifname := None\<rparr>) = Inl (- EBADR)
   \<and> fst (genl_ops ex_env [ex_dev] (Doit (ex_device_attrs\<lparr>wgdevice_a_ifname := None\<rparr>))) = [ex_dev]"
proof -
  have found: "lookup_interface [ex_dev] ex_device_attrs = Inr 0"
    by simp
  have fresh: "device_update_gen ex_dev = 0"
    by (simp add: ex_dev_def)
  have bad: "lookup_interface [ex_dev] (ex_device_attrs\<lparr>wgdevice_a_ifname := None\<rparr>) = Inl (- EBADR)"
    by (simp add: lookup_interface_def ex_device_attrs_def)
  show ?thesis
    using generation_counter [of "[ex_dev]" ex_device_attrs ex_env]
      generation_counter [of "[ex_dev]" "ex_device_attrs\<lparr>wgdevice_a_ifname := None\<rparr>" ex_env]
      found fresh bad
    by simp
qed

section \<open>Peer updates that create nothing\<close>

lemma set_peers_append:
  "set_peers env wg (pre @ rest) =
     (case set_peers env wg pre of
        (ret, wg1, pre') \<Rightarrow>
          if ret < 0 then (ret, wg1, pre' @ rest)
          else (case set_peers env wg1 rest of
                  (ret', wg2, rest') \<Rightarrow> (ret', wg2, pre' @ rest')))"
proof (induction pre arbitrary: wg)
  case Nil
  then show ?case by (simp add: case_prod_beta)
next
  case (Cons x pre)
  obtain parsed a where x: "x = (parsed, a)" by (cases x)
  obtain r w a' where step: "set_peer env wg a = (r, w, a')" by (cases "set_peer env wg a")
  show ?case using Cons.IH [of w] x step by (simp add: case_prod_beta)
qed

lemma set_peers_ret: "fst (set_peers env wg l) \<le> 0"
proof (induction l arbitrary: wg)
  case Nil
  then show ?case by simp
next
  case (Cons x l)
  obtain parsed a where x: "x = (parsed, a)" by (cases x)
  obtain r w a' where step: "set_peer env wg a = (r, w, a')" by (cases "set_peer env wg a")
  show ?case using Cons.IH [of w] x step by (simp add: case_prod_beta)
qed

lemma update_peers_attrs [simp]:
  "update_fwmark (attrs\<lparr>wgdevice_a_peers := l\<rparr>) = update_fwmark attrs"
  "update_listen_port env (attrs\<lparr>wgdevice_a_peers := l\<rparr>) = update_listen_port env attrs"
  "update_replace_peers (attrs\<lparr>wgdevice_a_peers := l\<rparr>) = update_replace_peers attrs"
  "update_private_key env (attrs\<lparr>wgdevice_a_peers := l\<rparr>) = update_private_key env attrs"
  by (simp_all add: fun_eq_iff update_fwmark_def update_listen_port_def update_replace_peers_def
        update_private_key_def)

lemma lookup_interface_peers [simp]:
  "lookup_interface net (attrs\<lparr>wgdevice_a_peers := l\<rparr>) = lookup_interface net attrs"
  by (simp add: lookup_interface_def cong: option.case_cong if_cong)

text \<open>The state in which the peer list of a request is reached, if it is reached.\<close>

lemma set_locked_peers:
  "set_locked env wg attrs =
     (case update_listen_port env attrs (update_fwmark attrs (wg\<lparr>device_update_gen := device_update_gen wg + 1\<rparr>)) of
        (ret, wg2) \<Rightarrow>
          if ret \<noteq> 0 then (ret, wg2, attrs)
          else (case wgdevice_a_peers attrs of
                  None \<Rightarrow> (0, device_fields_applied env attrs wg, attrs)
                | Some l \<Rightarrow>
                    (case set_peers env (device_fields_applied env attrs wg) l of
                       (ret', wg', l') \<Rightarrow> (ret', wg', attrs\<lparr>wgdevice_a_peers := Some l'\<rparr>))))"
  by (simp add: set_locked_steps update_peers_def device_fields_applied_def case_prod_beta
      split: option.splits)

lemma device_fields_applied_peers [simp]:
  "device_fields_applied env (attrs\<lparr>wgdevice_a_peers := l\<rparr>) wg = device_fields_applied env attrs wg"
  by (simp add: device_fields_applied_def)

text \<open>If the request cut after some of its peer entries returns zero, the whole request
  reaches the next entry in the state the cut request ended in.\<close>

lemma set_dev_prefix:
  assumes found: "lookup_interface net attrs = Inr k"
    and peers: "wgdevice_a_peers attrs = Some (pre @ rest)"
    and before: "set_dev env net (attrs\<lparr>wgdevice_a_peers := Some pre\<rparr>) = (0, net', attrs')"
  shows "\<exists>pre'. set_dev env net attrs =
           (case set_peers env (net' ! k) rest of
              (ret, wg, rest') \<Rightarrow>
                (ret, net[k := wg], set_out_nodev (attrs\<lparr>wgdevice_a_peers := Some (pre' @ rest')\<rparr>)))
         \<and> net' = net[k := net' ! k]"
proof -
  let ?wg1 = "update_fwmark attrs ((net ! k)\<lparr>device_update_gen := device_update_gen (net ! k) + 1\<rparr>)"
  let ?wg4 = "device_fields_applied env attrs (net ! k)"
  have k: "k < length net" using found by (rule lookup_interface_less)
  obtain r wg2 where port: "update_listen_port env attrs ?wg1 = (r, wg2)"
    by (cases "update_listen_port env attrs ?wg1")
  obtain r1 wg5 pre' where pre: "set_peers env ?wg4 pre = (r1, wg5, pre')"
    by (cases "set_peers env ?wg4 pre")
  from before found port pre have r0: "r = 0"
    by (simp add: set_dev_def set_locked_peers split: if_splits)
  from before found port pre r0 have r1: "r1 = 0" and net': "net' = net[k := wg5]"
    by (simp_all add: set_dev_def set_locked_peers)
  from net' k have wg5: "net' ! k = wg5" by simp
  have "set_dev env net attrs =
           (case set_peers env (net' ! k) rest of
              (ret, wg, rest') \<Rightarrow>
                (ret, net[k := wg], set_out_nodev (attrs\<lparr>wgdevice_a_peers := Some (pre' @ rest')\<rparr>)))"
    using found port r0 peers pre r1 wg5
    by (simp add: set_dev_def set_locked_peers set_peers_append case_prod_beta)
  moreover have "net' = net[k := net' ! k]" using net' wg5 by simp
  ultimately show ?thesis by blast
qed

text \<open>
  Claim C7, as amended. A peer update that does not ask for removal, whose public key is
  the device's own and names no peer of the device, returns zero and leaves the device
  as it was; the entries after it in a request are processed as if it were not there.
\<close>

theorem self_peer_ignored:
  assumes "has_identity wg"
    and "wgpeer_a_public_key attrs = Some k"
    and "length k = NOISE_PUBLIC_KEY_LEN"
    and "memcmp_eq k (static_public wg) NOISE_PUBLIC_KEY_LEN"
    and "pubkey_hashtable_lookup wg k = None"
    and "set_peer_flags attrs AND WGPEER_F_REMOVE_ME = 0"
  shows "set_peer env wg attrs = (0, wg, set_peer_out attrs)
       \<and> (0 \<le> parsed \<longrightarrow>
            fst (set_peers env wg ((parsed, attrs) # rest)) = fst (set_peers env wg rest)
          \<and> fst (snd (set_peers env wg ((parsed, attrs) # rest))) = fst (snd (set_peers env wg rest)))"
proof -
  have one: "set_peer env wg attrs = (0, wg, set_peer_out attrs)"
    using assms by (simp add: set_peer_def set_peer_public_key_def set_peer_lookup_def)
  then show ?thesis by (simp add: case_prod_beta)
qed

theorem self_peer_ignored_witness:
  "has_identity ex_dev
   \<and> wgpeer_a_public_key ex_self = Some (ex_key 9)
   \<and> memcmp_eq (ex_key 9) (static_public ex_dev) NOISE_PUBLIC_KEY_LEN
   \<and> pubkey_hashtable_lookup ex_dev (ex_key 9) = None
   \<and> set_peer_flags ex_self AND WGPEER_F_REMOVE_ME = 0
   \<and> set_peer ex_env ex_dev ex_self = (0, ex_dev, set_peer_out ex_self)
   \<and> fst (set_peers ex_env ex_dev [(0, ex_self)]) = 0
   \<and> fst (snd (set_peers ex_env ex_dev [(0, ex_self)])) = ex_dev"
proof -
  have h: "has_identity ex_dev" "wgpeer_a_public_key ex_self = Some (ex_key 9)"
    "length (ex_key 9) = NOISE_PUBLIC_KEY_LEN"
    "memcmp_eq (ex_key 9) (static_public ex_dev) NOISE_PUBLIC_KEY_LEN"
    "pubkey_hashtable_lookup ex_dev (ex_key 9) = None"
    "set_peer_flags ex_self AND WGPEER_F_REMOVE_ME = 0"
    by (simp_all add: ex_dev_def ex_self_def ex_peer_attrs_def NOISE_PUBLIC_KEY_LEN_def
          memcmp_eq_def pubkey_hashtable_lookup_def set_peer_flags_def)
  show ?thesis
    using self_peer_ignored [OF h, of ex_env 0 "[]"] h by simp
qed

text \<open>
  The claim as it was stated fails when the update asks for removal: the check for the
  removal of a peer that does not exist comes first, and the request fails.
\<close>

theorem self_peer_removal_counterexample:
  "has_identity ex_dev
   \<and> wgpeer_a_public_key ex_self_remove = Some (static_public ex_dev)
   \<and> pubkey_hashtable_lookup ex_dev (static_public ex_dev) = None
   \<and> fst (set_peer ex_env ex_dev ex_self_remove) = - ENODEV
   \<and> fst (set_dev ex_env [ex_dev] (ex_device_attrs\<lparr>wgdevice_a_peers := Some [(0, ex_self_remove)]\<rparr>)) = - ENODEV"
proof -
  have one: "set_peer ex_env ex_dev ex_self_remove = (- ENODEV, ex_dev, set_peer_out ex_self_remove)"
    by (simp add: set_peer_def set_peer_public_key_def set_peer_lookup_def set_peer_flags_def
          ex_self_remove_def ex_peer_attrs_def ex_dev_def NOISE_PUBLIC_KEY_LEN_def
          pubkey_hashtable_lookup_def WGPEER_F_REMOVE_ME_def)
  have dev: "device_fields_applied ex_env ex_device_attrs ex_dev = ex_dev\<lparr>device_update_gen := 1\<rparr>"
    by (simp add: device_fields_applied_def update_fwmark_def update_listen_port_def
          update_replace_peers_def update_private_key_def ex_device_attrs_def ex_dev_def)
  have one': "set_peer ex_env (ex_dev\<lparr>device_update_gen := 1\<rparr>) ex_self_remove
                = (- ENODEV, ex_dev\<lparr>device_update_gen := 1\<rparr>, set_peer_out ex_self_remove)"
    by (simp add: set_peer_def set_peer_public_key_def set_peer_lookup_def set_peer_flags_def
          ex_self_remove_def ex_peer_attrs_def ex_dev_def NOISE_PUBLIC_KEY_LEN_def
          pubkey_hashtable_lookup_def WGPEER_F_REMOVE_ME_def)
  have port: "update_listen_port ex_env ex_device_attrs w = (0, w)" for w
    by (simp add: update_listen_port_def ex_device_attrs_def)
  have "fst (set_dev ex_env [ex_dev] (ex_device_attrs\<lparr>wgdevice_a_peers := Some [(0, ex_self_remove)]\<rparr>)) = - ENODEV"
    using dev one' port by (simp add: set_dev_def set_locked_peers ENODEV_def)
  then show ?thesis using one
    by (simp add: ex_dev_def ex_self_remove_def ex_peer_attrs_def pubkey_hashtable_lookup_def)
qed

text \<open>
  Claim C8. When a request reaches a peer update that asks for the removal of a public
  key that no peer of the device has at that moment, the request fails with
  \<^verbatim>\<open>-ENODEV\<close>, and the device is left in the state in which the entry was reached: the
  state the request cut before that entry ends in. No peer is created.
\<close>

theorem remove_unknown_peer:
  assumes "lookup_interface net attrs = Inr k"
    and "wgdevice_a_peers attrs = Some (pre @ (parsed, a) # post)"
    and "0 \<le> parsed"
    and "wgpeer_a_public_key a = Some X"
    and "length X = NOISE_PUBLIC_KEY_LEN"
    and "set_peer_flags a AND WGPEER_F_REMOVE_ME \<noteq> 0"
    and "set_dev env net (attrs\<lparr>wgdevice_a_peers := Some pre\<rparr>) = (0, net', attrs')"
    and "pubkey_hashtable_lookup (net' ! k) X = None"
  shows "fst (set_dev env net attrs) = - ENODEV \<and> fst (snd (set_dev env net attrs)) = net'"
proof -
  have one: "set_peer env (net' ! k) a = (- ENODEV, net' ! k, set_peer_out a)"
    using assms(4,5,6,8) by (simp add: set_peer_def set_peer_public_key_def set_peer_lookup_def)
  from set_dev_prefix [OF assms(1,2,7)] obtain pre' where
    run: "set_dev env net attrs =
           (case set_peers env (net' ! k) ((parsed, a) # post) of
              (ret, wg, rest') \<Rightarrow>
                (ret, net[k := wg], set_out_nodev (attrs\<lparr>wgdevice_a_peers := Some (pre' @ rest')\<rparr>)))"
    and net': "net' = net[k := net' ! k]" by blast
  show ?thesis using run net' one assms(3) by (simp add: ENODEV_def)
qed

theorem remove_unknown_peer_witness:
  "lookup_interface [ex_dev] ex_device_attrs = Inr 0
   \<and> wgpeer_a_public_key ex_remove = Some (ex_key 1)
   \<and> set_peer_flags ex_remove AND WGPEER_F_REMOVE_ME \<noteq> 0
   \<and> set_dev ex_env [ex_dev] (ex_device_attrs\<lparr>wgdevice_a_peers := Some []\<rparr>)
       = (0, [ex_dev\<lparr>device_update_gen := 1\<rparr>], ex_device_attrs\<lparr>wgdevice_a_peers := Some []\<rparr>)
   \<and> pubkey_hashtable_lookup ([ex_dev\<lparr>device_update_gen := 1\<rparr>] ! 0) (ex_key 1) = None
   \<and> fst (set_dev ex_env [ex_dev] (ex_device_attrs\<lparr>wgdevice_a_peers := Some [(0, ex_remove)]\<rparr>)) = - ENODEV
   \<and> fst (snd (set_dev ex_env [ex_dev] (ex_device_attrs\<lparr>wgdevice_a_peers := Some [(0, ex_remove)]\<rparr>)))
       = [ex_dev\<lparr>device_update_gen := 1\<rparr>]"
proof -
  let ?attrs = "ex_device_attrs\<lparr>wgdevice_a_peers := Some [(0, ex_remove)]\<rparr>"
  have dev: "device_fields_applied ex_env ex_device_attrs ex_dev = ex_dev\<lparr>device_update_gen := 1\<rparr>"
    by (simp add: device_fields_applied_def update_fwmark_def update_listen_port_def
          update_replace_peers_def update_private_key_def ex_device_attrs_def ex_dev_def)
  have port: "update_listen_port ex_env ex_device_attrs w = (0, w)" for w
    by (simp add: update_listen_port_def ex_device_attrs_def)
  have h1: "lookup_interface [ex_dev] ?attrs = Inr 0" by simp
  have h2: "wgdevice_a_peers ?attrs = Some ([] @ (0, ex_remove) # [])" by simp
  have h4: "wgpeer_a_public_key ex_remove = Some (ex_key 1)"
    by (simp add: ex_remove_def ex_peer_attrs_def)
  have h5: "length (ex_key 1) = NOISE_PUBLIC_KEY_LEN" by (simp add: NOISE_PUBLIC_KEY_LEN_def)
  have h6: "set_peer_flags ex_remove AND WGPEER_F_REMOVE_ME \<noteq> 0"
    by (simp add: ex_remove_def ex_peer_attrs_def set_peer_flags_def WGPEER_F_REMOVE_ME_def)
  have out: "set_out_nodev (ex_device_attrs\<lparr>wgdevice_a_peers := l\<rparr>) = ex_device_attrs\<lparr>wgdevice_a_peers := l\<rparr>" for l
    by (simp add: set_out_nodev_def ex_device_attrs_def)
  have h7: "set_dev ex_env [ex_dev] (?attrs\<lparr>wgdevice_a_peers := Some []\<rparr>)
       = (0, [ex_dev\<lparr>device_update_gen := 1\<rparr>], ex_device_attrs\<lparr>wgdevice_a_peers := Some []\<rparr>)"
    using dev port out by (simp add: set_dev_def set_locked_peers)
  have h8: "pubkey_hashtable_lookup ([ex_dev\<lparr>device_update_gen := 1\<rparr>] ! 0) (ex_key 1) = None"
    by (simp add: pubkey_hashtable_lookup_def ex_dev_def)
  show ?thesis
    using remove_unknown_peer [OF h1 h2 _ h4 h5 h6 h7 h8] h1 h4 h6 h7 h8 by simp
qed

section \<open>Endpoints of an unsupported family\<close>

lemma peer_list_simps [simp]:
  "peer_list (routing_table_remove_by_peer pid wg) = peer_list wg"
  "peer_list (packet_send_keepalive pid wg) = peer_list wg"
  "peer_list (packet_send_staged_packets pid wg) = peer_list wg"
  "peer_list (snd (routing_table_insert env e pid wg)) = peer_list wg"
  "peer_list (peer_update pid f wg) = map (\<lambda>p. if peer_id p = pid then f p else p) (peer_list wg)"
  "peer_list (peer_remove pid wg) = filter (\<lambda>p. peer_id p \<noteq> pid) (peer_list wg)"
  by (simp_all add: routing_table_remove_by_peer_def packet_send_keepalive_def
        packet_send_staged_packets_def routing_table_insert_def peer_update_def peer_remove_def)

lemma peer_list_set_allowedip [simp]:
  "peer_list (snd (set_allowedip env wg pid a)) = peer_list wg"
  by (simp add: set_allowedip_def split: option.splits)

lemma peer_list_set_peer_allowedips [simp]:
  "peer_list (snd (set_peer_allowedips env wg pid ret l)) = peer_list wg"
proof (induction l arbitrary: wg ret)
  case Nil
  then show ?case by simp
next
  case (Cons x l)
  obtain parsed a where x: "x = (parsed, a)" by (cases x)
  obtain r w where step: "set_allowedip env wg pid a = (r, w)" by (cases "set_allowedip env wg pid a")
  have "peer_list w = peer_list wg"
    using peer_list_set_allowedip [of env wg pid a] step by simp
  then show ?case using Cons.IH [of w r] x step by simp
qed

text \<open>The stages of \<^verbatim>\<open>set_peer\<close> other than the endpoint block do not look at the endpoint
  attribute.\<close>

lemma endpoint_attr_unread [simp]:
  "set_peer_public_key (a\<lparr>wgpeer_a_endpoint := e\<rparr>) = set_peer_public_key a"
  "set_peer_preshared_key (a\<lparr>wgpeer_a_endpoint := e\<rparr>) = set_peer_preshared_key a"
  "set_peer_flags (a\<lparr>wgpeer_a_endpoint := e\<rparr>) = set_peer_flags a"
  "set_peer_out (a\<lparr>wgpeer_a_endpoint := e\<rparr>) = (set_peer_out a)\<lparr>wgpeer_a_endpoint := e\<rparr>"
  by (simp_all add: set_peer_public_key_def set_peer_preshared_key_def set_peer_flags_def
        set_peer_out_def)

lemma endpoint_attr_unread_lookup [simp]:
  "set_peer_lookup env wg (a\<lparr>wgpeer_a_endpoint := e\<rparr>) k = set_peer_lookup env wg a k"
  by (simp add: set_peer_lookup_def cong: option.case_cong if_cong)

lemma endpoint_attr_unread_flush [simp]:
  "set_peer_keepalive_and_flush env (a\<lparr>wgpeer_a_endpoint := e\<rparr>) pid wg
     = set_peer_keepalive_and_flush env a pid wg"
  by (simp add: set_peer_keepalive_and_flush_def)


text \<open>Two requests that differ in one peer entry, the two entries having the same effect
  on every device state, have the same effect.\<close>

lemma set_peers_same_effect:
  assumes "\<And>w. fst (set_peer env w a) = fst (set_peer env w b)"
    and "\<And>w. fst (snd (set_peer env w a)) = fst (snd (set_peer env w b))"
  shows "fst (set_peers env wg (pre @ (parsed, a) # post)) = fst (set_peers env wg (pre @ (parsed, b) # post))
       \<and> fst (snd (set_peers env wg (pre @ (parsed, a) # post)))
           = fst (snd (set_peers env wg (pre @ (parsed, b) # post)))"
  using assms by (simp add: set_peers_append case_prod_beta)

lemma set_dev_same_effect:
  assumes "\<And>w. fst (set_peer env w a) = fst (set_peer env w b)"
    and "\<And>w. fst (snd (set_peer env w a)) = fst (snd (set_peer env w b))"
  shows "fst (set_dev env net (attrs\<lparr>wgdevice_a_peers := Some (pre @ (parsed, a) # post)\<rparr>))
           = fst (set_dev env net (attrs\<lparr>wgdevice_a_peers := Some (pre @ (parsed, b) # post)\<rparr>))
       \<and> fst (snd (set_dev env net (attrs\<lparr>wgdevice_a_peers := Some (pre @ (parsed, a) # post)\<rparr>)))
           = fst (snd (set_dev env net (attrs\<lparr>wgdevice_a_peers := Some (pre @ (parsed, b) # post)\<rparr>)))"
  using set_peers_same_effect [OF assms]
  by (simp add: set_dev_def set_locked_peers case_prod_beta split: sum.splits)






section \<open>Prefix lengths beyond the family bound\<close>

lemma listen_port_ret_peers [simp]:
  "listen_port_ret env (attrs\<lparr>wgdevice_a_peers := l\<rparr>) wg = listen_port_ret env attrs wg"
  by (simp add: listen_port_ret_def)

lemma set_dev_port_failure:
  assumes "lookup_interface net attrs = Inr k" and "listen_port_ret env attrs (net ! k) \<noteq> 0"
  shows "fst (set_dev env net attrs) = listen_port_ret env attrs (net ! k)"
  using assms by (simp add: set_dev_def set_locked_peers listen_port_ret_def case_prod_beta)

lemma set_dev_peers:
  assumes "lookup_interface net attrs = Inr k" and "listen_port_ret env attrs (net ! k) = 0"
    and "wgdevice_a_peers attrs = Some l"
  shows "set_dev env net attrs =
           (case set_peers env (device_fields_applied env attrs (net ! k)) l of
              (ret, wg, l') \<Rightarrow> (ret, net[k := wg], set_out_nodev (attrs\<lparr>wgdevice_a_peers := Some l'\<rparr>)))"
  using assms by (simp add: set_dev_def set_locked_peers listen_port_ret_def case_prod_beta)

lemma set_peer_allowedips_append:
  "0 \<le> ret \<Longrightarrow>
   set_peer_allowedips env wg pid ret (pre @ rest) =
     (case set_peer_allowedips env wg pid ret pre of
        (ret', wg') \<Rightarrow> if ret' < 0 then (ret', wg') else set_peer_allowedips env wg' pid ret' rest)"
proof (induction pre arbitrary: wg ret)
  case Nil
  then show ?case by simp
next
  case (Cons x pre)
  obtain parsed a where x: "x = (parsed, a)" by (cases x)
  obtain r w where step: "set_allowedip env wg pid a = (r, w)" by (cases "set_allowedip env wg pid a")
  show ?case
  proof (cases "parsed < 0 \<or> r < 0")
    case True
    then show ?thesis using x step by auto
  next
    case False
    then have "0 \<le> r" by simp
    from Cons.IH [OF this, of w] show ?thesis using False x step by simp
  qed
qed

lemma set_allowedip_prefix_too_long:
  "prefix_too_long a \<Longrightarrow> set_allowedip env wg pid a = (- EINVAL, wg)"
  by (auto simp: set_allowedip_def prefix_too_long_def AF_INET_def AF_INET6_def
      split: option.splits)


lemma allowedips_attr_unread [simp]:
  "set_peer_public_key (a\<lparr>wgpeer_a_allowedips := l\<rparr>) = set_peer_public_key a"
  "set_peer_preshared_key (a\<lparr>wgpeer_a_allowedips := l\<rparr>) = set_peer_preshared_key a"
  "set_peer_flags (a\<lparr>wgpeer_a_allowedips := l\<rparr>) = set_peer_flags a"
  by (simp_all add: set_peer_public_key_def set_peer_preshared_key_def set_peer_flags_def)

lemma allowedips_attr_unread_stages [simp]:
  "set_peer_lookup env wg (a\<lparr>wgpeer_a_allowedips := l\<rparr>) k = set_peer_lookup env wg a k"
  "set_peer_keys_and_endpoint (a\<lparr>wgpeer_a_allowedips := l\<rparr>) pid wg = set_peer_keys_and_endpoint a pid wg"
  "set_peer_keepalive_and_flush env (a\<lparr>wgpeer_a_allowedips := l\<rparr>) pid wg
     = set_peer_keepalive_and_flush env a pid wg"
  by (simp_all add: set_peer_lookup_def set_peer_keys_and_endpoint_def set_peer_keepalive_and_flush_def
      cong: option.case_cong if_cong)

lemma flush_keeps_table_and_keys [simp]:
  "peer_routing_table (set_peer_keepalive_and_flush env a pid wg) = peer_routing_table wg"
  "map remote_static (peer_list (set_peer_keepalive_and_flush env a pid wg)) = map remote_static (peer_list wg)"
  by (simp_all add: set_peer_keepalive_and_flush_def Let_def peer_update_def packet_send_keepalive_def
        packet_send_staged_packets_def comp_def split: option.splits)

lemma set_peer_lookup_Inl:
  "set_peer_lookup env wg a k = Inl r \<Longrightarrow> pubkey_hashtable_lookup wg k = None"
  by (auto simp: set_peer_lookup_def split: option.splits)

lemma tx_log_simps [simp]:
  "tx_log (peer_update pid f wg) = tx_log wg"
  "tx_log (routing_table_remove_by_peer pid wg) = tx_log wg"
  "tx_log (snd (routing_table_insert env e pid wg)) = tx_log wg"
  by (simp_all add: peer_update_def routing_table_remove_by_peer_def routing_table_insert_def)

lemma tx_log_set_allowedip [simp]: "tx_log (snd (set_allowedip env wg pid a)) = tx_log wg"
  by (simp add: set_allowedip_def split: option.splits)

lemma tx_log_set_peer_allowedips [simp]:
  "tx_log (snd (set_peer_allowedips env wg pid ret l)) = tx_log wg"
proof (induction l arbitrary: wg ret)
  case Nil
  then show ?case by simp
next
  case (Cons x l)
  obtain parsed a where x: "x = (parsed, a)" by (cases x)
  obtain r w where step: "set_allowedip env wg pid a = (r, w)" by (cases "set_allowedip env wg pid a")
  have "tx_log w = tx_log wg" using tx_log_set_allowedip [of env wg pid a] step by simp
  then show ?case using Cons.IH [of w r] x step by simp
qed

lemma tx_log_set_peer_keys_and_endpoint [simp]:
  "tx_log (set_peer_keys_and_endpoint a pid wg) = tx_log wg"
  by (simp add: set_peer_keys_and_endpoint_def Let_def split: option.splits)

lemma tx_log_set_peer_lookup:
  "set_peer_lookup env wg a k = Inr (pid, wg1) \<Longrightarrow> tx_log wg1 = tx_log wg"
  by (auto simp: set_peer_lookup_def peer_create_def split: option.splits if_splits)

text \<open>The allowed-IP loop returns zero or the negative value it stopped with.\<close>

lemma set_allowedip_ret: "fst (set_allowedip env wg pid a) \<le> 0"
  by (simp add: set_allowedip_def routing_table_insert_def ENOMEM_def EINVAL_def split: option.splits)

lemma set_peer_allowedips_ret: "ret \<le> 0 \<Longrightarrow> fst (set_peer_allowedips env wg pid ret l) \<le> 0"
proof (induction l arbitrary: wg ret)
  case Nil
  then show ?case by simp
next
  case (Cons x l)
  obtain parsed a where x: "x = (parsed, a)" by (cases x)
  obtain r w where step: "set_allowedip env wg pid a = (r, w)" by (cases "set_allowedip env wg pid a")
  have "r \<le> 0" using set_allowedip_ret [of env wg pid a] step by simp
  from Cons.IH [OF this, of w] show ?case using x step by simp
qed

text \<open>A peer update that asks for the removal of its peer never reads its allowed IPs.\<close>

lemma set_peer_removal_allowedips_unread:
  assumes "set_peer_flags b AND WGPEER_F_REMOVE_ME \<noteq> 0"
  shows "fst (set_peer env w (b\<lparr>wgpeer_a_allowedips := l\<rparr>)) = fst (set_peer env w b)"
    and "fst (snd (set_peer env w (b\<lparr>wgpeer_a_allowedips := l\<rparr>))) = fst (snd (set_peer env w b))"
  using assms by (simp_all add: set_peer_def case_prod_beta split: option.splits sum.splits)

text \<open>
  Claim C6, as amended. Take a request that reaches an allowed-IP entry whose prefix
  length exceeds the bound of its family: the request cut right before that entry
  returns zero, and the peer update holding the entry is one that gets to its allowed IPs
  (it asks for no removal and its peer exists once the cut request is done). Then the
  entry is rejected with \<^verbatim>\<open>-EINVAL\<close> and inserted nowhere, and the whole request returns
  \<^verbatim>\<open>-EINVAL\<close> at once: the device is left exactly in the state \<open>wgI\<close> in which the entry
  was reached, which is the state after the peer entries before, the lookup or creation
  of the peer, its keys and endpoint and the allowed IPs before the entry. The keepalive
  interval of the update is not installed and nothing is sent (the cut request differs
  from \<open>wgI\<close> by exactly that step), no later allowed IP and no later peer entry is
  processed, and the buffers of the later peer entries are as they were. A peer update
  that asks for the removal of its peer never reads its allowed IPs: its return value and
  the device it leaves, and those of a request that holds it, are the same whatever the
  list is.
\<close>

theorem prefix_bound_enforced:
  assumes found: "lookup_interface net attrs = Inr k"
    and peers: "wgdevice_a_peers attrs = Some (pre @ (parsed, a) # post)"
    and ips: "wgpeer_a_allowedips a = Some (ipre @ (iparsed, bad) # ipost)"
    and parsed: "0 \<le> parsed" "0 \<le> iparsed"
    and bad: "(wgallowedip_a_family bad = Some AF_INET \<and> wgallowedip_a_cidr_mask bad = Some cidr \<and> 32 < cidr)
              \<or> (wgallowedip_a_family bad = Some AF_INET6 \<and> wgallowedip_a_cidr_mask bad = Some cidr \<and> 128 < cidr)"
    and reached: "set_dev env net (attrs\<lparr>wgdevice_a_peers :=
                    Some (pre @ [(parsed, a\<lparr>wgpeer_a_allowedips := Some ipre\<rparr>)])\<rparr>) = (0, net0, attrs0)"
    and key: "wgpeer_a_public_key a = Some X"
    and stays: "set_peer_flags a AND WGPEER_F_REMOVE_ME = 0" "pubkey_hashtable_lookup (net0 ! k) X \<noteq> None"
  shows "set_allowedip env wg pid bad = (- EINVAL, wg)
       \<and> fst (set_dev env net attrs) = - EINVAL
       \<and> peer_routing_table (fst (snd (set_dev env net attrs)) ! k) = peer_routing_table (net0 ! k)
       \<and> map remote_static (peer_list (fst (snd (set_dev env net attrs)) ! k))
           = map remote_static (peer_list (net0 ! k))
       \<and> (\<exists>netA attrsA pre' peer wg1 wgI.
            set_dev env net (attrs\<lparr>wgdevice_a_peers := Some pre\<rparr>) = (0, netA, attrsA)
            \<and> wgdevice_a_peers attrsA = Some pre'
            \<and> set_peer_lookup env (netA ! k) a X = Inr (peer, wg1)
            \<and> set_peer_allowedips env (set_peer_keys_and_endpoint a peer wg1) peer 0 ipre = (0, wgI)
            \<and> set_dev env net attrs
                = (- EINVAL, net[k := wgI],
                   set_out_nodev (attrs\<lparr>wgdevice_a_peers := Some (pre' @ (parsed, set_peer_out a) # post)\<rparr>))
            \<and> net0 = net[k := set_peer_keepalive_and_flush env a peer wgI]
            \<and> tx_log wgI = tx_log (netA ! k))
       \<and> (set_peer_flags b AND WGPEER_F_REMOVE_ME \<noteq> 0 \<longrightarrow>
            fst (set_peer env w (b\<lparr>wgpeer_a_allowedips := l\<rparr>)) = fst (set_peer env w b)
          \<and> fst (snd (set_peer env w (b\<lparr>wgpeer_a_allowedips := l\<rparr>))) = fst (snd (set_peer env w b))
          \<and> fst (set_dev env net2 (attrs2\<lparr>wgdevice_a_peers :=
                     Some (pre2 @ (parsed2, b\<lparr>wgpeer_a_allowedips := l\<rparr>) # post2)\<rparr>))
              = fst (set_dev env net2 (attrs2\<lparr>wgdevice_a_peers := Some (pre2 @ (parsed2, b) # post2)\<rparr>))
          \<and> fst (snd (set_dev env net2 (attrs2\<lparr>wgdevice_a_peers :=
                     Some (pre2 @ (parsed2, b\<lparr>wgpeer_a_allowedips := l\<rparr>) # post2)\<rparr>)))
              = fst (snd (set_dev env net2 (attrs2\<lparr>wgdevice_a_peers := Some (pre2 @ (parsed2, b) # post2)\<rparr>))))"
proof -
  let ?a0 = "a\<lparr>wgpeer_a_allowedips := Some ipre\<rparr>"
  let ?cut = "attrs\<lparr>wgdevice_a_peers := Some (pre @ [(parsed, ?a0)])\<rparr>"
  let ?before = "attrs\<lparr>wgdevice_a_peers := Some pre\<rparr>"
  let ?wg4 = "device_fields_applied env attrs (net ! k)"
  have too_long: "prefix_too_long bad" using bad by (auto simp: prefix_too_long_def)
  have reject: "set_allowedip env w p bad = (- EINVAL, w)" for w p
    using too_long by (rule set_allowedip_prefix_too_long)
  have k: "k < length net" using found by (rule lookup_interface_less)
  have found_cut: "lookup_interface net ?cut = Inr k" using found by simp
  have found_before: "lookup_interface net ?before = Inr k" using found by simp
  have port: "listen_port_ret env attrs (net ! k) = 0"
  proof (rule ccontr)
    assume "listen_port_ret env attrs (net ! k) \<noteq> 0"
    then show False using set_dev_port_failure [OF found_cut, of env] reached by simp
  qed
  obtain r1 wgA pre' where run_pre: "set_peers env ?wg4 pre = (r1, wgA, pre')"
    by (cases "set_peers env ?wg4 pre")
  obtain r wg0 a0' where run_a0: "set_peer env wgA ?a0 = (r, wg0, a0')"
    by (cases "set_peer env wgA ?a0")
  have cut: "set_dev env net ?cut =
           (case set_peers env ?wg4 (pre @ [(parsed, ?a0)]) of
              (ret, wg, l') \<Rightarrow> (ret, net[k := wg], set_out_nodev (?cut\<lparr>wgdevice_a_peers := Some l'\<rparr>)))"
    using set_dev_peers [OF found_cut, of env "pre @ [(parsed, ?a0)]"] port by simp
  have r1: "\<not> r1 < 0"
    using cut reached run_pre by (auto simp: set_peers_append)
  have "r1 \<le> 0" using set_peers_ret [of env ?wg4 pre] run_pre by simp
  with r1 have r1_0: "r1 = 0" by simp
  have before: "set_dev env net ?before
      = (0, net[k := wgA], set_out_nodev (attrs\<lparr>wgdevice_a_peers := Some pre'\<rparr>))"
    using set_dev_peers [OF found_before, of env pre] port run_pre r1_0 by simp
  have r: "\<not> r < 0"
    using cut reached run_pre r1 run_a0 parsed by (auto simp: set_peers_append)
  have net0: "net0 = net[k := wg0]"
    using cut reached run_pre r1 run_a0 r parsed by (simp add: set_peers_append)
  have wg0: "net0 ! k = wg0" using net0 k by simp
  have pk: "set_peer_public_key a = Some X"
  proof (cases "set_peer_public_key a")
    case None
    then show ?thesis using run_a0 r by (simp add: set_peer_def EINVAL_def)
  next
    case (Some k')
    then show ?thesis using key by (simp add: set_peer_public_key_def split: if_splits)
  qed
  obtain peer wg1 where look: "set_peer_lookup env wgA a X = Inr (peer, wg1)"
  proof (cases "set_peer_lookup env wgA a X")
    case (Inl r')
    then have "wg0 = wgA" using run_a0 pk by (simp add: set_peer_def)
    moreover have "pubkey_hashtable_lookup wgA X = None" using Inl by (rule set_peer_lookup_Inl)
    ultimately show ?thesis using stays(2) wg0 by simp
  next
    case (Inr c)
    then show ?thesis using that by (cases c) simp
  qed
  let ?wgK = "set_peer_keys_and_endpoint a peer wg1"
  obtain r2 wgI where run_ipre: "set_peer_allowedips env ?wgK peer 0 ipre = (r2, wgI)"
    by (cases "set_peer_allowedips env ?wgK peer 0 ipre")
  have conf0: "set_peer_configure env ?a0 peer wg1 = (r, wg0)"
    using run_a0 pk look stays(1) by (simp add: set_peer_def split: prod.splits)
  have r2: "\<not> r2 < 0" using conf0 run_ipre r by (auto simp: set_peer_configure_def)
  have "r2 \<le> 0" using set_peer_allowedips_ret [of 0 env ?wgK peer ipre] run_ipre by simp
  with r2 have r2_0: "r2 = 0" by simp
  have flushed: "wg0 = set_peer_keepalive_and_flush env a peer wgI"
    using conf0 run_ipre r2 by (simp add: set_peer_configure_def)
  have "set_peer_allowedips env ?wgK peer 0 (ipre @ (iparsed, bad) # ipost) = (- EINVAL, wgI)"
    using run_ipre r2 parsed(2) reject by (simp add: set_peer_allowedips_append EINVAL_def)
  then have conf: "set_peer_configure env a peer wg1 = (- EINVAL, wgI)"
    using ips by (simp add: set_peer_configure_def EINVAL_def)
  have run_a: "set_peer env wgA a = (- EINVAL, wgI, set_peer_out a)"
    using pk look stays(1) conf by (simp add: set_peer_def)
  have "set_peers env ?wg4 (pre @ (parsed, a) # post) = (- EINVAL, wgI, pre' @ (parsed, set_peer_out a) # post)"
    using run_pre r1 run_a parsed(1) by (simp add: set_peers_append EINVAL_def)
  then have whole: "set_dev env net attrs
      = (- EINVAL, net[k := wgI],
         set_out_nodev (attrs\<lparr>wgdevice_a_peers := Some (pre' @ (parsed, set_peer_out a) # post)\<rparr>))"
    using set_dev_peers [OF found port peers] by simp
  have log: "tx_log wgI = tx_log wgA"
    using tx_log_set_peer_allowedips [of env ?wgK peer 0 ipre] run_ipre
      tx_log_set_peer_lookup [OF look] by simp
  have state: "\<exists>netA attrsA pre' peer wg1 wgI.
            set_dev env net ?before = (0, netA, attrsA)
            \<and> wgdevice_a_peers attrsA = Some pre'
            \<and> set_peer_lookup env (netA ! k) a X = Inr (peer, wg1)
            \<and> set_peer_allowedips env (set_peer_keys_and_endpoint a peer wg1) peer 0 ipre = (0, wgI)
            \<and> set_dev env net attrs
                = (- EINVAL, net[k := wgI],
                   set_out_nodev (attrs\<lparr>wgdevice_a_peers := Some (pre' @ (parsed, set_peer_out a) # post)\<rparr>))
            \<and> net0 = net[k := set_peer_keepalive_and_flush env a peer wgI]
            \<and> tx_log wgI = tx_log (netA ! k)"
    using before look run_ipre r2_0 whole net0 flushed log k
    by (intro exI [of _ "net[k := wgA]"]
          exI [of _ "set_out_nodev (attrs\<lparr>wgdevice_a_peers := Some pre'\<rparr>)"]
          exI [of _ pre'] exI [of _ peer] exI [of _ wg1] exI [of _ wgI])
       (simp add: set_out_nodev_def)
  have removal: "fst (set_peer env w (b\<lparr>wgpeer_a_allowedips := l\<rparr>)) = fst (set_peer env w b)
          \<and> fst (snd (set_peer env w (b\<lparr>wgpeer_a_allowedips := l\<rparr>))) = fst (snd (set_peer env w b))
          \<and> fst (set_dev env net2 (attrs2\<lparr>wgdevice_a_peers :=
                     Some (pre2 @ (parsed2, b\<lparr>wgpeer_a_allowedips := l\<rparr>) # post2)\<rparr>))
              = fst (set_dev env net2 (attrs2\<lparr>wgdevice_a_peers := Some (pre2 @ (parsed2, b) # post2)\<rparr>))
          \<and> fst (snd (set_dev env net2 (attrs2\<lparr>wgdevice_a_peers :=
                     Some (pre2 @ (parsed2, b\<lparr>wgpeer_a_allowedips := l\<rparr>) # post2)\<rparr>)))
              = fst (snd (set_dev env net2 (attrs2\<lparr>wgdevice_a_peers := Some (pre2 @ (parsed2, b) # post2)\<rparr>)))"
    if flag: "set_peer_flags b AND WGPEER_F_REMOVE_ME \<noteq> 0"
    using set_peer_removal_allowedips_unread [OF flag]
      set_dev_same_effect [where env = env and a = "b\<lparr>wgpeer_a_allowedips := l\<rparr>" and b = b
        and net = net2 and attrs = attrs2 and pre = pre2 and parsed = parsed2 and post = post2,
        OF set_peer_removal_allowedips_unread [OF flag]]
    by blast
  have "fst (set_dev env net attrs) = - EINVAL" "fst (snd (set_dev env net attrs)) = net[k := wgI]"
    using whole by simp_all
  then show ?thesis using reject k wg0 flushed state removal by simp
qed

lemmas set_peer_eval = set_peer_def set_peer_public_key_def set_peer_lookup_def set_peer_flags_def
  set_peer_preshared_key_def set_peer_configure_def set_peer_keys_and_endpoint_def
  set_peer_keepalive_and_flush_def set_peer_out_def set_allowedip_def
  peer_create_def peer_update_def peer_get_def peer_remove_def
  routing_table_insert_def routing_table_remove_by_peer_def
  packet_send_keepalive_def packet_send_staged_packets_def pubkey_hashtable_lookup_def memcmp_eq_def
  NOISE_PUBLIC_KEY_LEN_def NOISE_SYMMETRIC_KEY_LEN_def sizeof_timeval_def sizeof_in_addr_def
  sizeof_in6_addr_def AF_INET_def AF_INET6_def
  WGPEER_F_REMOVE_ME_def WGPEER_F_REPLACE_ALLOWEDIPS_def

lemma ex_device_fields_applied [simp]:
  "device_fields_applied ex_env ex_device_attrs ex_dev = ex_dev\<lparr>device_update_gen := 1\<rparr>"
  "listen_port_ret ex_env ex_device_attrs ex_dev = 0"
  by (simp_all add: device_fields_applied_def listen_port_ret_def update_fwmark_def
        update_listen_port_def update_replace_peers_def update_private_key_def
        ex_device_attrs_def ex_dev_def)

lemma ex_set_out_nodev [simp]:
  "set_out_nodev (ex_device_attrs\<lparr>wgdevice_a_peers := l\<rparr>) = ex_device_attrs\<lparr>wgdevice_a_peers := l\<rparr>"
  by (simp add: set_out_nodev_def ex_device_attrs_def)

theorem prefix_bound_enforced_witness:
  "lookup_interface [ex_dev] ex_long_prefix_batch = Inr 0
   \<and> wgpeer_a_allowedips ex_long_prefix_keepalive
       = Some ([(0, ex_ip 1 24)] @ (0, ex_ip 2 33) # [(0, ex_ip 3 24)])
   \<and> wgallowedip_a_family (ex_ip 2 33) = Some AF_INET
   \<and> wgallowedip_a_cidr_mask (ex_ip 2 33) = Some 33
   \<and> set_peer_flags ex_long_prefix_keepalive AND WGPEER_F_REMOVE_ME = 0
   \<and> fst (set_dev ex_env [ex_dev] (ex_long_prefix_batch\<lparr>wgdevice_a_peers :=
            Some [(0, ex_long_prefix_keepalive\<lparr>wgpeer_a_allowedips := Some [(0, ex_ip 1 24)]\<rparr>)]\<rparr>)) = 0
   \<and> fst (snd (set_dev ex_env [ex_dev] (ex_long_prefix_batch\<lparr>wgdevice_a_peers :=
            Some [(0, ex_long_prefix_keepalive\<lparr>wgpeer_a_allowedips := Some [(0, ex_ip 1 24)]\<rparr>)]\<rparr>)))
       = [ex_dev\<lparr>device_update_gen := 1,
                 peer_list := [(ex_peer 0 1)\<lparr>persistent_keepalive_interval := 6250\<rparr>],
                 peer_id_next := 1,
                 peer_routing_table := [(\<lparr>ip_family = AF_INET, ip_addr = [10, 0, 1, 0], ip_cidr = 24\<rparr>, 0)],
                 tx_log := [Keepalive 0, Staged_packets 0]\<rparr>]
   \<and> fst (set_dev ex_env [ex_dev] ex_long_prefix_batch) = - EINVAL
   \<and> fst (snd (set_dev ex_env [ex_dev] ex_long_prefix_batch))
       = [ex_dev\<lparr>device_update_gen := 1,
                 peer_list := [ex_peer 0 1],
                 peer_id_next := 1,
                 peer_routing_table := [(\<lparr>ip_family = AF_INET, ip_addr = [10, 0, 1, 0], ip_cidr = 24\<rparr>, 0)],
                 tx_log := []\<rparr>]
   \<and> wgdevice_a_peers (snd (snd (set_dev ex_env [ex_dev] ex_long_prefix_batch)))
       = Some [(0, ex_long_prefix_keepalive),
               (0, ex_peer_attrs\<lparr>wgpeer_a_public_key := Some (ex_key 2),
                                   wgpeer_a_preshared_key := Some (ex_key 7)\<rparr>)]"
proof -
  let ?a = "ex_long_prefix_keepalive"
  let ?ac = "?a\<lparr>wgpeer_a_allowedips := Some [(0, ex_ip 1 24)]\<rparr>"
  let ?later = "(0, ex_peer_attrs\<lparr>wgpeer_a_public_key := Some (ex_key 2),
                                     wgpeer_a_preshared_key := Some (ex_key 7)\<rparr>)"
  let ?table = "[(\<lparr>ip_family = AF_INET, ip_addr = [10, 0, 1, 0], ip_cidr = 24\<rparr>, 0 :: nat)]"
  let ?netC = "[ex_dev\<lparr>device_update_gen := 1,
                 peer_list := [(ex_peer 0 1)\<lparr>persistent_keepalive_interval := 6250\<rparr>],
                 peer_id_next := 1, peer_routing_table := ?table,
                 tx_log := [Keepalive 0, Staged_packets 0]\<rparr>]"
  let ?netI = "[ex_dev\<lparr>device_update_gen := 1, peer_list := [ex_peer 0 1],
                 peer_id_next := 1, peer_routing_table := ?table, tx_log := []\<rparr>]"
  have batch: "ex_long_prefix_batch = ex_device_attrs\<lparr>wgdevice_a_peers := Some [(0, ?a), ?later]\<rparr>"
    by (simp add: ex_long_prefix_batch_def)
  have h1: "lookup_interface [ex_dev] ex_long_prefix_batch = Inr 0" by (simp add: batch)
  have h2: "wgdevice_a_peers ex_long_prefix_batch = Some ([] @ (0, ?a) # [?later])"
    by (simp add: batch)
  have h3: "wgpeer_a_allowedips ?a = Some ([(0, ex_ip 1 24)] @ (0, ex_ip 2 33) # [(0, ex_ip 3 24)])"
    by (simp add: ex_long_prefix_keepalive_def ex_long_prefix_def ex_peer_attrs_def)
  have h4: "(wgallowedip_a_family (ex_ip 2 33) = Some AF_INET \<and> wgallowedip_a_cidr_mask (ex_ip 2 33) = Some 33 \<and> (32 :: 8 word) < 33)
            \<or> (wgallowedip_a_family (ex_ip 2 33) = Some AF_INET6 \<and> wgallowedip_a_cidr_mask (ex_ip 2 33) = Some 33 \<and> (128 :: 8 word) < 33)"
    by (simp add: ex_ip_def)
  have one: "set_peer ex_env (ex_dev\<lparr>device_update_gen := 1\<rparr>) ?ac = (0, ?netC ! 0, set_peer_out ?ac)"
    by (simp add: set_peer_eval ex_long_prefix_keepalive_def ex_long_prefix_def ex_peer_attrs_def
          ex_ip_def ex_dev_def ex_env_def ex_peer_def)
  have h5: "set_dev ex_env [ex_dev] (ex_long_prefix_batch\<lparr>wgdevice_a_peers := Some ([] @ [(0, ?ac)])\<rparr>)
              = (0, ?netC, ex_device_attrs\<lparr>wgdevice_a_peers := Some [(0, set_peer_out ?ac)]\<rparr>)"
    using one by (simp add: batch set_dev_peers [where k = 0])
  have h6: "wgpeer_a_public_key ?a = Some (ex_key 1)"
    by (simp add: ex_long_prefix_keepalive_def ex_long_prefix_def ex_peer_attrs_def)
  have h7: "set_peer_flags ?a AND WGPEER_F_REMOVE_ME = 0"
    by (simp add: set_peer_flags_def ex_long_prefix_keepalive_def ex_long_prefix_def ex_peer_attrs_def)
  have h8: "pubkey_hashtable_lookup (?netC ! 0) (ex_key 1) \<noteq> None"
    by (simp add: pubkey_hashtable_lookup_def memcmp_eq_def NOISE_PUBLIC_KEY_LEN_def ex_peer_def)
  have whole: "set_peer ex_env (ex_dev\<lparr>device_update_gen := 1\<rparr>) ?a = (- EINVAL, ?netI ! 0, set_peer_out ?a)"
    by (simp add: set_peer_eval ex_long_prefix_keepalive_def ex_long_prefix_def ex_peer_attrs_def
          ex_ip_def ex_dev_def ex_env_def ex_peer_def EINVAL_def)
  have out: "set_peer_out ?a = ?a"
    by (simp add: set_peer_out_def ex_long_prefix_keepalive_def ex_long_prefix_def ex_peer_attrs_def)
  have final: "set_dev ex_env [ex_dev] ex_long_prefix_batch
      = (- EINVAL, ?netI, ex_device_attrs\<lparr>wgdevice_a_peers := Some [(0, ?a), ?later]\<rparr>)"
    using whole out by (simp add: batch set_dev_peers [where k = 0] EINVAL_def)
  show ?thesis
    using prefix_bound_enforced [OF h1 h2 h3 _ _ h4 h5 h6 h7 h8] h1 h3 h5 h7 final
    by (simp add: ex_ip_def)
qed

text \<open>
  The claim as it was stated fails for an entry inside a peer update that asks for the
  removal of its peer: \<^verbatim>\<open>set_peer\<close> removes the peer and leaves before it looks at the
  allowed IPs, and the request succeeds.
\<close>

theorem prefix_bound_removal_counterexample:
  "wgpeer_a_allowedips ex_remove_long_prefix = Some [(0, ex_ip 2 33)]
   \<and> wgallowedip_a_family (ex_ip 2 33) = Some AF_INET
   \<and> wgallowedip_a_cidr_mask (ex_ip 2 33) = Some 33
   \<and> fst (set_dev ex_env [ex_dev\<lparr>peer_list := [ex_peer 0 1], peer_id_next := 1\<rparr>]
           (ex_device_attrs\<lparr>wgdevice_a_peers := Some [(0, ex_remove_long_prefix)]\<rparr>)) = 0
   \<and> peer_list (fst (snd (set_dev ex_env [ex_dev\<lparr>peer_list := [ex_peer 0 1], peer_id_next := 1\<rparr>]
           (ex_device_attrs\<lparr>wgdevice_a_peers := Some [(0, ex_remove_long_prefix)]\<rparr>))) ! 0) = []"
proof -
  let ?wg = "ex_dev\<lparr>peer_list := [ex_peer 0 1], peer_id_next := 1\<rparr>"
  let ?attrs = "ex_device_attrs\<lparr>wgdevice_a_peers := Some [(0, ex_remove_long_prefix)]\<rparr>"
  have found: "lookup_interface [?wg] ?attrs = Inr 0"
    using ex_lookup(1) [of "[ex_peer 0 1]" "[]"]
    by (simp add: lookup_interface_def ex_dev_def ex_device_attrs_def KBUILD_MODNAME_def)
  have port: "listen_port_ret ex_env ?attrs ([?wg] ! 0) = 0"
    by (simp add: listen_port_ret_def update_listen_port_def ex_device_attrs_def)
  have peers: "wgdevice_a_peers ?attrs = Some [(0, ex_remove_long_prefix)]"
    by simp
  have fields: "device_fields_applied ex_env ?attrs ?wg = ?wg\<lparr>device_update_gen := 1\<rparr>"
    by (simp add: device_fields_applied_def update_fwmark_def update_listen_port_def
          update_replace_peers_def update_private_key_def ex_device_attrs_def ex_dev_def)
  have one: "set_peer ex_env (?wg\<lparr>device_update_gen := 1\<rparr>) ex_remove_long_prefix
      = (0, ?wg\<lparr>device_update_gen := 1, peer_list := []\<rparr>, set_peer_out ex_remove_long_prefix)"
    by (simp add: set_peer_def set_peer_public_key_def set_peer_lookup_def set_peer_flags_def
          pubkey_hashtable_lookup_def memcmp_eq_def peer_remove_def routing_table_remove_by_peer_def
          NOISE_PUBLIC_KEY_LEN_def WGPEER_F_REMOVE_ME_def
          ex_remove_long_prefix_def ex_peer_attrs_def ex_dev_def ex_peer_def)
  have run: "set_dev ex_env [?wg] ?attrs
      = (0, [?wg\<lparr>device_update_gen := 1, peer_list := []\<rparr>],
         set_out_nodev (?attrs\<lparr>wgdevice_a_peers := Some [(0, set_peer_out ex_remove_long_prefix)]\<rparr>))"
    unfolding set_dev_peers [OF found port peers]
    using fields one by simp
  show ?thesis
    unfolding run by (simp add: ex_remove_long_prefix_def ex_peer_attrs_def ex_ip_def)
qed

section \<open>No peer with the device's own key\<close>

text \<open>Both properties depend on the identity of the device and on the keys of its peers
  only.\<close>

lemma keys_ok_same_keys:
  assumes "map remote_static (peer_list wg') = map remote_static (peer_list wg)"
    and "has_identity wg' = has_identity wg" and "static_public wg' = static_public wg"
  shows "peer_keys_unique wg' = peer_keys_unique wg" and "no_self_peer wg' = no_self_peer wg"
proof -
  have "map peer_key (peer_list wg') = map (\<lambda>k. take NOISE_PUBLIC_KEY_LEN k) (map remote_static (peer_list wg'))"
    by (simp add: peer_key_def comp_def)
  also have "\<dots> = map peer_key (peer_list wg)"
    using assms(1) by (simp add: peer_key_def comp_def)
  finally show "peer_keys_unique wg' = peer_keys_unique wg" by (simp add: peer_keys_unique_def)
  have "set (map remote_static (peer_list wg')) = set (map remote_static (peer_list wg))"
    using assms(1) by simp
  then have "remote_static ` set (peer_list wg') = remote_static ` set (peer_list wg)" by simp
  then have "(\<forall>p \<in> set (peer_list wg'). \<not> memcmp_eq (remote_static p) s n)
           = (\<forall>p \<in> set (peer_list wg). \<not> memcmp_eq (remote_static p) s n)" for s n
    by (metis (mono_tags, lifting) image_iff)
  then show "no_self_peer wg' = no_self_peer wg" using assms(2,3) by (simp add: no_self_peer_def)
qed

lemma keys_ok_filter:
  assumes "peer_list wg' = filter P (peer_list wg)"
    and "has_identity wg' = has_identity wg" and "static_public wg' = static_public wg"
    and "peer_keys_unique wg" and "no_self_peer wg"
  shows "peer_keys_unique wg' \<and> no_self_peer wg'"
  using assms by (auto simp: peer_keys_unique_def no_self_peer_def distinct_map_filter)

lemma identity_simps [simp]:
  "has_identity (peer_update pid f wg) = has_identity wg"
  "static_public (peer_update pid f wg) = static_public wg"
  "has_identity (routing_table_remove_by_peer pid wg) = has_identity wg"
  "static_public (routing_table_remove_by_peer pid wg) = static_public wg"
  "has_identity (peer_remove pid wg) = has_identity wg"
  "static_public (peer_remove pid wg) = static_public wg"
  "has_identity (packet_send_keepalive pid wg) = has_identity wg"
  "static_public (packet_send_keepalive pid wg) = static_public wg"
  "has_identity (packet_send_staged_packets pid wg) = has_identity wg"
  "static_public (packet_send_staged_packets pid wg) = static_public wg"
  "has_identity (snd (routing_table_insert env e pid wg)) = has_identity wg"
  "static_public (snd (routing_table_insert env e pid wg)) = static_public wg"
  by (simp_all add: peer_update_def routing_table_remove_by_peer_def peer_remove_def
        packet_send_keepalive_def packet_send_staged_packets_def routing_table_insert_def)

lemma identity_set_allowedip [simp]:
  "has_identity (snd (set_allowedip env wg pid a)) = has_identity wg"
  "static_public (snd (set_allowedip env wg pid a)) = static_public wg"
  by (simp_all add: set_allowedip_def split: option.splits)

lemma identity_set_peer_allowedips [simp]:
  "has_identity (snd (set_peer_allowedips env wg pid ret l)) = has_identity wg
   \<and> static_public (snd (set_peer_allowedips env wg pid ret l)) = static_public wg"
proof (induction l arbitrary: wg ret)
  case Nil
  then show ?case by simp
next
  case (Cons x l)
  obtain parsed a where x: "x = (parsed, a)" by (cases x)
  obtain r w where step: "set_allowedip env wg pid a = (r, w)" by (cases "set_allowedip env wg pid a")
  have "has_identity w = has_identity wg \<and> static_public w = static_public wg"
    using identity_set_allowedip [of env wg pid a] step by simp
  then show ?case using Cons.IH [of w r] x step by simp
qed

lemma keys_ok_peer_remove:
  "peer_keys_unique wg \<Longrightarrow> no_self_peer wg \<Longrightarrow>
   peer_keys_unique (peer_remove pid wg) \<and> no_self_peer (peer_remove pid wg)"
  by (rule keys_ok_filter [where P = "\<lambda>p. peer_id p \<noteq> pid"]) simp_all

lemma keys_ok_configure:
  "peer_keys_unique (snd (set_peer_configure env a pid wg)) = peer_keys_unique wg
   \<and> no_self_peer (snd (set_peer_configure env a pid wg)) = no_self_peer wg"
proof -
  let ?wgK = "set_peer_keys_and_endpoint a pid wg"
  have keysK: "map remote_static (peer_list ?wgK) = map remote_static (peer_list wg)"
    "has_identity ?wgK = has_identity wg" "static_public ?wgK = static_public wg"
    by (simp_all add: set_peer_keys_and_endpoint_def Let_def comp_def socket_set_peer_endpoint_def
        split: option.splits)
  have flush: "has_identity (set_peer_keepalive_and_flush env a pid w) = has_identity w"
    "static_public (set_peer_keepalive_and_flush env a pid w) = static_public w" for w
    by (simp_all add: set_peer_keepalive_and_flush_def Let_def split: option.splits)
  let ?res = "snd (set_peer_configure env a pid wg)"
  have "map remote_static (peer_list ?res) = map remote_static (peer_list wg)
        \<and> has_identity ?res = has_identity wg \<and> static_public ?res = static_public wg"
  proof (cases "wgpeer_a_allowedips a")
    case None
    then show ?thesis using keysK flush by (simp add: set_peer_configure_def)
  next
    case (Some l)
    then show ?thesis
      using keysK flush identity_set_peer_allowedips [of env ?wgK pid 0 l]
      by (simp add: set_peer_configure_def case_prod_beta)
  qed
  then show ?thesis using keys_ok_same_keys [of ?res wg] by simp
qed

lemma find_None_all: "find P xs = None \<Longrightarrow> \<forall>x \<in> set xs. \<not> P x"
  by (simp add: find_None_iff)

lemma keys_ok_set_peer_lookup:
  assumes "set_peer_lookup env wg a X = Inr (pid, wg1)"
    and "peer_keys_unique wg" and "no_self_peer wg"
  shows "peer_keys_unique wg1 \<and> no_self_peer wg1"
proof (cases "pubkey_hashtable_lookup wg X")
  case (Some p)
  then show ?thesis using assms by (simp add: set_peer_lookup_def)
next
  case None
  then have absent: "\<forall>p \<in> set (peer_list wg). \<not> memcmp_eq (remote_static p) X NOISE_PUBLIC_KEY_LEN"
    by (simp add: pubkey_hashtable_lookup_def find_None_iff)
  from None assms(1) have not_self:
    "\<not> (has_identity wg \<and> memcmp_eq X (static_public wg) NOISE_PUBLIC_KEY_LEN)"
    by (auto simp: set_peer_lookup_def split: if_splits)
  from None assms(1) obtain new where
    wg1: "peer_list wg1 = peer_list wg @ [new]" "remote_static new = take NOISE_PUBLIC_KEY_LEN X"
      "has_identity wg1 = has_identity wg" "static_public wg1 = static_public wg"
    by (auto simp: set_peer_lookup_def peer_create_def split: if_splits option.splits)
  have "peer_key new \<notin> peer_key ` set (peer_list wg)"
    using absent wg1(2) by (auto simp: peer_key_def memcmp_eq_def)
  then have "peer_keys_unique wg1"
    using assms(2) wg1(1) by (simp add: peer_keys_unique_def)
  moreover have "no_self_peer wg1"
    using assms(3) not_self wg1 by (auto simp: no_self_peer_def memcmp_eq_def)
  ultimately show ?thesis by simp
qed

lemma keys_ok_set_peer:
  assumes "peer_keys_unique wg" and "no_self_peer wg"
  shows "peer_keys_unique (fst (snd (set_peer env wg a))) \<and> no_self_peer (fst (snd (set_peer env wg a)))"
proof (cases "set_peer_public_key a")
  case None
  then show ?thesis using assms by (simp add: set_peer_def)
next
  case (Some X)
  show ?thesis
  proof (cases "set_peer_lookup env wg a X")
    case (Inl r)
    then show ?thesis using Some assms by (simp add: set_peer_def)
  next
    case (Inr c)
    obtain pid wg1 where c: "c = (pid, wg1)" by (cases c)
    have ok1: "peer_keys_unique wg1 \<and> no_self_peer wg1"
      using keys_ok_set_peer_lookup [of env wg a X pid wg1] Inr c assms by simp
    show ?thesis
      using Some Inr c ok1 keys_ok_peer_remove [of wg1 pid] keys_ok_configure [of env a pid wg1]
      by (simp add: set_peer_def case_prod_beta)
  qed
qed

lemma keys_ok_set_peers:
  assumes "peer_keys_unique wg" and "no_self_peer wg"
  shows "peer_keys_unique (fst (snd (set_peers env wg l))) \<and> no_self_peer (fst (snd (set_peers env wg l)))"
  using assms
proof (induction l arbitrary: wg)
  case Nil
  then show ?case by simp
next
  case (Cons x l)
  obtain parsed a where x: "x = (parsed, a)" by (cases x)
  obtain r w a' where step: "set_peer env wg a = (r, w, a')" by (cases "set_peer env wg a")
  have w: "peer_keys_unique w \<and> no_self_peer w"
    using keys_ok_set_peer [OF Cons.prems, of env a] step by simp
  show ?case using Cons.IH [of w] w x step Cons.prems by (simp add: case_prod_beta)
qed

lemma keys_ok_remove_unusable_peers:
  assumes "peer_keys_unique wg" and "no_self_peer wg"
  shows "peer_keys_unique (remove_unusable_peers env wg) \<and> no_self_peer (remove_unusable_peers env wg)"
proof -
  have "peer_keys_unique w \<and> no_self_peer w \<Longrightarrow>
        peer_keys_unique (fold (\<lambda>p wg. if \<not> env_noise_precompute_static_static env (static_private wg) (remote_static p)
                   then peer_remove (peer_id p) wg else wg) ps w)
        \<and> no_self_peer (fold (\<lambda>p wg. if \<not> env_noise_precompute_static_static env (static_private wg) (remote_static p)
                   then peer_remove (peer_id p) wg else wg) ps w)" for ps w
  proof (induction ps arbitrary: w)
    case Nil
    then show ?case by simp
  next
    case (Cons p ps)
    then show ?case using keys_ok_peer_remove [of w "peer_id p"] by simp
  qed
  from this [of wg "peer_list wg"] assms show ?thesis by (simp add: remove_unusable_peers_def)
qed

lemma keys_ok_update_private_key:
  assumes "peer_keys_unique wg" and "no_self_peer wg"
  shows "peer_keys_unique (update_private_key env attrs wg) \<and> no_self_peer (update_private_key env attrs wg)"
proof (cases "wgdevice_a_private_key attrs")
  case None
  then show ?thesis using assms by (simp add: update_private_key_def)
next
  case (Some private_key)
  show ?thesis
  proof (cases "length private_key = NOISE_PUBLIC_KEY_LEN")
    case False
    then show ?thesis using Some assms by (simp add: update_private_key_def)
  next
    case True
    let ?pub = "snd (env_curve25519_generate_public env private_key)"
    let ?wga = "case pubkey_hashtable_lookup wg ?pub of None \<Rightarrow> wg | Some p \<Rightarrow> peer_remove (peer_id p) wg"
    let ?wgb = "noise_set_static_identity_private_key env private_key ?wga"
    have unique_a: "peer_keys_unique ?wga"
      using assms keys_ok_peer_remove [of wg] by (simp split: option.splits)
    have gone: "\<forall>q \<in> set (peer_list ?wga). \<not> memcmp_eq (remote_static q) ?pub NOISE_PUBLIC_KEY_LEN"
    proof (cases "pubkey_hashtable_lookup wg ?pub")
      case None
      then have "\<forall>q \<in> set (peer_list wg). \<not> memcmp_eq (remote_static q) ?pub NOISE_PUBLIC_KEY_LEN"
        by (simp add: pubkey_hashtable_lookup_def find_None_iff)
      then show ?thesis using None by simp
    next
      case (Some p)
      then have p: "p \<in> set (peer_list wg)" "memcmp_eq (remote_static p) ?pub NOISE_PUBLIC_KEY_LEN"
        by (auto simp: pubkey_hashtable_lookup_def find_Some_iff)
      have inj: "inj_on peer_key (set (peer_list wg))"
        using assms(1) by (simp add: peer_keys_unique_def distinct_map)
      have "\<not> memcmp_eq (remote_static q) ?pub NOISE_PUBLIC_KEY_LEN"
        if q: "q \<in> set (peer_list wg)" "peer_id q \<noteq> peer_id p" for q
      proof
        assume "memcmp_eq (remote_static q) ?pub NOISE_PUBLIC_KEY_LEN"
        then have "peer_key q = peer_key p" using p(2) by (simp add: memcmp_eq_def peer_key_def)
        then have "q = p" using inj q(1) p(1) by (simp add: inj_on_def)
        then show False using q(2) by simp
      qed
      then show ?thesis using Some by simp
    qed
    have listb: "peer_list ?wgb = peer_list ?wga" "static_public ?wgb = ?pub"
      by (simp_all add: noise_set_static_identity_private_key_def)
    have "peer_keys_unique ?wgb" using unique_a listb by (simp add: peer_keys_unique_def)
    moreover have "no_self_peer ?wgb" using gone listb by (simp add: no_self_peer_def)
    ultimately show ?thesis
      using Some True keys_ok_remove_unusable_peers [of ?wgb env]
      by (simp add: update_private_key_def)
  qed
qed

lemma keys_ok_device_fields_applied:
  assumes "peer_keys_unique wg" and "no_self_peer wg"
  shows "peer_keys_unique (device_fields_applied env attrs wg) \<and> no_self_peer (device_fields_applied env attrs wg)"
proof -
  let ?wg1 = "update_fwmark attrs (wg\<lparr>device_update_gen := device_update_gen wg + 1\<rparr>)"
  let ?wg2 = "snd (update_listen_port env attrs ?wg1)"
  let ?wg3 = "update_replace_peers attrs ?wg2"
  have 1: "map remote_static (peer_list ?wg1) = map remote_static (peer_list wg)"
    "has_identity ?wg1 = has_identity wg" "static_public ?wg1 = static_public wg"
    by (simp_all add: update_fwmark_def socket_clear_peer_endpoint_src_def comp_def split: option.splits)
  have 2: "map remote_static (peer_list ?wg2) = map remote_static (peer_list ?wg1)"
    "has_identity ?wg2 = has_identity ?wg1" "static_public ?wg2 = static_public ?wg1"
    by (simp_all add: update_listen_port_def set_device_port_def Let_def
          socket_clear_peer_endpoint_src_def comp_def split: option.splits)
  have ok2: "peer_keys_unique ?wg2 \<and> no_self_peer ?wg2"
    using assms keys_ok_same_keys [of ?wg2 wg] 1 2 by simp
  have ok3: "peer_keys_unique ?wg3 \<and> no_self_peer ?wg3"
    using ok2 by (simp add: update_replace_peers_def peer_remove_all_def peer_keys_unique_def
        no_self_peer_def split: option.splits)
  show ?thesis
    using ok3 keys_ok_update_private_key [of ?wg3 env attrs] by (simp add: device_fields_applied_def)
qed

lemma keys_ok_set_locked:
  assumes "peer_keys_unique wg" and "no_self_peer wg"
  shows "peer_keys_unique (fst (snd (set_locked env wg attrs))) \<and> no_self_peer (fst (snd (set_locked env wg attrs)))"
proof -
  let ?wg1 = "update_fwmark attrs (wg\<lparr>device_update_gen := device_update_gen wg + 1\<rparr>)"
  let ?wg2 = "snd (update_listen_port env attrs ?wg1)"
  have 1: "map remote_static (peer_list ?wg1) = map remote_static (peer_list wg)"
    "has_identity ?wg1 = has_identity wg" "static_public ?wg1 = static_public wg"
    by (simp_all add: update_fwmark_def socket_clear_peer_endpoint_src_def comp_def split: option.splits)
  have 2: "map remote_static (peer_list ?wg2) = map remote_static (peer_list ?wg1)"
    "has_identity ?wg2 = has_identity ?wg1" "static_public ?wg2 = static_public ?wg1"
    by (simp_all add: update_listen_port_def set_device_port_def Let_def
          socket_clear_peer_endpoint_src_def comp_def split: option.splits)
  have ok2: "peer_keys_unique ?wg2 \<and> no_self_peer ?wg2"
    using assms keys_ok_same_keys [of ?wg2 wg] 1 2 by simp
  note ok4 = keys_ok_device_fields_applied [OF assms, of env attrs]
  show ?thesis
  proof (cases "wgdevice_a_peers attrs")
    case None
    then show ?thesis using ok2 ok4 by (simp add: set_locked_peers case_prod_beta)
  next
    case (Some l)
    then show ?thesis
      using ok2 keys_ok_set_peers [of "device_fields_applied env attrs wg" env l] ok4
      by (simp add: set_locked_peers case_prod_beta)
  qed
qed

text \<open>
  Claim C9. A device whose peers have pairwise different public keys, none of them the
  device's own, is again such a device when a request returns, whatever the request and
  its return value: creating a peer is refused for the device's own key, and a new
  private key is installed only after the peer with the derived public key is removed.
  A device without peers is such a device.
\<close>

theorem no_peer_with_own_key:
  assumes "lookup_interface net attrs = Inr k"
    and "peer_keys_unique (net ! k)" and "no_self_peer (net ! k)"
  shows "no_self_peer (fst (snd (set_dev env net attrs)) ! k)
       \<and> peer_keys_unique (fst (snd (set_dev env net attrs)) ! k)
       \<and> (peer_list wg = [] \<longrightarrow> no_self_peer wg \<and> peer_keys_unique wg)"
proof -
  have k: "k < length net" using assms(1) by (rule lookup_interface_less)
  have "peer_list wg = [] \<longrightarrow> no_self_peer wg \<and> peer_keys_unique wg"
    by (simp add: no_self_peer_def peer_keys_unique_def)
  then show ?thesis
    using assms k keys_ok_set_locked [OF assms(2,3), of env attrs]
    by (simp add: set_dev_def case_prod_beta)
qed

theorem no_peer_with_own_key_witness:
  "lookup_interface [ex_dev\<lparr>peer_list := [ex_peer 0 1, ex_peer 1 3], peer_id_next := 2\<rparr>] ex_new_identity = Inr 0
   \<and> peer_keys_unique (ex_dev\<lparr>peer_list := [ex_peer 0 1, ex_peer 1 3], peer_id_next := 2\<rparr>)
   \<and> no_self_peer (ex_dev\<lparr>peer_list := [ex_peer 0 1, ex_peer 1 3], peer_id_next := 2\<rparr>)
   \<and> no_self_peer (fst (snd (set_dev ex_env
         [ex_dev\<lparr>peer_list := [ex_peer 0 1, ex_peer 1 3], peer_id_next := 2\<rparr>] ex_new_identity)) ! 0)
   \<and> static_public (fst (snd (set_dev ex_env
         [ex_dev\<lparr>peer_list := [ex_peer 0 1, ex_peer 1 3], peer_id_next := 2\<rparr>] ex_new_identity)) ! 0) = ex_key 1
   \<and> map remote_static (peer_list (fst (snd (set_dev ex_env
         [ex_dev\<lparr>peer_list := [ex_peer 0 1, ex_peer 1 3], peer_id_next := 2\<rparr>] ex_new_identity)) ! 0))
       = [ex_key 3, ex_key 2]"
proof -
  let ?wg = "ex_dev\<lparr>peer_list := [ex_peer 0 1, ex_peer 1 3], peer_id_next := 2\<rparr>"
  have h1: "lookup_interface [?wg] ex_new_identity = Inr 0"
    by (simp add: lookup_interface_def ex_dev_def ex_new_identity_def ex_device_attrs_def KBUILD_MODNAME_def)
  have h2: "peer_keys_unique (?wg)"
    by (simp add: peer_keys_unique_def peer_key_def ex_peer_def NOISE_PUBLIC_KEY_LEN_def)
  have h3: "no_self_peer ?wg"
    by (simp add: no_self_peer_def ex_dev_def ex_peer_def memcmp_eq_def NOISE_PUBLIC_KEY_LEN_def)
  have pub: "env_curve25519_generate_public ex_env (ex_key 0) = (True, ex_key 1)"
    by (simp add: ex_env_def ex_key_def)
  have fields: "device_fields_applied ex_env ex_new_identity ?wg
      = ?wg\<lparr>device_update_gen := 1, static_private := ex_key 0, static_public := ex_key 1,
            peer_list := [ex_peer 1 3]\<rparr>"
    using pub
    by (simp add: device_fields_applied_def update_fwmark_def update_listen_port_def
          update_replace_peers_def update_private_key_def remove_unusable_peers_def
          noise_set_static_identity_private_key_def pubkey_hashtable_lookup_def peer_remove_def
          routing_table_remove_by_peer_def memcmp_eq_def NOISE_PUBLIC_KEY_LEN_def
          ex_new_identity_def ex_device_attrs_def ex_dev_def ex_peer_def)
       (simp add: ex_env_def)
  have port: "listen_port_ret ex_env ex_new_identity ([?wg] ! 0) = 0"
    by (simp add: listen_port_ret_def update_listen_port_def ex_new_identity_def ex_device_attrs_def)
  have peers: "wgdevice_a_peers ex_new_identity
      = Some [(0, ex_peer_attrs\<lparr>wgpeer_a_public_key := Some (ex_key 1)\<rparr>),
              (0, ex_peer_attrs\<lparr>wgpeer_a_public_key := Some (ex_key 2)\<rparr>)]"
    by (simp add: ex_new_identity_def)
  let ?wg4 = "?wg\<lparr>device_update_gen := 1, static_private := ex_key 0, static_public := ex_key 1,
            peer_list := [ex_peer 1 3]\<rparr>"
  have first: "set_peer ex_env ?wg4 (ex_peer_attrs\<lparr>wgpeer_a_public_key := Some (ex_key 1)\<rparr>)
      = (0, ?wg4, set_peer_out (ex_peer_attrs\<lparr>wgpeer_a_public_key := Some (ex_key 1)\<rparr>))"
    by (simp add: set_peer_def set_peer_public_key_def set_peer_lookup_def set_peer_flags_def
          pubkey_hashtable_lookup_def memcmp_eq_def NOISE_PUBLIC_KEY_LEN_def WGPEER_F_REMOVE_ME_def
          ex_peer_attrs_def ex_dev_def ex_peer_def)
  have second: "fst (snd (set_peer ex_env ?wg4 (ex_peer_attrs\<lparr>wgpeer_a_public_key := Some (ex_key 2)\<rparr>)))
      = ?wg4\<lparr>peer_list := [ex_peer 1 3, ex_peer 2 2], peer_id_next := 3, tx_log := [Staged_packets 2]\<rparr>"
    by (simp add: set_peer_eval ex_peer_attrs_def ex_dev_def ex_env_def ex_peer_def)
  have second_ret: "fst (set_peer ex_env ?wg4 (ex_peer_attrs\<lparr>wgpeer_a_public_key := Some (ex_key 2)\<rparr>)) = 0"
    by (simp add: set_peer_eval ex_peer_attrs_def ex_dev_def ex_env_def ex_peer_def)
  have sp: "fst (snd (set_peers ex_env ?wg4
                [(0, ex_peer_attrs\<lparr>wgpeer_a_public_key := Some (ex_key 1)\<rparr>),
                 (0, ex_peer_attrs\<lparr>wgpeer_a_public_key := Some (ex_key 2)\<rparr>)]))
      = ?wg4\<lparr>peer_list := [ex_peer 1 3, ex_peer 2 2], peer_id_next := 3, tx_log := [Staged_packets 2]\<rparr>"
    using first second second_ret by (simp add: case_prod_beta)
  have eq: "fst (snd (set_dev ex_env [?wg] ex_new_identity)) ! 0
      = fst (snd (set_peers ex_env (device_fields_applied ex_env ex_new_identity ([?wg] ! 0))
                [(0, ex_peer_attrs\<lparr>wgpeer_a_public_key := Some (ex_key 1)\<rparr>),
                 (0, ex_peer_attrs\<lparr>wgpeer_a_public_key := Some (ex_key 2)\<rparr>)]))"
    unfolding set_dev_peers [OF h1 port peers] by (simp add: case_prod_beta)
  have run: "map remote_static (peer_list (fst (snd (set_dev ex_env [?wg] ex_new_identity)) ! 0)) = [ex_key 3, ex_key 2]
    \<and> static_public (fst (snd (set_dev ex_env [?wg] ex_new_identity)) ! 0) = ex_key 1"
    unfolding eq using fields sp by (simp add: ex_peer_def)
  have h2': "peer_keys_unique ([?wg] ! 0)" and h3': "no_self_peer ([?wg] ! 0)"
    using h2 h3 by simp_all
  show ?thesis
    using no_peer_with_own_key [OF h1 h2' h3', of ex_env] h1 h2 h3 run by simp
qed

section \<open>The order of the sub-updates\<close>

text \<open>The peer list sub-update changes peers, routing table and transmissions only: the
  firewall mark, the listening port and the identity stay as they are.\<close>

lemma settings_simps [simp]:
  "device_settings (peer_update pid f wg) = device_settings wg"
  "device_settings (routing_table_remove_by_peer pid wg) = device_settings wg"
  "device_settings (peer_remove pid wg) = device_settings wg"
  "device_settings (peer_remove_all wg) = device_settings wg"
  "device_settings (packet_send_keepalive pid wg) = device_settings wg"
  "device_settings (packet_send_staged_packets pid wg) = device_settings wg"
  "device_settings (snd (routing_table_insert env e pid wg)) = device_settings wg"
  by (simp_all add: device_settings_def device_identity_def peer_update_def
        routing_table_remove_by_peer_def peer_remove_def peer_remove_all_def
        packet_send_keepalive_def packet_send_staged_packets_def routing_table_insert_def)

lemma settings_set_allowedip [simp]:
  "device_settings (snd (set_allowedip env wg pid a)) = device_settings wg"
  by (simp add: set_allowedip_def split: option.splits)

lemma settings_set_peer_allowedips [simp]:
  "device_settings (snd (set_peer_allowedips env wg pid ret l)) = device_settings wg"
proof (induction l arbitrary: wg ret)
  case Nil
  then show ?case by simp
next
  case (Cons x l)
  obtain parsed a where x: "x = (parsed, a)" by (cases x)
  obtain r w where step: "set_allowedip env wg pid a = (r, w)" by (cases "set_allowedip env wg pid a")
  have "device_settings w = device_settings wg"
    using settings_set_allowedip [of env wg pid a] step by simp
  then show ?case using Cons.IH [of w r] x step by simp
qed

lemma settings_peer_create:
  "peer_create env wg k psk = Some (pid, wg') \<Longrightarrow> device_settings wg' = device_settings wg"
  by (auto simp: peer_create_def device_settings_def device_identity_def split: if_splits)

lemma settings_peer_create':
  "peer_create env wg k psk = Some c \<Longrightarrow> device_settings (snd c) = device_settings wg"
  by (auto simp: peer_create_def device_settings_def device_identity_def split: if_splits)

lemma settings_set_peer_lookup:
  "set_peer_lookup env wg attrs k = Inr (pid, wg') \<Longrightarrow> device_settings wg' = device_settings wg"
  by (auto simp: set_peer_lookup_def split: option.splits if_splits dest: settings_peer_create')

lemma settings_set_peer_configure [simp]:
  "device_settings (snd (set_peer_configure env attrs pid wg)) = device_settings wg"
proof -
  have a: "device_settings (set_peer_keys_and_endpoint attrs pid wg) = device_settings wg" for wg
    by (simp add: set_peer_keys_and_endpoint_def Let_def split: option.splits)
  have b: "device_settings (set_peer_keepalive_and_flush env attrs pid wg) = device_settings wg" for wg
    by (simp add: set_peer_keepalive_and_flush_def Let_def split: option.splits)
  show ?thesis
  proof (cases "wgpeer_a_allowedips attrs")
    case None
    then show ?thesis by (simp add: set_peer_configure_def a b)
  next
    case (Some l)
    have "device_settings (snd (set_peer_allowedips env (set_peer_keys_and_endpoint attrs pid wg) pid 0 l))
          = device_settings wg" by (simp add: a)
    then show ?thesis using Some by (simp add: set_peer_configure_def b case_prod_beta)
  qed
qed

lemma settings_set_peer [simp]:
  "device_settings (fst (snd (set_peer env wg attrs))) = device_settings wg"
proof (cases "set_peer_public_key attrs")
  case None
  then show ?thesis by (simp add: set_peer_def)
next
  case (Some k)
  show ?thesis
  proof (cases "set_peer_lookup env wg attrs k")
    case (Inl r)
    with Some show ?thesis by (simp add: set_peer_def)
  next
    case (Inr c)
    obtain pid wg1 where c: "c = (pid, wg1)" by (cases c)
    have g1: "device_settings wg1 = device_settings wg"
      using Inr c settings_set_peer_lookup by blast
    have "device_settings (snd (set_peer_configure env attrs pid wg1)) = device_settings wg"
      using g1 by simp
    then show ?thesis using Some Inr c g1 by (simp add: set_peer_def case_prod_beta)
  qed
qed

lemma settings_set_peers [simp]:
  "device_settings (fst (snd (set_peers env wg l))) = device_settings wg"
proof (induction l arbitrary: wg)
  case Nil
  then show ?case by simp
next
  case (Cons x l)
  obtain parsed a where x: "x = (parsed, a)" by (cases x)
  obtain r w a' where step: "set_peer env wg a = (r, w, a')" by (cases "set_peer env wg a")
  have w: "device_settings w = device_settings wg"
    using settings_set_peer [of env wg a] step by simp
  show ?case using Cons.IH [of w] x step w by (simp add: case_prod_beta)
qed

lemma settings_remove_unusable_peers [simp]:
  "device_settings (remove_unusable_peers env wg) = device_settings wg"
proof -
  have "device_settings (fold (\<lambda>p wg. if \<not> env_noise_precompute_static_static env (static_private wg) (remote_static p)
                   then peer_remove (peer_id p) wg else wg) ps wg) = device_settings wg" for ps
    by (induction ps arbitrary: wg) simp_all
  then show ?thesis by (simp add: remove_unusable_peers_def)
qed


text \<open>The listening port sub-update: its return value, and what it leaves.\<close>

lemma port_step:
  "fst (update_listen_port env attrs (update_fwmark attrs (wg\<lparr>device_update_gen := device_update_gen wg + 1\<rparr>)))
     = (if port_fails env attrs wg then env_socket_init env (requested_port attrs wg) else 0)"
  by (simp add: update_listen_port_def update_fwmark_def set_device_port_def port_fails_def
        requested_port_def Let_def split: option.splits)

lemma port_step_fails:
  "port_fails env attrs wg \<Longrightarrow>
   fst (update_listen_port env attrs (update_fwmark attrs (wg\<lparr>device_update_gen := device_update_gen wg + 1\<rparr>))) \<noteq> 0"
  by (auto simp: port_step port_fails_def requested_port_def split: option.splits)

lemma port_step_state:
  "fwmark (snd (update_listen_port env attrs (update_fwmark attrs (wg\<lparr>device_update_gen := device_update_gen wg + 1\<rparr>))))
     = requested_fwmark attrs wg"
  "incoming_port (snd (update_listen_port env attrs (update_fwmark attrs (wg\<lparr>device_update_gen := device_update_gen wg + 1\<rparr>))))
     = requested_port attrs wg"
  "device_identity (snd (update_listen_port env attrs (update_fwmark attrs (wg\<lparr>device_update_gen := device_update_gen wg + 1\<rparr>))))
     = device_identity wg"
  "peer_routing_table (snd (update_listen_port env attrs (update_fwmark attrs (wg\<lparr>device_update_gen := device_update_gen wg + 1\<rparr>))))
     = peer_routing_table wg"
  "map remote_static (peer_list (snd (update_listen_port env attrs (update_fwmark attrs (wg\<lparr>device_update_gen := device_update_gen wg + 1\<rparr>)))))
     = map remote_static (peer_list wg)"
  "tx_log (snd (update_listen_port env attrs (update_fwmark attrs (wg\<lparr>device_update_gen := device_update_gen wg + 1\<rparr>))))
     = tx_log wg"
  by (simp_all add: update_listen_port_def update_fwmark_def set_device_port_def requested_fwmark_def
        requested_port_def device_identity_def socket_clear_peer_endpoint_src_def Let_def comp_def
      split: option.splits)

text \<open>The sub-updates after the listening port keep the firewall mark and the port; the
  identity is the requested one from the private key sub-update on.\<close>

lemma requested_identity_cong:
  "device_identity w = device_identity wg \<Longrightarrow> requested_identity env attrs w = requested_identity env attrs wg"
  by (simp add: requested_identity_def split: option.splits)

lemma later_steps_state:
  "fwmark (fst (snd (update_peers env attrs (update_private_key env attrs (update_replace_peers attrs w))))) = fwmark w"
  "incoming_port (fst (snd (update_peers env attrs (update_private_key env attrs (update_replace_peers attrs w)))))
     = incoming_port w"
  "device_identity (fst (snd (update_peers env attrs (update_private_key env attrs (update_replace_peers attrs w)))))
     = requested_identity env attrs w"
proof -
  let ?w3 = "update_replace_peers attrs w"
  let ?w4 = "update_private_key env attrs ?w3"
  have 3: "device_settings ?w3 = device_settings w"
    by (simp add: update_replace_peers_def split: option.splits)
  have 4: "fwmark ?w4 = fwmark ?w3" "incoming_port ?w4 = incoming_port ?w3"
    "device_identity ?w4 = requested_identity env attrs ?w3"
  proof -
    have keep: "fwmark (remove_unusable_peers env v) = fwmark v"
      "incoming_port (remove_unusable_peers env v) = incoming_port v"
      "device_identity (remove_unusable_peers env v) = device_identity v" for v
      using settings_remove_unusable_peers [of env v] by (simp_all add: device_settings_def)
    have lookup: "fwmark (case pubkey_hashtable_lookup v K of None \<Rightarrow> v | Some p \<Rightarrow> peer_remove (peer_id p) v) = fwmark v"
      "incoming_port (case pubkey_hashtable_lookup v K of None \<Rightarrow> v | Some p \<Rightarrow> peer_remove (peer_id p) v)
         = incoming_port v" for v K
      by (simp_all add: peer_remove_def routing_table_remove_by_peer_def split: option.splits)
    show "fwmark ?w4 = fwmark ?w3" "incoming_port ?w4 = incoming_port ?w3"
      by (simp_all add: update_private_key_def keep lookup noise_set_static_identity_private_key_def
            split: option.splits)
    show "device_identity ?w4 = requested_identity env attrs ?w3"
      by (simp add: update_private_key_def requested_identity_def keep split: option.splits)
         (simp add: device_identity_def noise_set_static_identity_private_key_def)
  qed
  have 5: "device_settings (fst (snd (update_peers env attrs v))) = device_settings v" for v
  proof (cases "wgdevice_a_peers attrs")
    case None
    then show ?thesis by (simp add: update_peers_def)
  next
    case (Some l)
    then show ?thesis using settings_set_peers [of env v l] by (simp add: update_peers_def case_prod_beta)
  qed
  have same: "requested_identity env attrs ?w3 = requested_identity env attrs w"
    using 3 by (intro requested_identity_cong) (simp add: device_settings_def)
  show "fwmark (fst (snd (update_peers env attrs ?w4))) = fwmark w"
    "incoming_port (fst (snd (update_peers env attrs ?w4))) = incoming_port w"
    "device_identity (fst (snd (update_peers env attrs ?w4))) = requested_identity env attrs w"
    using 3 4 5 [of ?w4] same by (simp_all add: device_settings_def)
qed

text \<open>What a request that finds its device leaves of the sub-updates before the peer list,
  whatever it returns.\<close>

lemma set_locked_frame:
  "fwmark (fst (snd (set_locked env wg attrs))) = requested_fwmark attrs wg"
  "incoming_port (fst (snd (set_locked env wg attrs))) = requested_port attrs wg"
  "port_fails env attrs wg \<Longrightarrow> fst (set_locked env wg attrs) = env_socket_init env (requested_port attrs wg)"
  "port_fails env attrs wg \<Longrightarrow> device_identity (fst (snd (set_locked env wg attrs))) = device_identity wg"
  "port_fails env attrs wg \<Longrightarrow> peer_routing_table (fst (snd (set_locked env wg attrs))) = peer_routing_table wg"
  "port_fails env attrs wg \<Longrightarrow>
     map remote_static (peer_list (fst (snd (set_locked env wg attrs)))) = map remote_static (peer_list wg)"
  "port_fails env attrs wg \<Longrightarrow> tx_log (fst (snd (set_locked env wg attrs))) = tx_log wg"
  "\<not> port_fails env attrs wg \<Longrightarrow>
     device_identity (fst (snd (set_locked env wg attrs))) = requested_identity env attrs wg"
proof -
  let ?port = "update_listen_port env attrs (update_fwmark attrs (wg\<lparr>device_update_gen := device_update_gen wg + 1\<rparr>))"
  have run: "set_locked env wg attrs =
      (if fst ?port \<noteq> 0 then (fst ?port, snd ?port, attrs)
       else update_peers env attrs (update_private_key env attrs (update_replace_peers attrs (snd ?port))))"
    by (simp add: set_locked_steps case_prod_beta)
  have ident: "requested_identity env attrs (snd ?port) = requested_identity env attrs wg"
    by (rule requested_identity_cong) (rule port_step_state(3))
  show "fwmark (fst (snd (set_locked env wg attrs))) = requested_fwmark attrs wg"
    "incoming_port (fst (snd (set_locked env wg attrs))) = requested_port attrs wg"
    by (simp_all add: run later_steps_state port_step_state)
  show "fst (set_locked env wg attrs) = env_socket_init env (requested_port attrs wg)"
    "device_identity (fst (snd (set_locked env wg attrs))) = device_identity wg"
    "peer_routing_table (fst (snd (set_locked env wg attrs))) = peer_routing_table wg"
    "map remote_static (peer_list (fst (snd (set_locked env wg attrs)))) = map remote_static (peer_list wg)"
    "tx_log (fst (snd (set_locked env wg attrs))) = tx_log wg"
    if "port_fails env attrs wg"
    using port_step_fails [OF that] port_step [of env attrs wg] that
    by (simp_all add: run port_step_state)
  show "device_identity (fst (snd (set_locked env wg attrs))) = requested_identity env attrs wg"
    if "\<not> port_fails env attrs wg"
    using port_step [of env attrs wg] that by (simp add: run later_steps_state ident)
qed

text \<open>The request cut after some of its peer entries, when it returns zero, gives the state
  and the buffers with which the whole request goes on.\<close>

lemma set_dev_prefix_buffers:
  assumes found: "lookup_interface net attrs = Inr k"
    and peers: "wgdevice_a_peers attrs = Some (pre @ rest)"
    and before: "set_dev env net (attrs\<lparr>wgdevice_a_peers := Some pre\<rparr>) = (0, net', attrs')"
  shows "\<exists>pre'. wgdevice_a_peers attrs' = Some pre'
         \<and> set_dev env net attrs =
             (case set_peers env (net' ! k) rest of
                (ret, wg, rest') \<Rightarrow>
                  (ret, net'[k := wg], attrs'\<lparr>wgdevice_a_peers := Some (pre' @ rest')\<rparr>))"
proof -
  let ?wg1 = "update_fwmark attrs ((net ! k)\<lparr>device_update_gen := device_update_gen (net ! k) + 1\<rparr>)"
  let ?wg4 = "device_fields_applied env attrs (net ! k)"
  have k: "k < length net" using found by (rule lookup_interface_less)
  obtain r wg2 where port: "update_listen_port env attrs ?wg1 = (r, wg2)"
    by (cases "update_listen_port env attrs ?wg1")
  obtain r1 wg5 pre' where pre: "set_peers env ?wg4 pre = (r1, wg5, pre')"
    by (cases "set_peers env ?wg4 pre")
  from before found port pre have r0: "r = 0"
    by (simp add: set_dev_def set_locked_peers split: if_splits)
  from before found port pre r0 have r1: "r1 = 0" and net': "net' = net[k := wg5]"
    and attrs': "attrs' = set_out_nodev (attrs\<lparr>wgdevice_a_peers := Some pre'\<rparr>)"
    by (simp_all add: set_dev_def set_locked_peers)
  from net' k have wg5: "net' ! k = wg5" by simp
  have "set_dev env net attrs =
           (case set_peers env (net' ! k) rest of
              (ret, wg, rest') \<Rightarrow>
                (ret, net'[k := wg], attrs'\<lparr>wgdevice_a_peers := Some (pre' @ rest')\<rparr>))"
    using found port r0 peers pre r1 wg5
    by (simp add: set_dev_def set_locked_peers set_peers_append case_prod_beta net' attrs'
          set_out_nodev_def)
  moreover have "wgdevice_a_peers attrs' = Some pre'" by (simp add: attrs' set_out_nodev_def)
  ultimately show ?thesis by blast
qed

text \<open>
  Claim C4. A request that finds its device is the application, in this order, of the
  firewall mark, the listening port, the flag that replaces all peers, the private key
  and the peer list, to the device with its generation counter advanced; the first
  sub-update that does not return zero ends the request with its return value. When the
  request returns a value other than zero, the order splits into the sub-updates applied
  with success, the one that failed and the ones skipped, and the device is left exactly
  as the failing sub-update left it, starting from the state the successful ones
  produced: nothing is rolled back and nothing later is applied.

  The two sub-updates that can fail are pinned down. Whatever the request returns, the
  device has the requested firewall mark and listening port. When the socket cannot be
  opened on the new port, the request returns the error of the socket, and identity,
  routing table, peers and transmissions are those before the request: the later
  sub-updates were not applied. Otherwise the device has the requested identity, also
  when the peer list fails. The peer list is applied entry by entry, each to the state
  the entries before it left: an entry that succeeds extends the successful request by
  the effect of \<^verbatim>\<open>set_peer\<close> on it; an entry that could not be parsed ends the request with
  that value and the state before it; an entry on which \<^verbatim>\<open>set_peer\<close> fails ends the request
  with its error and the state it left. In both cases the entries after it keep their
  buffers as they were.
\<close>

theorem sub_updates_in_order:
  "set_dev env net attrs =
     (case lookup_interface net attrs of
        Inl err \<Rightarrow> (err, net, set_out_nodev attrs)
      | Inr k \<Rightarrow>
          (case apply_in_order env sub_update_order
                  ((net ! k)\<lparr>device_update_gen := device_update_gen (net ! k) + 1\<rparr>) attrs of
             (ret, wg, attrs') \<Rightarrow> (ret, net[k := wg], set_out_nodev attrs')))
   \<and> (\<forall>k. lookup_interface net attrs = Inr k \<and> fst (set_dev env net attrs) \<noteq> 0 \<longrightarrow>
         (\<exists>us1 u us2 wg1 attrs1.
            sub_update_order = us1 @ u # us2
            \<and> apply_in_order env us1 ((net ! k)\<lparr>device_update_gen := device_update_gen (net ! k) + 1\<rparr>) attrs
                = (0, wg1, attrs1)
            \<and> fst (apply_sub_update env u wg1 attrs1) = fst (set_dev env net attrs)
            \<and> fst (snd (apply_sub_update env u wg1 attrs1)) = fst (snd (set_dev env net attrs)) ! k))
   \<and> (lookup_interface net attrs = Inr j \<longrightarrow>
         fwmark (fst (snd (set_dev env net attrs)) ! j) = requested_fwmark attrs (net ! j)
       \<and> incoming_port (fst (snd (set_dev env net attrs)) ! j) = requested_port attrs (net ! j)
       \<and> (port_fails env attrs (net ! j) \<longrightarrow>
            fst (set_dev env net attrs) = env_socket_init env (requested_port attrs (net ! j))
          \<and> device_identity (fst (snd (set_dev env net attrs)) ! j) = device_identity (net ! j)
          \<and> peer_routing_table (fst (snd (set_dev env net attrs)) ! j) = peer_routing_table (net ! j)
          \<and> map remote_static (peer_list (fst (snd (set_dev env net attrs)) ! j))
              = map remote_static (peer_list (net ! j))
          \<and> tx_log (fst (snd (set_dev env net attrs)) ! j) = tx_log (net ! j))
       \<and> (\<not> port_fails env attrs (net ! j) \<longrightarrow>
            device_identity (fst (snd (set_dev env net attrs)) ! j) = requested_identity env attrs (net ! j)))
   \<and> (lookup_interface net attrs = Inr j
        \<and> wgdevice_a_peers attrs = Some (pre @ (parsed, e) # post)
        \<and> set_dev env net (attrs\<lparr>wgdevice_a_peers := Some pre\<rparr>) = (0, netB, attrsB) \<longrightarrow>
         (\<exists>pre'. wgdevice_a_peers attrsB = Some pre'
            \<and> (parsed < 0 \<longrightarrow>
                 set_dev env net attrs
                   = (parsed, netB, attrsB\<lparr>wgdevice_a_peers := Some (pre' @ (parsed, e) # post)\<rparr>))
            \<and> (0 \<le> parsed \<and> fst (set_peer env (netB ! j) e) < 0 \<longrightarrow>
                 set_dev env net attrs
                   = (fst (set_peer env (netB ! j) e),
                      netB[j := fst (snd (set_peer env (netB ! j) e))],
                      attrsB\<lparr>wgdevice_a_peers :=
                        Some (pre' @ (parsed, snd (snd (set_peer env (netB ! j) e))) # post)\<rparr>))
            \<and> (0 \<le> parsed \<and> 0 \<le> fst (set_peer env (netB ! j) e) \<longrightarrow>
                 set_dev env net (attrs\<lparr>wgdevice_a_peers := Some (pre @ [(parsed, e)])\<rparr>)
                   = (0, netB[j := fst (snd (set_peer env (netB ! j) e))],
                      attrsB\<lparr>wgdevice_a_peers :=
                        Some (pre' @ [(parsed, snd (snd (set_peer env (netB ! j) e)))])\<rparr>))))"
proof -
  have eq: "set_dev env net attrs =
     (case lookup_interface net attrs of
        Inl err \<Rightarrow> (err, net, set_out_nodev attrs)
      | Inr k \<Rightarrow>
          (case apply_in_order env sub_update_order
                  ((net ! k)\<lparr>device_update_gen := device_update_gen (net ! k) + 1\<rparr>) attrs of
             (ret, wg, attrs') \<Rightarrow> (ret, net[k := wg], set_out_nodev attrs')))"
    by (simp add: set_dev_def set_locked_in_order split: sum.splits)
  have fail: "\<exists>us1 u us2 wg1 attrs1.
            sub_update_order = us1 @ u # us2
            \<and> apply_in_order env us1 ((net ! k)\<lparr>device_update_gen := device_update_gen (net ! k) + 1\<rparr>) attrs
                = (0, wg1, attrs1)
            \<and> fst (apply_sub_update env u wg1 attrs1) = fst (set_dev env net attrs)
            \<and> fst (snd (apply_sub_update env u wg1 attrs1)) = fst (snd (set_dev env net attrs)) ! k"
    if found: "lookup_interface net attrs = Inr k" and failed: "fst (set_dev env net attrs) \<noteq> 0" for k
  proof -
    let ?wg0 = "(net ! k)\<lparr>device_update_gen := device_update_gen (net ! k) + 1\<rparr>"
    obtain ret wg' attrs' where run: "apply_in_order env sub_update_order ?wg0 attrs = (ret, wg', attrs')"
      by (cases "apply_in_order env sub_update_order ?wg0 attrs")
    have k: "k < length net" using found by (rule lookup_interface_less)
    have res: "fst (set_dev env net attrs) = ret" "fst (snd (set_dev env net attrs)) ! k = wg'"
      using eq found run k by simp_all
    from apply_in_order_failure [OF run] failed res(1)
    obtain us1 u us2 wg1 attrsB where
      "sub_update_order = us1 @ u # us2" "apply_in_order env us1 ?wg0 attrs = (0, wg1, attrsB)"
      "apply_sub_update env u wg1 attrsB = (ret, wg', attrs')" by blast
    then show ?thesis using res by (intro exI [of _ us1] exI [of _ u] exI [of _ us2] exI [of _ wg1] exI [of _ attrsB]) simp
  qed
  have frame: "fwmark (fst (snd (set_dev env net attrs)) ! j) = requested_fwmark attrs (net ! j)
       \<and> incoming_port (fst (snd (set_dev env net attrs)) ! j) = requested_port attrs (net ! j)
       \<and> (port_fails env attrs (net ! j) \<longrightarrow>
            fst (set_dev env net attrs) = env_socket_init env (requested_port attrs (net ! j))
          \<and> device_identity (fst (snd (set_dev env net attrs)) ! j) = device_identity (net ! j)
          \<and> peer_routing_table (fst (snd (set_dev env net attrs)) ! j) = peer_routing_table (net ! j)
          \<and> map remote_static (peer_list (fst (snd (set_dev env net attrs)) ! j))
              = map remote_static (peer_list (net ! j))
          \<and> tx_log (fst (snd (set_dev env net attrs)) ! j) = tx_log (net ! j))
       \<and> (\<not> port_fails env attrs (net ! j) \<longrightarrow>
            device_identity (fst (snd (set_dev env net attrs)) ! j) = requested_identity env attrs (net ! j))"
    if found: "lookup_interface net attrs = Inr j"
  proof -
    have j: "j < length net" using found by (rule lookup_interface_less)
    have res: "fst (set_dev env net attrs) = fst (set_locked env (net ! j) attrs)"
      "fst (snd (set_dev env net attrs)) ! j = fst (snd (set_locked env (net ! j) attrs))"
      using found j by (simp_all add: set_dev_def case_prod_beta)
    show ?thesis unfolding res using set_locked_frame [where env = env and wg = "net ! j" and attrs = attrs] by simp
  qed
  have list: "\<exists>pre'. wgdevice_a_peers attrsB = Some pre'
            \<and> (parsed < 0 \<longrightarrow>
                 set_dev env net attrs
                   = (parsed, netB, attrsB\<lparr>wgdevice_a_peers := Some (pre' @ (parsed, e) # post)\<rparr>))
            \<and> (0 \<le> parsed \<and> fst (set_peer env (netB ! j) e) < 0 \<longrightarrow>
                 set_dev env net attrs
                   = (fst (set_peer env (netB ! j) e),
                      netB[j := fst (snd (set_peer env (netB ! j) e))],
                      attrsB\<lparr>wgdevice_a_peers :=
                        Some (pre' @ (parsed, snd (snd (set_peer env (netB ! j) e))) # post)\<rparr>))
            \<and> (0 \<le> parsed \<and> 0 \<le> fst (set_peer env (netB ! j) e) \<longrightarrow>
                 set_dev env net (attrs\<lparr>wgdevice_a_peers := Some (pre @ [(parsed, e)])\<rparr>)
                   = (0, netB[j := fst (snd (set_peer env (netB ! j) e))],
                      attrsB\<lparr>wgdevice_a_peers :=
                        Some (pre' @ [(parsed, snd (snd (set_peer env (netB ! j) e)))])\<rparr>))"
    if found: "lookup_interface net attrs = Inr j"
      and peers: "wgdevice_a_peers attrs = Some (pre @ (parsed, e) # post)"
      and before: "set_dev env net (attrs\<lparr>wgdevice_a_peers := Some pre\<rparr>) = (0, netB, attrsB)"
  proof -
    let ?one = "attrs\<lparr>wgdevice_a_peers := Some (pre @ [(parsed, e)])\<rparr>"
    from set_dev_prefix_buffers [OF found peers before] obtain pre' where
      pre': "wgdevice_a_peers attrsB = Some pre'"
      and whole: "set_dev env net attrs =
             (case set_peers env (netB ! j) ((parsed, e) # post) of
                (ret, wg, rest') \<Rightarrow>
                  (ret, netB[j := wg], attrsB\<lparr>wgdevice_a_peers := Some (pre' @ rest')\<rparr>))"
      by blast
    have found1: "lookup_interface net ?one = Inr j" using found by simp
    have peers1: "wgdevice_a_peers ?one = Some (pre @ [(parsed, e)])" by simp
    have before1: "set_dev env net (?one\<lparr>wgdevice_a_peers := Some pre\<rparr>) = (0, netB, attrsB)"
      using before by simp
    from set_dev_prefix_buffers [OF found1 peers1 before1] pre' have
      one: "set_dev env net ?one =
             (case set_peers env (netB ! j) [(parsed, e)] of
                (ret, wg, rest') \<Rightarrow>
                  (ret, netB[j := wg], attrsB\<lparr>wgdevice_a_peers := Some (pre' @ rest')\<rparr>))"
      by auto
    have same: "netB[j := netB ! j] = netB" by simp
    have "parsed < 0 \<longrightarrow>
                 set_dev env net attrs
                   = (parsed, netB, attrsB\<lparr>wgdevice_a_peers := Some (pre' @ (parsed, e) # post)\<rparr>)"
      by (simp add: whole same)
    moreover have "0 \<le> parsed \<and> fst (set_peer env (netB ! j) e) < 0 \<longrightarrow>
                 set_dev env net attrs
                   = (fst (set_peer env (netB ! j) e),
                      netB[j := fst (snd (set_peer env (netB ! j) e))],
                      attrsB\<lparr>wgdevice_a_peers :=
                        Some (pre' @ (parsed, snd (snd (set_peer env (netB ! j) e))) # post)\<rparr>)"
      by (simp add: whole case_prod_beta)
    moreover have "0 \<le> parsed \<and> 0 \<le> fst (set_peer env (netB ! j) e) \<longrightarrow>
                 set_dev env net ?one
                   = (0, netB[j := fst (snd (set_peer env (netB ! j) e))],
                      attrsB\<lparr>wgdevice_a_peers :=
                        Some (pre' @ [(parsed, snd (snd (set_peer env (netB ! j) e)))])\<rparr>)"
      by (simp add: one case_prod_beta)
    ultimately show ?thesis using pre' by blast
  qed
  show ?thesis using eq fail frame list by blast
qed

theorem sub_updates_in_order_witness:
  "lookup_interface [ex_dev\<lparr>peer_list := [ex_peer 0 1], peer_id_next := 1\<rparr>] ex_reconfigure = Inr 0
   \<and> fst (set_dev ex_env_busy [ex_dev\<lparr>peer_list := [ex_peer 0 1], peer_id_next := 1\<rparr>] ex_reconfigure) = - 98
   \<and> fst (snd (set_dev ex_env_busy [ex_dev\<lparr>peer_list := [ex_peer 0 1], peer_id_next := 1\<rparr>] ex_reconfigure))
       = [ex_dev\<lparr>peer_list := [ex_peer 0 1], peer_id_next := 1, device_update_gen := 1, fwmark := 7,
                 incoming_port := 51820, sock_open := False\<rparr>]
   \<and> sub_update_order = [Firewall_mark] @ Listening_port # [Replace_all_peers, Private_key, Peer_list]
   \<and> apply_in_order ex_env_busy [Firewall_mark]
        (ex_dev\<lparr>peer_list := [ex_peer 0 1], peer_id_next := 1, device_update_gen := 1\<rparr>) ex_reconfigure
       = (0, ex_dev\<lparr>peer_list := [ex_peer 0 1], peer_id_next := 1, device_update_gen := 1, fwmark := 7\<rparr>,
          ex_reconfigure)
   \<and> fst (apply_sub_update ex_env_busy Listening_port
        (ex_dev\<lparr>peer_list := [ex_peer 0 1], peer_id_next := 1, device_update_gen := 1, fwmark := 7\<rparr>)
        ex_reconfigure) = - 98
   \<and> lookup_interface [ex_dev\<lparr>peer_list := [ex_peer 0 1], peer_id_next := 1\<rparr>] ex_reconfigure_peers = Inr 0
   \<and> \<not> port_fails ex_env ex_reconfigure_peers (ex_dev\<lparr>peer_list := [ex_peer 0 1], peer_id_next := 1\<rparr>)
   \<and> wgdevice_a_peers ex_reconfigure_peers
       = Some ([(0, ex_peer_attrs\<lparr>wgpeer_a_public_key := Some (ex_key 2)\<rparr>)] @ (0, ex_remove) # [(0, ex_peer_attrs\<lparr>wgpeer_a_public_key := Some (ex_key 3),
                                   wgpeer_a_preshared_key := Some (ex_key 7)\<rparr>)])
   \<and> fst (set_dev ex_env [ex_dev\<lparr>peer_list := [ex_peer 0 1], peer_id_next := 1\<rparr>]
            (ex_reconfigure_peers\<lparr>wgdevice_a_peers := Some [(0, ex_peer_attrs\<lparr>wgpeer_a_public_key := Some (ex_key 2)\<rparr>)]\<rparr>)) = 0
   \<and> fst (snd (set_dev ex_env [ex_dev\<lparr>peer_list := [ex_peer 0 1], peer_id_next := 1\<rparr>]
            (ex_reconfigure_peers\<lparr>wgdevice_a_peers := Some [(0, ex_peer_attrs\<lparr>wgpeer_a_public_key := Some (ex_key 2)\<rparr>)]\<rparr>)))
       = [ex_dev\<lparr>device_update_gen := 1, fwmark := 7, incoming_port := 51820,
                 static_private := ex_key 0, static_public := ex_key 1,
                 peer_list := [ex_peer 1 2], peer_id_next := 2, tx_log := [Staged_packets 1]\<rparr>]
   \<and> fst (set_peer ex_env (ex_dev\<lparr>device_update_gen := 1, fwmark := 7, incoming_port := 51820,
                 static_private := ex_key 0, static_public := ex_key 1,
                 peer_list := [ex_peer 1 2], peer_id_next := 2, tx_log := [Staged_packets 1]\<rparr>) ex_remove) = - ENODEV
   \<and> fst (set_dev ex_env [ex_dev\<lparr>peer_list := [ex_peer 0 1], peer_id_next := 1\<rparr>] ex_reconfigure_peers) = - ENODEV
   \<and> fst (snd (set_dev ex_env [ex_dev\<lparr>peer_list := [ex_peer 0 1], peer_id_next := 1\<rparr>] ex_reconfigure_peers))
       = [ex_dev\<lparr>device_update_gen := 1, fwmark := 7, incoming_port := 51820,
                 static_private := ex_key 0, static_public := ex_key 1,
                 peer_list := [ex_peer 1 2], peer_id_next := 2, tx_log := [Staged_packets 1]\<rparr>]
   \<and> device_identity (fst (snd (set_dev ex_env [ex_dev\<lparr>peer_list := [ex_peer 0 1], peer_id_next := 1\<rparr>] ex_reconfigure_peers)) ! 0)
       = (True, ex_key 0, ex_key 1)
   \<and> wgdevice_a_peers (snd (snd (set_dev ex_env [ex_dev\<lparr>peer_list := [ex_peer 0 1], peer_id_next := 1\<rparr>] ex_reconfigure_peers)))
       = Some [(0, ex_peer_attrs\<lparr>wgpeer_a_public_key := Some (ex_key 2)\<rparr>), (0, ex_remove), (0, ex_peer_attrs\<lparr>wgpeer_a_public_key := Some (ex_key 3),
                                   wgpeer_a_preshared_key := Some (ex_key 7)\<rparr>)]"
proof -
  let ?wg = "ex_dev\<lparr>peer_list := [ex_peer 0 1], peer_id_next := 1\<rparr>"
  have found: "lookup_interface [?wg] ex_reconfigure = Inr 0"
    by (simp add: lookup_interface_def ex_dev_def ex_reconfigure_def ex_device_attrs_def KBUILD_MODNAME_def)
  have mark: "apply_sub_update ex_env_busy Firewall_mark (?wg\<lparr>device_update_gen := 1\<rparr>) ex_reconfigure
       = (0, ?wg\<lparr>device_update_gen := 1, fwmark := 7\<rparr>, ex_reconfigure)"
    by (simp add: update_fwmark_def ex_reconfigure_def ex_device_attrs_def ex_dev_def ex_peer_def
          socket_clear_peer_endpoint_src_def endpoint_zero_def)
  have port: "apply_sub_update ex_env_busy Listening_port (?wg\<lparr>device_update_gen := 1, fwmark := 7\<rparr>) ex_reconfigure
       = (- 98, ?wg\<lparr>device_update_gen := 1, fwmark := 7, incoming_port := 51820, sock_open := False\<rparr>,
          ex_reconfigure)"
    by (simp add: update_listen_port_def set_device_port_def ex_reconfigure_def ex_device_attrs_def
          ex_dev_def ex_peer_def ex_env_busy_def ex_env_def socket_clear_peer_endpoint_src_def
          endpoint_zero_def Let_def)
  have gen: "device_update_gen ?wg + 1 = 1" by (simp add: ex_dev_def)
  have run: "apply_in_order ex_env_busy sub_update_order
               (([?wg] ! 0)\<lparr>device_update_gen := device_update_gen ([?wg] ! 0) + 1\<rparr>) ex_reconfigure
       = (- 98, ?wg\<lparr>device_update_gen := 1, fwmark := 7, incoming_port := 51820, sock_open := False\<rparr>,
          ex_reconfigure)"
    using mark port gen by (simp add: sub_update_order_def)
  have res: "fst (set_dev ex_env_busy [?wg] ex_reconfigure) = - 98"
    "fst (snd (set_dev ex_env_busy [?wg] ex_reconfigure))
       = [?wg\<lparr>device_update_gen := 1, fwmark := 7, incoming_port := 51820, sock_open := False\<rparr>]"
    using sub_updates_in_order [of ex_env_busy "[?wg]" ex_reconfigure] found run by simp_all
  let ?attrs = "ex_reconfigure_peers"
  let ?first = "(0, ex_peer_attrs\<lparr>wgpeer_a_public_key := Some (ex_key 2)\<rparr>)"
  let ?third = "(0, ex_peer_attrs\<lparr>wgpeer_a_public_key := Some (ex_key 3),
                                   wgpeer_a_preshared_key := Some (ex_key 7)\<rparr>)"
  let ?cut = "?attrs\<lparr>wgdevice_a_peers := Some [?first]\<rparr>"
  let ?wD = "ex_dev\<lparr>device_update_gen := 1, fwmark := 7, incoming_port := 51820,
                 static_private := ex_key 0, static_public := ex_key 1,
                 peer_list := [], peer_id_next := 1\<rparr>"
  let ?wP = "ex_dev\<lparr>device_update_gen := 1, fwmark := 7, incoming_port := 51820,
                 static_private := ex_key 0, static_public := ex_key 1,
                 peer_list := [ex_peer 1 2], peer_id_next := 2, tx_log := [Staged_packets 1]\<rparr>"
  have attrs: "?attrs = ex_reconfigure\<lparr>wgdevice_a_peers := Some [?first, (0, ex_remove), ?third]\<rparr>"
    by (simp add: ex_reconfigure_peers_def)
  have found2: "lookup_interface [?wg] ?attrs = Inr 0"
    using found by (simp add: attrs)
  have found_cut: "lookup_interface [?wg] ?cut = Inr 0"
    using found by (simp add: attrs)
  have nofail: "\<not> port_fails ex_env ?attrs ?wg"
    by (simp add: port_fails_def attrs ex_reconfigure_def ex_device_attrs_def ex_env_def)
  have peers2: "wgdevice_a_peers ?attrs = Some ([?first] @ (0, ex_remove) # [?third])"
    by (simp add: attrs)
  have pub: "env_curve25519_generate_public ex_env (ex_key 0) = (True, ex_key 1)"
    by (simp add: ex_env_def ex_key_def)
  have fields: "device_fields_applied ex_env ?cut ?wg = ?wD"
    using pub
    by (simp add: device_fields_applied_def update_fwmark_def update_listen_port_def
          set_device_port_def update_replace_peers_def update_private_key_def
          remove_unusable_peers_def peer_remove_all_def
          noise_set_static_identity_private_key_def pubkey_hashtable_lookup_def
          NOISE_PUBLIC_KEY_LEN_def WGDEVICE_F_REPLACE_PEERS_def socket_clear_peer_endpoint_src_def
          attrs ex_reconfigure_def ex_device_attrs_def ex_dev_def ex_peer_def Let_def)
       (simp add: ex_env_def)
  have port_cut: "listen_port_ret ex_env ?cut ([?wg] ! 0) = 0"
    by (simp add: listen_port_ret_def update_listen_port_def update_fwmark_def set_device_port_def
          attrs ex_reconfigure_def ex_device_attrs_def ex_dev_def ex_env_def Let_def)
  have peers_cut: "wgdevice_a_peers ?cut = Some [?first]" by simp
  have one: "set_peer ex_env ?wD (snd ?first) = (0, ?wP, set_peer_out (snd ?first))"
    by (simp add: set_peer_eval ex_peer_attrs_def ex_dev_def ex_env_def ex_peer_def)
  have cut: "fst (set_dev ex_env [?wg] ?cut) = 0" "fst (snd (set_dev ex_env [?wg] ?cut)) = [?wP]"
    "wgdevice_a_peers (snd (snd (set_dev ex_env [?wg] ?cut))) = Some [?first]"
    unfolding set_dev_peers [OF found_cut port_cut peers_cut]
    using fields one
    by (simp_all add: set_out_nodev_def set_peer_out_def ex_peer_attrs_def)
  have before: "set_dev ex_env [?wg] (?attrs\<lparr>wgdevice_a_peers := Some [?first]\<rparr>)
      = (0, [?wP], snd (snd (set_dev ex_env [?wg] ?cut)))"
    using cut(1,2) by (simp add: prod_eq_iff)
  have entry: "set_peer ex_env ([?wP] ! 0) ex_remove = (- ENODEV, ?wP, set_peer_out ex_remove)"
    by (simp add: set_peer_def set_peer_public_key_def set_peer_lookup_def set_peer_flags_def
          pubkey_hashtable_lookup_def memcmp_eq_def NOISE_PUBLIC_KEY_LEN_def WGPEER_F_REMOVE_ME_def
          ex_remove_def ex_peer_attrs_def ex_dev_def ex_peer_def)
  have unchanged: "set_peer_out ex_remove = ex_remove"
    by (simp add: set_peer_out_def ex_remove_def ex_peer_attrs_def)
  have hyp: "lookup_interface [?wg] ?attrs = Inr 0
        \<and> wgdevice_a_peers ?attrs = Some ([?first] @ (0, ex_remove) # [?third])
        \<and> set_dev ex_env [?wg] (?attrs\<lparr>wgdevice_a_peers := Some [?first]\<rparr>)
            = (0, [?wP], snd (snd (set_dev ex_env [?wg] ?cut)))"
    by (intro conjI) (rule found2, rule peers2, rule before)
  note inst = sub_updates_in_order [where env = ex_env and net = "[?wg]" and attrs = ?attrs and j = 0
      and pre = "[?first]" and parsed = 0 and e = ex_remove and post = "[?third]"
      and netB = "[?wP]" and attrsB = "snd (snd (set_dev ex_env [?wg] ?cut))"]
  from inst [THEN conjunct2, THEN conjunct2, THEN conjunct2, THEN mp, OF hyp] cut(3) have
    "(0 :: int) \<le> 0 \<and> fst (set_peer ex_env ([?wP] ! 0) ex_remove) < 0 \<longrightarrow>
       set_dev ex_env [?wg] ?attrs
         = (fst (set_peer ex_env ([?wP] ! 0) ex_remove),
            [?wP][0 := fst (snd (set_peer ex_env ([?wP] ! 0) ex_remove))],
            (snd (snd (set_dev ex_env [?wg] ?cut)))\<lparr>wgdevice_a_peers :=
               Some ([?first] @ (0, snd (snd (set_peer ex_env ([?wP] ! 0) ex_remove))) # [?third])\<rparr>)"
    by auto
  then have failed: "set_dev ex_env [?wg] ?attrs
         = (- ENODEV, [?wP],
            (snd (snd (set_dev ex_env [?wg] ?cut)))\<lparr>wgdevice_a_peers :=
               Some [?first, (0, ex_remove), ?third]\<rparr>)"
    unfolding entry by (simp add: ENODEV_def unchanged)
  have ident: "device_identity (fst (snd (set_dev ex_env [?wg] ?attrs)) ! 0) = (True, ex_key 0, ex_key 1)"
    unfolding failed by (simp add: device_identity_def ex_dev_def)
  show ?thesis
    using found res mark port nofail found2 peers2 cut(1,2) entry failed ident
    by (simp add: sub_update_order_def)
qed

section \<open>Zeroing of key buffers\<close>

text \<open>What the code does zero: the buffer of the private key on every path of \<^verbatim>\<open>set\<close>,
  and the buffer of the pre-shared key of every peer entry that \<^verbatim>\<open>set_peer\<close> is called on.\<close>

lemma private_key_zeroed:
  "wgdevice_a_private_key (snd (snd (set_dev env net attrs)))
     = map_option memzero_explicit (wgdevice_a_private_key attrs)"
proof -
  have "wgdevice_a_private_key (snd (snd (set_locked env wg attrs))) = wgdevice_a_private_key attrs" for wg
    by (simp add: set_locked_peers case_prod_beta split: option.splits)
  then show ?thesis
    by (simp add: set_dev_def set_out_nodev_def case_prod_beta split: sum.splits)
qed

lemma preshared_key_zeroed:
  "wgpeer_a_preshared_key (snd (snd (set_peer env wg attrs)))
     = map_option memzero_explicit (wgpeer_a_preshared_key attrs)"
  by (simp add: set_peer_def set_peer_out_def case_prod_beta split: option.splits sum.splits)

text \<open>
  Claim C1 fails on the code. The request below removes a peer that does not exist and
  then names a peer with a pre-shared key. The first entry makes \<^verbatim>\<open>set\<close> leave its loop,
  so \<^verbatim>\<open>set_peer\<close> is never called on the second entry: the request returns \<^verbatim>\<open>-ENODEV\<close>,
  the private key buffer is zero, and the pre-shared key of the second entry is still in
  its buffer. The same happens to every pre-shared key of a request whose device is not
  found.
\<close>

theorem preshared_key_left_after_abort:
  "fst (set_dev ex_env [ex_dev] ex_abort) = - ENODEV
   \<and> wgdevice_a_private_key (snd (snd (set_dev ex_env [ex_dev] ex_abort))) = Some (replicate 32 0)
   \<and> wgdevice_a_peers (snd (snd (set_dev ex_env [ex_dev] ex_abort))) = Some [(0, ex_remove), (0, ex_self)]
   \<and> wgpeer_a_preshared_key ex_self = Some (replicate 32 7)
   \<and> fst (set_dev ex_env [] ex_abort) = - ENODEV
   \<and> wgdevice_a_peers (snd (snd (set_dev ex_env [] ex_abort))) = Some [(0, ex_remove), (0, ex_self)]"
proof -
  have found: "lookup_interface [ex_dev] ex_abort = Inr 0"
    by (simp add: lookup_interface_def ex_abort_def ex_device_attrs_def ex_dev_def KBUILD_MODNAME_def)
  have port: "listen_port_ret ex_env ex_abort ([ex_dev] ! 0) = 0"
    by (simp add: listen_port_ret_def update_listen_port_def ex_abort_def ex_device_attrs_def)
  have peers: "wgdevice_a_peers ex_abort = Some [(0, ex_remove), (0, ex_self)]"
    by (simp add: ex_abort_def)
  have fields: "device_fields_applied ex_env ex_abort ex_dev
      = ex_dev\<lparr>device_update_gen := 1, static_private := ex_key 5, static_public := ex_key 6\<rparr>"
    by (simp add: device_fields_applied_def update_fwmark_def update_listen_port_def
          update_replace_peers_def update_private_key_def remove_unusable_peers_def
          noise_set_static_identity_private_key_def pubkey_hashtable_lookup_def
          NOISE_PUBLIC_KEY_LEN_def ex_abort_def ex_device_attrs_def ex_dev_def ex_env_def ex_key_def)
  have first: "set_peer ex_env (ex_dev\<lparr>device_update_gen := 1, static_private := ex_key 5, static_public := ex_key 6\<rparr>) ex_remove
      = (- ENODEV, ex_dev\<lparr>device_update_gen := 1, static_private := ex_key 5, static_public := ex_key 6\<rparr>, ex_remove)"
    by (simp add: set_peer_def set_peer_public_key_def set_peer_lookup_def set_peer_flags_def
          set_peer_out_def pubkey_hashtable_lookup_def NOISE_PUBLIC_KEY_LEN_def WGPEER_F_REMOVE_ME_def
          ex_remove_def ex_peer_attrs_def ex_dev_def)
  have run: "set_dev ex_env [ex_dev] ex_abort
      = (- ENODEV, [ex_dev\<lparr>device_update_gen := 1, static_private := ex_key 5, static_public := ex_key 6\<rparr>],
         set_out_nodev (ex_abort\<lparr>wgdevice_a_peers := Some [(0, ex_remove), (0, ex_self)]\<rparr>))"
    unfolding set_dev_peers [OF found port peers] using fields first by (simp add: ENODEV_def)
  have none: "set_dev ex_env [] ex_abort = (- ENODEV, [], set_out_nodev ex_abort)"
    by (simp add: set_dev_def lookup_interface_def ex_abort_def ex_device_attrs_def)
  show ?thesis
    unfolding run none
    by (simp add: set_out_nodev_def ex_abort_def ex_self_def ex_peer_attrs_def memzero_explicit_def
          ex_key_def)
qed

section \<open>Messages\<close>

lemma skb_add_Nil [simp]: "skb_add skb [] = skb"
  by (simp add: skb_add_def)


lemma skb_add_fields [simp]:
  "skb_end (skb_add skb xs) = skb_end skb"
  "skb_len (skb_add skb xs) = skb_len skb + sum_list (map item_size xs)"
  "skb_data (skb_add skb xs) = skb_data skb @ xs"
  by (simp_all add: skb_add_def)


lemma nla_total_size_pos [simp]: "0 < nla_total_size n"
  by (simp add: nla_total_size_def NLA_HDRLEN_def)





lemma nla_nest_cancel_add [simp]: "nla_nest_cancel (skb_add skb xs) (skb_tail_pointer skb) = skb"
  by (simp add: nla_nest_cancel_def nlmsg_trim_def skb_add_def skb_tail_pointer_def)

lemma genlmsg_cancel_add [simp]: "genlmsg_cancel (skb_add skb xs) (Some (skb_tail_pointer skb)) = skb"
  by (simp add: genlmsg_cancel_def nlmsg_trim_def skb_add_def skb_tail_pointer_def)




section \<open>One allowed IP and the walk over the allowed IPs of a peer\<close>

lemma u32_small [simp]: "n < 4294967296 \<Longrightarrow> u32 n = n"
  by (simp add: u32_def)

lemma item_size_allowedip_items [simp]:
  "sum_list (map item_size (allowedip_items j e)) = allowedip_size e"
  by (simp add: allowedip_items_def allowedip_size_def)




lemma allowedips_items_size [simp]:
  "sum_list (map item_size (allowedips_items j es)) = sum_list (map allowedip_size es)"
  by (induction es arbitrary: j) simp_all

lemma allowedips_items_append:
  "allowedips_items j (xs @ ys) = allowedips_items j xs @ allowedips_items (j + length xs) ys"
  by (induction xs arbitrary: j) simp_all



section \<open>A split inside the first peer of a resumed message\<close>

lemmas get_eval = get_def get_device_def get_device_fields_def get_peer_def get_peer_fields_def get_allowedips_def
  peers_after_def alloc_skb_def ex_cb_def ex_dump_dev_def ex_dev_def ex_peer_def ex_table_def
  ex_key_def endpoint_zero_def genlmsg_put_def genlmsg_cancel_def nla_nest_start_def
  nla_nest_end_def nla_nest_cancel_def nlmsg_trim_def nla_put_def skb_put_def skb_tailroom_def
  skb_tail_pointer_def nla_total_size_def NLA_HDRLEN_def genlmsg_total_size_def u32_def u16_def
  allowedip_len_def AF_INET_def AF_INET6_def sizeof_in_addr_def sizeof_in6_addr_def
  sizeof_timeval_def NOISE_PUBLIC_KEY_LEN_def NOISE_SYMMETRIC_KEY_LEN_def EMSGSIZE_def
  sizeof_sockaddr_in_def sizeof_sockaddr_in6_def Let_def

text \<open>The first message holds the device and the first peer.\<close>

lemma ex_get_first:
  "fst (get 250 [ex_dump_dev] (alloc_skb 190) ex_cb) = 188"
  "snd (snd (get 250 [ex_dump_dev] (alloc_skb 190) ex_cb)) = ex_cb\<lparr>cb_args1 := Some 0\<rparr>"
  "allowedips_of (skb_data (fst (snd (get 250 [ex_dump_dev] (alloc_skb 190) ex_cb)))) = []"
  by (simp_all add: get_eval allowedips_of_def)

text \<open>The second message is cut inside the second peer, after its first allowed IP; the
  cursor it leaves names no peer.\<close>

lemma ex_get_second:
  "fst (get 250 [ex_dump_dev] (alloc_skb 190) (ex_cb\<lparr>cb_args1 := Some 0\<rparr>)) = 184"
  "snd (snd (get 250 [ex_dump_dev] (alloc_skb 190) (ex_cb\<lparr>cb_args1 := Some 0\<rparr>)))
     = ex_cb\<lparr>cb_args1 := None, cb_args2 := 2\<rparr>"
  "allowedips_of (skb_data (fst (snd (get 250 [ex_dump_dev] (alloc_skb 190) (ex_cb\<lparr>cb_args1 := Some 0\<rparr>)))))
     = [(ex_key 2, Data [10, 0, 1, 0])]"
  by (simp_all add: get_eval allowedips_of_def)

text \<open>The third message starts again at the head of the peer list.\<close>

lemma ex_get_third:
  "fst (get 250 [ex_dump_dev] (alloc_skb 190) (ex_cb\<lparr>cb_args1 := None, cb_args2 := 2\<rparr>)) = 100"
  "snd (snd (get 250 [ex_dump_dev] (alloc_skb 190) (ex_cb\<lparr>cb_args1 := None, cb_args2 := 2\<rparr>)))
     = ex_cb\<lparr>cb_args1 := Some 0\<rparr>"
  "allowedips_of (skb_data (fst (snd (get 250 [ex_dump_dev] (alloc_skb 190) (ex_cb\<lparr>cb_args1 := None, cb_args2 := 2\<rparr>)))))
     = []"
  "device_attrs_of (skb_data (fst (snd (get 250 [ex_dump_dev] (alloc_skb 190) (ex_cb\<lparr>cb_args1 := None, cb_args2 := 2\<rparr>)))))
     = [WGDEVICE_A_LISTEN_PORT, WGDEVICE_A_FWMARK, WGDEVICE_A_IFINDEX, WGDEVICE_A_IFNAME]"
  "keys_in (skb_data (fst (snd (get 250 [ex_dump_dev] (alloc_skb 190) (ex_cb\<lparr>cb_args1 := None, cb_args2 := 2\<rparr>)))))
     = [ex_key 1]"
  by (simp_all add: get_eval allowedips_of_def device_attrs_of_def)

lemma ex_dump_loops:
  "netlink_dump n 250 [ex_dump_dev] 190 (ex_cb\<lparr>cb_args1 := Some 0\<rparr>) = None
   \<and> netlink_dump n 250 [ex_dump_dev] 190 (ex_cb\<lparr>cb_args1 := None, cb_args2 := 2\<rparr>) = None"
proof (induction n)
  case 0
  show ?case by simp
next
  case (Suc n)
  show ?case
    using Suc ex_get_second(1,2) ex_get_third(1,2) by (simp add: case_prod_beta)
qed

lemma ex_dump_never_done: "netlink_dump n 250 [ex_dump_dev] 190 ex_cb = None"
proof (cases n)
  case 0
  then show ?thesis by simp
next
  case (Suc m)
  then show ?thesis
    using ex_dump_loops [of m] ex_get_first(1,2) by (simp add: case_prod_beta)
qed

text \<open>
  Claim C3 fails on the code. The claim is that the allowed IP at a split is written
  exactly once across the cut message and the resumed one. For the device \<open>ex_dump_dev\<close>, whose second peer has the allowed IPs
  10.0.1.0/24 and 10.0.2.0/24, and messages of 190 bytes: the message resumed after the
  first peer is cut inside the second peer after 10.0.1.0/24 and leaves the allowed-IP
  cursor 2 with no peer cursor. The message resumed from there writes the device
  attributes and the first peer again and no allowed IP, and leaves the cursor that the
  first message left. So 10.0.2.0/24, the entry at the split, is never written,
  10.0.1.0/24 is written again in every second message, and the dump is not done after
  any number of calls.
\<close>

theorem split_entry_dropped_in_resumed_message:
  "snd (snd (get 250 [ex_dump_dev] (alloc_skb 190) (ex_cb\<lparr>cb_args1 := Some 0\<rparr>)))
     = ex_cb\<lparr>cb_args1 := None, cb_args2 := 2\<rparr>
   \<and> allowedips_of (skb_data (fst (snd (get 250 [ex_dump_dev] (alloc_skb 190) (ex_cb\<lparr>cb_args1 := Some 0\<rparr>)))))
     = [(ex_key 2, Data [10, 0, 1, 0])]
   \<and> 0 < fst (get 250 [ex_dump_dev] (alloc_skb 190) (ex_cb\<lparr>cb_args1 := None, cb_args2 := 2\<rparr>))
   \<and> snd (snd (get 250 [ex_dump_dev] (alloc_skb 190) (ex_cb\<lparr>cb_args1 := None, cb_args2 := 2\<rparr>)))
     = ex_cb\<lparr>cb_args1 := Some 0\<rparr>
   \<and> allowedips_of (skb_data (fst (snd (get 250 [ex_dump_dev] (alloc_skb 190) (ex_cb\<lparr>cb_args1 := None, cb_args2 := 2\<rparr>)))))
     = []
   \<and> device_attrs_of (skb_data (fst (snd (get 250 [ex_dump_dev] (alloc_skb 190) (ex_cb\<lparr>cb_args1 := None, cb_args2 := 2\<rparr>)))))
     = [WGDEVICE_A_LISTEN_PORT, WGDEVICE_A_FWMARK, WGDEVICE_A_IFINDEX, WGDEVICE_A_IFNAME]
   \<and> keys_in (skb_data (fst (snd (get 250 [ex_dump_dev] (alloc_skb 190) (ex_cb\<lparr>cb_args1 := None, cb_args2 := 2\<rparr>)))))
     = [ex_key 1]
   \<and> netlink_dump n 250 [ex_dump_dev] 190 ex_cb = None"
  using ex_get_second(2,3) ex_get_third ex_dump_never_done [of n] by simp

section \<open>One peer\<close>

lemma attr_items_size [simp]: "sum_list (map item_size (attr_items l)) = attrs_size l"
  by (induction l) (simp_all add: attr_items_def attrs_size_def case_prod_beta)









section \<open>Reading the items of a message\<close>

lemma attributed_append:
  "attributed k (xs @ ys) = attributed k xs @ attributed (key_after k xs) ys"
  by (induction k xs rule: attributed.induct) simp_all

lemma key_after_append: "key_after k (xs @ ys) = key_after (key_after k xs) ys"
  by (induction k xs rule: key_after.induct) simp_all

lemma keys_in_append: "keys_in (xs @ ys) = keys_in xs @ keys_in ys"
  by (induction xs rule: keys_in.induct) simp_all

lemma peer_field_attrs_view [simp]:
  "attributed k (attr_items (peer_field_attrs HZ p)) = stream_of k (peer_field_attrs HZ p)"
  "key_after k (attr_items (peer_field_attrs HZ p)) = k"
  "keys_in (attr_items (peer_field_attrs HZ p)) = []"
  by (simp_all add: attr_items_def peer_field_attrs_def stream_of_def)

lemma device_field_attrs_view [simp]:
  "attributed k (attr_items (device_field_attrs wg)) = stream_of k (device_field_attrs wg)"
  "key_after k (attr_items (device_field_attrs wg)) = k"
  "keys_in (attr_items (device_field_attrs wg)) = []"
  by (simp_all add: attr_items_def device_field_attrs_def stream_of_def)

lemma allowedips_items_view [simp]:
  "attributed k (allowedips_items j es) = concat (map (allowedip_stream k) es)"
  "key_after k (allowedips_items j es) = k"
  "keys_in (allowedips_items j es) = []"
  by (induction es arbitrary: j) (simp_all add: allowedip_items_def allowedip_stream_def)

lemma peer_items_view [simp]:
  "attributed k (peer_items HZ wg p i c m)
     = (if c = 0 then stream_of (remote_static p) (peer_field_attrs HZ p) else [])
       @ concat (map (allowedip_stream (remote_static p))
                   (take m (drop (c - 1) (peer_allowedips wg (peer_id p)))))"
  "key_after k (peer_items HZ wg p i c m) = remote_static p"
  "keys_in (peer_items HZ wg p i c m) = [remote_static p]"
  by (simp_all add: peer_items_def peer_head_items_def attributed_append key_after_append
        keys_in_append)

lemma rest_stream_simps [simp]:
  "rest_stream HZ wg c [] = []"
  "rest_stream HZ wg 0 ps = concat (map (peer_stream HZ wg) ps)"
  by (simp_all add: rest_stream_def peer_stream_def split: list.splits)



section \<open>The loop over the peers\<close>



section \<open>One message of a dump\<close>



lemma alloc_skb_fields [simp]:
  "skb_end (alloc_skb sz) = sz" "skb_len (alloc_skb sz) = 0" "skb_data (alloc_skb sz) = []"
  by (simp_all add: alloc_skb_def)

lemma peers_after_None [simp]: "peers_after None ps = ps"
  by (simp add: peers_after_def)








section \<open>The whole dump\<close>







end
